theory Spec2Isabelle
  imports Complex_Main "HOL-Library.List_Lexorder" "HOL-Library.Char_ord"
begin

section \<open>Go values, errors and panics\<close>

text \<open>
  The package \<open>appsec\<close> is a set of request/response bindings over a shared HTTP
  executor. Go's \<open>int\<close> is modelled by \<open>int\<close>: the package never does arithmetic
  on an integer, it only compares it with zero and prints it. A \<open>[]byte\<close> is a
  \<open>string\<close> (a list of 8-bit characters), a \<open>nil\<close> slice is the empty list.
\<close>

type_synonym RawMessage = string

text \<open>
  The dynamic values an \<open>interface{}\<close> can hold here. \<open>json.Unmarshal\<close> into an
  \<open>interface{}\<close> stores \<open>nil\<close>, \<open>bool\<close>, \<open>float64\<close>, \<open>string\<close>,
  \<open>[]interface{}\<close> or \<open>map[string]interface{}\<close>; \<open>GoInt\<close> is the dynamic type
  that the \<open>reflect.Int\<close> branch of \<open>customDenyID.UnmarshalJSON\<close> asks for.
  The payload of a \<open>float64\<close> is never inspected by the package, only its kind is.
\<close>

datatype go_value =
    GoNil
  | GoBool bool
  | GoInt int
  | GoFloat64 real
  | GoString string
  | GoSlice "go_value list"
  | GoMap "(string \<times> go_value) list"

datatype Kind =
    reflect_Invalid | reflect_Bool | reflect_Int | reflect_Float64 | reflect_String
  | reflect_Slice | reflect_Map | reflect_Interface

text \<open>\<open>reflect.ValueOf(v).Kind()\<close> for a value held in an \<open>interface{}\<close>.\<close>

fun ValueOf_Kind :: "go_value \<Rightarrow> Kind" where
  "ValueOf_Kind GoNil = reflect_Invalid"
| "ValueOf_Kind (GoBool b) = reflect_Bool"
| "ValueOf_Kind (GoInt i) = reflect_Int"
| "ValueOf_Kind (GoFloat64 x) = reflect_Float64"
| "ValueOf_Kind (GoString s) = reflect_String"
| "ValueOf_Kind (GoSlice xs) = reflect_Slice"
| "ValueOf_Kind (GoMap kvs) = reflect_Map"

text \<open>
  \<open>items.Index(i).Kind()\<close> where \<open>items\<close> reflects a \<open>[]interface{}\<close>: the element
  is addressed at its static type \<open>interface{}\<close>, whatever it holds.
\<close>

definition Index_Kind :: "go_value \<Rightarrow> Kind" where
  "Index_Kind item = reflect_Interface"

datatype go_panic = TypeAssertionError string string

fun type_name :: "go_value \<Rightarrow> string" where
  "type_name GoNil = ''nil''"
| "type_name (GoBool b) = ''bool''"
| "type_name (GoInt i) = ''int''"
| "type_name (GoFloat64 x) = ''float64''"
| "type_name (GoString s) = ''string''"
| "type_name (GoSlice xs) = ''[]interface {}''"
| "type_name (GoMap kvs) = ''map[string]interface {}''"

text \<open>The unchecked type assertions \<open>v.(string)\<close> and \<open>v.(int)\<close>: a mismatch panics.\<close>

fun assert_string :: "go_value \<Rightarrow> go_panic + string" where
  "assert_string (GoString s) = Inr s"
| "assert_string v = Inl (TypeAssertionError (type_name v) ''string'')"

fun assert_int :: "go_value \<Rightarrow> go_panic + int" where
  "assert_int (GoInt i) = Inr i"
| "assert_int v = Inl (TypeAssertionError (type_name v) ''int'')"

text \<open>
  Errors. \<open>errors_New\<close> is a leaf error (a sentinel, a transport fault, an API error of
  the error mapper); \<open>validation_Errors\<close> is the filtered \<open>validation.Errors\<close> map, the
  field names with their messages; \<open>fmt_Errorf f w ss\<close> is \<open>fmt.Errorf\<close> with format
  \<open>f\<close>, the operand of \<open>%w\<close> (\<open>None\<close> when that operand is a nil error) and the
  operands of \<open>%s\<close>.
\<close>

datatype go_error =
    errors_New string
  | validation_Errors "(string \<times> string) list"
  | fmt_Errorf string "go_error option" "string list"

fun errors_Unwrap :: "go_error \<Rightarrow> go_error option" where
  "errors_Unwrap (fmt_Errorf f w ss) = w"
| "errors_Unwrap e = None"

text \<open>\<open>errors.Is\<close>: the target is the error itself or is reached by unwrapping.\<close>

fun errors_Is :: "go_error \<Rightarrow> go_error \<Rightarrow> bool" where
  "errors_Is (fmt_Errorf f (Some e) ss) target =
     (fmt_Errorf f (Some e) ss = target \<or> errors_Is e target)"
| "errors_Is e target = (e = target)"

section \<open>Decimal printing and \<open>fmt.Sprintf\<close>\<close>

definition digit :: "nat \<Rightarrow> char" where
  "digit n = ''0123456789'' ! n"

function decimal :: "nat \<Rightarrow> string" where
  "decimal n = (if n < 10 then [digit n] else decimal (n div 10) @ [digit (n mod 10)])"
  by pat_completeness auto
termination
  by (relation "measure id") auto

declare decimal.simps [simp del]

text \<open>\<open>strconv.Itoa\<close>, which is also what the verb \<open>%d\<close> prints.\<close>

definition Itoa :: "int \<Rightarrow> string" where
  "Itoa i = (if i < 0 then CHR ''-'' # decimal (nat (- i)) else decimal (nat i))"

datatype fmt_arg = D int | S string | W "string option"

text \<open>
  \<open>fmt.Sprintf\<close> and the formatting of \<open>fmt.Errorf\<close> for the verbs the package
  uses: \<open>%d\<close> on an \<open>int\<close>, \<open>%s\<close> on a \<open>string\<close> and \<open>%w\<close> on an error, whose
  operand \<open>W\<close> carries the message of the error, or \<open>None\<close> for a \<open>nil\<close> error
  (printed as \<open>%!w(<nil>)\<close>). A missing operand prints \<open>%!d(MISSING)\<close>; an operand of
  another type prints Go's bad-verb marker. Any other character after \<open>%\<close> is copied
  through: no such verb occurs in a format string of the package.
\<close>

definition bad_verb :: "char \<Rightarrow> fmt_arg \<Rightarrow> string" where
  "bad_verb c a =
     ''%!'' @ [c] @
     (case a of
        D n \<Rightarrow> ''(int='' @ Itoa n @ '')''
      | S s \<Rightarrow> ''(string='' @ s @ '')''
      | W None \<Rightarrow> ''(<nil>)''
      | W (Some m) \<Rightarrow> ''(error='' @ m @ '')'')"

definition render :: "char \<Rightarrow> fmt_arg \<Rightarrow> string" where
  "render c a =
     (case a of
        D n \<Rightarrow> if c = CHR ''d'' then Itoa n else bad_verb c a
      | S s \<Rightarrow> if c = CHR ''s'' then s else bad_verb c a
      | W None \<Rightarrow> bad_verb c a
      | W (Some m) \<Rightarrow> if c = CHR ''w'' \<or> c = CHR ''s'' then m else bad_verb c a)"

definition verb :: "char \<Rightarrow> fmt_arg list \<Rightarrow> string \<times> fmt_arg list" where
  "verb c args =
     (if c = CHR ''%'' then (''%'', args)
      else if c = CHR ''d'' \<or> c = CHR ''s'' \<or> c = CHR ''w'' then
        (case args of
           [] \<Rightarrow> (''%!'' @ [c] @ ''(MISSING)'', [])
         | a # rest \<Rightarrow> (render c a, rest))
      else ([CHR ''%'', c], args))"

fun Sprintf :: "string \<Rightarrow> fmt_arg list \<Rightarrow> string" where
  "Sprintf [] args = []"
| "Sprintf [c] args = [c]"
| "Sprintf (c # d # fs) args =
     (if c = CHR ''%'' then fst (verb d args) @ Sprintf fs (snd (verb d args))
      else c # Sprintf (d # fs) args)"

declare Sprintf.simps [simp del]

section \<open>The flexible-type JSON decoders\<close>

text \<open>
  A JSON document, and the argument \<open>data\<close> of an \<open>UnmarshalJSON\<close> method: either
  bytes that \<open>json.Unmarshal\<close> rejects with an error, or the JSON value they spell.
\<close>

datatype json =
    JNull
  | JBool bool
  | JNumber real
  | JString string
  | JArray "json list"
  | JObject "(string \<times> json) list"

datatype data = Malformed go_error | Document json

text \<open>What \<open>json.Unmarshal(data, &nums)\<close> stores in \<open>var nums interface{}\<close>.\<close>

primrec to_interface :: "json \<Rightarrow> go_value" where
  "to_interface JNull = GoNil"
| "to_interface (JBool b) = GoBool b"
| "to_interface (JNumber x) = GoFloat64 x"
| "to_interface (JString s) = GoString s"
| "to_interface (JArray xs) = GoSlice (map to_interface xs)"
| "to_interface (JObject kvs) = GoMap (map (map_prod id to_interface) kvs)"

fun json_Unmarshal :: "data \<Rightarrow> go_error + go_value" where
  "json_Unmarshal (Malformed err) = Inl err"
| "json_Unmarshal (Document j) = Inr (to_interface j)"

type_synonym customDenyID = string

text \<open>
  \<open>customDenyID.UnmarshalJSON\<close>: the receiver \<open>*c\<close> goes in and comes out, with the
  returned error; \<open>Inl\<close> is a panic.
\<close>

definition customDenyID_UnmarshalJSON ::
  "customDenyID \<Rightarrow> data \<Rightarrow> go_panic + (customDenyID \<times> go_error option)" where
  "customDenyID_UnmarshalJSON c dat =
     (case json_Unmarshal dat of
        Inl err \<Rightarrow> Inr (c, Some err)
      | Inr nums \<Rightarrow>
          (case ValueOf_Kind nums of
             reflect_String \<Rightarrow>
               (case assert_string nums of
                  Inl p \<Rightarrow> Inl p
                | Inr s \<Rightarrow> Inr (s, None))
           | reflect_Int \<Rightarrow>
               (case assert_int nums of
                  Inl p \<Rightarrow> Inl p
                | Inr i \<Rightarrow> Inr (Itoa i, None))
           | _ \<Rightarrow> Inr (c, None)))"

type_synonym atomicConditionsName = "string list"

text \<open>
  \<open>items.String()\<close> and \<open>item.String()\<close>: the string of a value of kind
  \<open>String\<close>, a description of the type for any other.
\<close>

fun Value_String :: "go_value \<Rightarrow> string" where
  "Value_String (GoString s) = s"
| "Value_String GoNil = ''<invalid Value>''"
| "Value_String v = ''<'' @ type_name v @ '' Value>''"

text \<open>The elements \<open>items.Index(0)\<close> ... \<open>items.Index(items.Len() - 1)\<close>.\<close>

fun Value_elems :: "go_value \<Rightarrow> go_value list" where
  "Value_elems (GoSlice xs) = xs"
| "Value_elems v = []"

text \<open>
  The loop over the elements of the slice branch of
  \<open>atomicConditionsName.UnmarshalJSON\<close>, from index \<open>i\<close> on, with \<open>*c\<close> as
  accumulator.
\<close>

fun slice_loop :: "go_value list \<Rightarrow> atomicConditionsName \<Rightarrow> go_panic + atomicConditionsName" where
  "slice_loop [] c = Inr c"
| "slice_loop (item # items) c =
     (case Index_Kind item of
        reflect_String \<Rightarrow> slice_loop items (c @ [Value_String item])
      | reflect_Interface \<Rightarrow>
          (case assert_string item of
             Inl p \<Rightarrow> Inl p
           | Inr s \<Rightarrow> slice_loop items (c @ [s]))
      | _ \<Rightarrow> slice_loop items c)"

definition atomicConditionsName_UnmarshalJSON ::
  "atomicConditionsName \<Rightarrow> data \<Rightarrow> go_panic + (atomicConditionsName \<times> go_error option)" where
  "atomicConditionsName_UnmarshalJSON c dat =
     (case json_Unmarshal dat of
        Inl err \<Rightarrow> Inr (c, Some err)
      | Inr nums \<Rightarrow>
          (case ValueOf_Kind nums of
             reflect_String \<Rightarrow> Inr (c @ [Value_String nums], None)
           | reflect_Slice \<Rightarrow>
               (case slice_loop (Value_elems nums) [] of
                  Inl p \<Rightarrow> Inl p
                | Inr c' \<Rightarrow> Inr (c', None))
           | _ \<Rightarrow> Inr (c, None)))"


section \<open>Request validation\<close>

text \<open>
  The rule \<open>validation.Required\<close> of the validation library, as
  \<open>validation.Validate(v, validation.Required)\<close> applies it to an \<open>int\<close> and to a
  \<open>string\<close>: the zero value is empty, and the error says so.
\<close>

definition Required_int :: "int \<Rightarrow> string option" where
  "Required_int v = (if v = 0 then Some ''cannot be blank'' else None)"

definition Required_string :: "string \<Rightarrow> string option" where
  "Required_string v = (if v = [] then Some ''cannot be blank'' else None)"

text \<open>
  A \<open>validation.Errors\<close> literal is the list of its entries, field name and error
  (\<open>None\<close> for \<open>nil\<close>). \<open>Filter\<close> drops the \<open>nil\<close> entries and returns \<open>nil\<close>
  when nothing is left.
\<close>

fun Filter_entries :: "(string \<times> string option) list \<Rightarrow> (string \<times> string) list" where
  "Filter_entries [] = []"
| "Filter_entries ((k, None) # es) = Filter_entries es"
| "Filter_entries ((k, Some m) # es) = (k, m) # Filter_entries es"

definition Filter :: "(string \<times> string option) list \<Rightarrow> go_error option" where
  "Filter es = (if Filter_entries es = [] then None else Some (validation_Errors (Filter_entries es)))"

fun join :: "string \<Rightarrow> string list \<Rightarrow> string" where
  "join sep [] = []"
| "join sep [x] = x"
| "join sep (x # y # ys) = x @ sep @ join sep (y # ys)"

text \<open>
  \<open>Errors.Error()\<close>: the entries in the order of their sorted keys, each printed as
  \<open>key: message\<close>, separated by \<open>; \<close> and closed by a full stop.
\<close>

definition Errors_Error :: "(string \<times> string) list \<Rightarrow> string" where
  "Errors_Error es =
     (if es = [] then []
      else join ''; '' (map (\<lambda>(k, m). k @ '': '' @ m) (sort_key fst es)) @ ''.'')"

text \<open>The method \<open>Error()\<close> of an error value.\<close>

fun error_Error :: "go_error \<Rightarrow> string" where
  "error_Error (errors_New s) = s"
| "error_Error (validation_Errors es) = Errors_Error es"
| "error_Error (fmt_Errorf f None ss) = Sprintf f (W None # map S ss)"
| "error_Error (fmt_Errorf f (Some e) ss) = Sprintf f (W (Some (error_Error e)) # map S ss)"

text \<open>
  Modelled from the spec: the sentinel \<open>ErrStructValidation\<close> is declared in a file of
  the package that is not among the sources; it is the error that every validation
  failure wraps, distinguishable from transport and server errors.
\<close>

definition ErrStructValidation :: go_error where
  "ErrStructValidation = errors_New ''struct validation''"


section \<open>The HTTP collaborators\<close>

definition MethodGet :: string where "MethodGet = ''GET''"
definition MethodPost :: string where "MethodPost = ''POST''"
definition MethodPut :: string where "MethodPut = ''PUT''"
definition MethodDelete :: string where "MethodDelete = ''DELETE''"

definition StatusOK :: int where "StatusOK = 200"
definition StatusCreated :: int where "StatusCreated = 201"
definition StatusNoContent :: int where "StatusNoContent = 204"

record Request =
  Method :: string
  URL :: string
  Header :: "(string \<times> string) list"

record Response =
  StatusCode :: int
  Body :: string

text \<open>\<open>req.Header.Set(key, value)\<close>: the value replaces what the key had.\<close>

definition Header_Set :: "string \<Rightarrow> string \<Rightarrow> Request \<Rightarrow> Request" where
  "Header_Set key v req = req\<lparr>Header := (key, v) # filter (\<lambda>kv. fst kv \<noteq> key) (Header req)\<rparr>"

text \<open>
  A parsed URL (\<open>*url.URL\<close>) is represented by the text that its method
  \<open>String()\<close> prints: \<open>url_Parse s\<close> is \<open>url.Parse(s)\<close>, an error or the parsed
  URL. A request holds the parsed URL, not the string it was built from.
\<close>

text \<open>
  The receiver \<open>p\<close> of every operation, with the context \<open>ctx\<close> of the call and the
  library functions the operation reaches, all of them outside the package and so
  taken as they come:
  \<^item> \<open>request_fault method\<close> is the error with which
    \<open>http.NewRequestWithContext(ctx, method, url, nil)\<close> refuses the method or the
    context, before it looks at the URL;
  \<^item> \<open>url_Parse s\<close> is \<open>url.Parse(s)\<close>;
  \<^item> \<open>Exec req in\<close> is the shared executor \<open>p.Exec(req, out, in...)\<close>: a transport
    fault, or the response together with the value decoded into \<open>out\<close>;
  \<^item> \<open>Error resp\<close> is the shared error mapper \<open>p.Error(resp)\<close>.
  The logger (\<open>p.Log(ctx)\<close>) only traces and is left out.
\<close>

record ('b, 'r) appsec =
  request_fault :: "string \<Rightarrow> go_error option"
  url_Parse :: "string \<Rightarrow> go_error + string"
  Exec :: "Request \<Rightarrow> 'b list \<Rightarrow> go_error + (Response \<times> 'r)"
  Error :: "Response \<Rightarrow> go_error"

text \<open>
  \<open>http.NewRequestWithContext\<close> checks the method and the context, parses the URL
  with \<open>url.Parse\<close> and returns the error of the parse or a request that holds the
  parsed URL.
\<close>

definition NewRequestWithContext :: "('b, 'r) appsec \<Rightarrow> string \<Rightarrow> string \<Rightarrow> go_error + Request" where
  "NewRequestWithContext p method url =
     (case request_fault p method of
        Some err \<Rightarrow> Inl err
      | None \<Rightarrow>
          (case url_Parse p url of
             Inl err \<Rightarrow> Inl err
           | Inr u \<Rightarrow> Inr \<lparr>Method = method, URL = u, Header = []\<rparr>))"

text \<open>
  What an operation does and returns: the calls of \<open>Exec\<close> it made (request and
  body operands), the response pointer (\<open>None\<close> for \<open>nil\<close>) and the error.
\<close>

type_synonym ('b, 'r) result = "(Request \<times> 'b list) list \<times> 'r option \<times> go_error option"

section \<open>Requests\<close>

record GetApiHostnameCoverageOverlappingRequest =
  ConfigID :: int
  Version :: int
  Hostname :: string

record GetAttackGroupsRequest =
  ConfigID :: int
  Version :: int
  PolicyID :: string
  Group :: string

record GetAttackGroupRequest =
  ConfigID :: int
  Version :: int
  PolicyID :: string
  Group :: string

record UpdateAttackGroupRequest =
  ConfigID :: int
  Version :: int
  PolicyID :: string
  Group :: string
  Action :: string
  JsonPayloadRaw :: RawMessage

record GetCustomDenyListRequest =
  ConfigID :: int
  Version :: int
  ID :: string

record GetCustomDenyRequest =
  ConfigID :: int
  Version :: int
  ID :: string

record CreateCustomDenyRequest =
  ConfigID :: int
  Version :: int
  JsonPayloadRaw :: RawMessage

record UpdateCustomDenyRequest =
  ConfigID :: int
  Version :: int
  ID :: string
  JsonPayloadRaw :: RawMessage

record RemoveCustomDenyRequest =
  ConfigID :: int
  Version :: int
  ID :: string

record GetMatchTargetsRequest =
  ConfigID :: int
  ConfigVersion :: int
  TargetID :: int

record GetMatchTargetRequest =
  ConfigID :: int
  ConfigVersion :: int
  TargetID :: int

record CreateMatchTargetRequest =
  Type :: string
  ConfigID :: int
  ConfigVersion :: int
  JsonPayloadRaw :: RawMessage

record UpdateMatchTargetRequest =
  ConfigID :: int
  ConfigVersion :: int
  JsonPayloadRaw :: RawMessage
  TargetID :: int

record RemoveMatchTargetRequest =
  ConfigID :: int
  ConfigVersion :: int
  TargetID :: int

record GetReputationAnalysisRequest =
  ConfigID :: int
  Version :: int
  PolicyID :: string

record UpdateReputationAnalysisRequest =
  ConfigID :: int
  Version :: int
  PolicyID :: string
  ForwardToHTTPHeader :: bool
  ForwardSharedIPToHTTPHeaderAndSIEM :: bool

record RemoveReputationAnalysisRequest =
  ConfigID :: int
  Version :: int
  PolicyID :: string
  ForwardToHTTPHeader :: bool
  ForwardSharedIPToHTTPHeaderAndSIEM :: bool

record GetReputationProfilesRequest =
  ConfigID :: int
  ConfigVersion :: int
  ReputationProfileId :: int

record GetReputationProfileRequest =
  ConfigID :: int
  ConfigVersion :: int
  ReputationProfileId :: int

record CreateReputationProfileRequest =
  ConfigID :: int
  ConfigVersion :: int
  JsonPayloadRaw :: RawMessage

record UpdateReputationProfileRequest =
  ConfigID :: int
  ConfigVersion :: int
  ReputationProfileId :: int
  JsonPayloadRaw :: RawMessage

record RemoveReputationProfileRequest =
  ConfigID :: int
  ConfigVersion :: int
  ReputationProfileId :: int

record GetVersionNotesRequest =
  ConfigID :: int
  Version :: int

record UpdateVersionNotesRequest =
  ConfigID :: int
  Version :: int
  Notes :: string


text \<open>\<open>time.Time\<close> values are carried, never read: their type is a parameter.\<close>

record 't Production =
  Status :: string
  Time :: 't

record Staging =
  Status :: string

record 't GetConfigurationCloneRequest =
  ConfigID :: int
  ConfigName :: string
  Version :: int
  VersionNotes :: string
  CreateDate :: 't
  CreatedBy :: string
  BasedOn :: int
  Production :: "'t Production"
  Staging :: Staging

record CreateFrom =
  ConfigID :: int
  Version :: int

record CreateConfigurationCloneRequest =
  Name :: string
  Description :: string
  ContractID :: string
  GroupID :: int
  Hostnames :: "string list"
  CreateFrom :: CreateFrom

subsection \<open>The \<open>Validate\<close> methods\<close>

definition GetApiHostnameCoverageOverlappingRequest_Validate :: "GetApiHostnameCoverageOverlappingRequest \<Rightarrow> go_error option" where
  "GetApiHostnameCoverageOverlappingRequest_Validate v =
     Filter
       [(''ConfigID'', Required_int (GetApiHostnameCoverageOverlappingRequest.ConfigID v)),
        (''Version'', Required_int (GetApiHostnameCoverageOverlappingRequest.Version v))]"

definition GetAttackGroupsRequest_Validate :: "GetAttackGroupsRequest \<Rightarrow> go_error option" where
  "GetAttackGroupsRequest_Validate v =
     Filter
       [(''ConfigID'', Required_int (GetAttackGroupsRequest.ConfigID v)),
        (''Version'', Required_int (GetAttackGroupsRequest.Version v)),
        (''PolicyID'', Required_string (GetAttackGroupsRequest.PolicyID v))]"

definition GetAttackGroupRequest_Validate :: "GetAttackGroupRequest \<Rightarrow> go_error option" where
  "GetAttackGroupRequest_Validate v =
     Filter
       [(''ConfigID'', Required_int (GetAttackGroupRequest.ConfigID v)),
        (''Version'', Required_int (GetAttackGroupRequest.Version v)),
        (''PolicyID'', Required_string (GetAttackGroupRequest.PolicyID v))]"

definition UpdateAttackGroupRequest_Validate :: "UpdateAttackGroupRequest \<Rightarrow> go_error option" where
  "UpdateAttackGroupRequest_Validate v =
     Filter
       [(''ConfigID'', Required_int (UpdateAttackGroupRequest.ConfigID v)),
        (''Version'', Required_int (UpdateAttackGroupRequest.Version v)),
        (''PolicyID'', Required_string (UpdateAttackGroupRequest.PolicyID v))]"

definition GetCustomDenyListRequest_Validate :: "GetCustomDenyListRequest \<Rightarrow> go_error option" where
  "GetCustomDenyListRequest_Validate v =
     Filter
       [(''ConfigID'', Required_int (GetCustomDenyListRequest.ConfigID v)),
        (''Version'', Required_int (GetCustomDenyListRequest.Version v))]"

definition GetCustomDenyRequest_Validate :: "GetCustomDenyRequest \<Rightarrow> go_error option" where
  "GetCustomDenyRequest_Validate v =
     Filter
       [(''ConfigID'', Required_int (GetCustomDenyRequest.ConfigID v)),
        (''Version'', Required_int (GetCustomDenyRequest.Version v)),
        (''ID'', Required_string (GetCustomDenyRequest.ID v))]"

definition CreateCustomDenyRequest_Validate :: "CreateCustomDenyRequest \<Rightarrow> go_error option" where
  "CreateCustomDenyRequest_Validate v =
     Filter
       [(''ConfigID'', Required_int (CreateCustomDenyRequest.ConfigID v)),
        (''Version'', Required_int (CreateCustomDenyRequest.Version v))]"

definition UpdateCustomDenyRequest_Validate :: "UpdateCustomDenyRequest \<Rightarrow> go_error option" where
  "UpdateCustomDenyRequest_Validate v =
     Filter
       [(''ConfigID'', Required_int (UpdateCustomDenyRequest.ConfigID v)),
        (''Version'', Required_int (UpdateCustomDenyRequest.Version v)),
        (''ID'', Required_string (UpdateCustomDenyRequest.ID v))]"

definition RemoveCustomDenyRequest_Validate :: "RemoveCustomDenyRequest \<Rightarrow> go_error option" where
  "RemoveCustomDenyRequest_Validate v =
     Filter
       [(''ConfigID'', Required_int (RemoveCustomDenyRequest.ConfigID v)),
        (''Version'', Required_int (RemoveCustomDenyRequest.Version v)),
        (''ID'', Required_string (RemoveCustomDenyRequest.ID v))]"

definition GetMatchTargetsRequest_Validate :: "GetMatchTargetsRequest \<Rightarrow> go_error option" where
  "GetMatchTargetsRequest_Validate v =
     Filter
       [(''ConfigID'', Required_int (GetMatchTargetsRequest.ConfigID v)),
        (''ConfigVersion'', Required_int (GetMatchTargetsRequest.ConfigVersion v))]"

definition GetMatchTargetRequest_Validate :: "GetMatchTargetRequest \<Rightarrow> go_error option" where
  "GetMatchTargetRequest_Validate v =
     Filter
       [(''ConfigID'', Required_int (GetMatchTargetRequest.ConfigID v)),
        (''ConfigVersion'', Required_int (GetMatchTargetRequest.ConfigVersion v)),
        (''TargetID'', Required_int (GetMatchTargetRequest.TargetID v))]"

definition CreateMatchTargetRequest_Validate :: "CreateMatchTargetRequest \<Rightarrow> go_error option" where
  "CreateMatchTargetRequest_Validate v =
     Filter
       [(''ConfigID'', Required_int (CreateMatchTargetRequest.ConfigID v)),
        (''ConfigVersion'', Required_int (CreateMatchTargetRequest.ConfigVersion v))]"

definition UpdateMatchTargetRequest_Validate :: "UpdateMatchTargetRequest \<Rightarrow> go_error option" where
  "UpdateMatchTargetRequest_Validate v =
     Filter
       [(''ConfigID'', Required_int (UpdateMatchTargetRequest.ConfigID v)),
        (''ConfigVersion'', Required_int (UpdateMatchTargetRequest.ConfigVersion v)),
        (''TargetID'', Required_int (UpdateMatchTargetRequest.TargetID v))]"

definition RemoveMatchTargetRequest_Validate :: "RemoveMatchTargetRequest \<Rightarrow> go_error option" where
  "RemoveMatchTargetRequest_Validate v =
     Filter
       [(''ConfigID'', Required_int (RemoveMatchTargetRequest.ConfigID v)),
        (''ConfigVersion'', Required_int (RemoveMatchTargetRequest.ConfigVersion v)),
        (''TargetID'', Required_int (RemoveMatchTargetRequest.TargetID v))]"

definition GetReputationAnalysisRequest_Validate :: "GetReputationAnalysisRequest \<Rightarrow> go_error option" where
  "GetReputationAnalysisRequest_Validate v =
     Filter
       [(''ConfigID'', Required_int (GetReputationAnalysisRequest.ConfigID v)),
        (''Version'', Required_int (GetReputationAnalysisRequest.Version v)),
        (''PolicyID'', Required_string (GetReputationAnalysisRequest.PolicyID v))]"

definition UpdateReputationAnalysisRequest_Validate :: "UpdateReputationAnalysisRequest \<Rightarrow> go_error option" where
  "UpdateReputationAnalysisRequest_Validate v =
     Filter
       [(''ConfigID'', Required_int (UpdateReputationAnalysisRequest.ConfigID v)),
        (''Version'', Required_int (UpdateReputationAnalysisRequest.Version v)),
        (''PolicyID'', Required_string (UpdateReputationAnalysisRequest.PolicyID v))]"

definition RemoveReputationAnalysisRequest_Validate :: "RemoveReputationAnalysisRequest \<Rightarrow> go_error option" where
  "RemoveReputationAnalysisRequest_Validate v =
     Filter
       [(''ConfigID'', Required_int (RemoveReputationAnalysisRequest.ConfigID v)),
        (''Version'', Required_int (RemoveReputationAnalysisRequest.Version v)),
        (''PolicyID'', Required_string (RemoveReputationAnalysisRequest.PolicyID v))]"

definition GetReputationProfilesRequest_Validate :: "GetReputationProfilesRequest \<Rightarrow> go_error option" where
  "GetReputationProfilesRequest_Validate v =
     Filter
       [(''ConfigID'', Required_int (GetReputationProfilesRequest.ConfigID v)),
        (''ConfigVersion'', Required_int (GetReputationProfilesRequest.ConfigVersion v))]"

definition GetReputationProfileRequest_Validate :: "GetReputationProfileRequest \<Rightarrow> go_error option" where
  "GetReputationProfileRequest_Validate v =
     Filter
       [(''ConfigID'', Required_int (GetReputationProfileRequest.ConfigID v)),
        (''ConfigVersion'', Required_int (GetReputationProfileRequest.ConfigVersion v)),
        (''RatePolicyID'', Required_int (GetReputationProfileRequest.ReputationProfileId v))]"

definition CreateReputationProfileRequest_Validate :: "CreateReputationProfileRequest \<Rightarrow> go_error option" where
  "CreateReputationProfileRequest_Validate v =
     Filter
       [(''ConfigID'', Required_int (CreateReputationProfileRequest.ConfigID v)),
        (''ConfigVersion'', Required_int (CreateReputationProfileRequest.ConfigVersion v))]"

definition UpdateReputationProfileRequest_Validate :: "UpdateReputationProfileRequest \<Rightarrow> go_error option" where
  "UpdateReputationProfileRequest_Validate v =
     Filter
       [(''ConfigID'', Required_int (UpdateReputationProfileRequest.ConfigID v)),
        (''ConfigVersion'', Required_int (UpdateReputationProfileRequest.ConfigVersion v)),
        (''ReputationProfileId'', Required_int (UpdateReputationProfileRequest.ReputationProfileId v))]"

definition RemoveReputationProfileRequest_Validate :: "RemoveReputationProfileRequest \<Rightarrow> go_error option" where
  "RemoveReputationProfileRequest_Validate v =
     Filter
       [(''ConfigID'', Required_int (RemoveReputationProfileRequest.ConfigID v)),
        (''ConfigVersion'', Required_int (RemoveReputationProfileRequest.ConfigVersion v)),
        (''ReputationProfileId'', Required_int (RemoveReputationProfileRequest.ReputationProfileId v))]"

definition GetVersionNotesRequest_Validate :: "GetVersionNotesRequest \<Rightarrow> go_error option" where
  "GetVersionNotesRequest_Validate v =
     Filter
       [(''ConfigID'', Required_int (GetVersionNotesRequest.ConfigID v)),
        (''Version'', Required_int (GetVersionNotesRequest.Version v))]"

definition UpdateVersionNotesRequest_Validate :: "UpdateVersionNotesRequest \<Rightarrow> go_error option" where
  "UpdateVersionNotesRequest_Validate v =
     Filter
       [(''ConfigID'', Required_int (UpdateVersionNotesRequest.ConfigID v)),
        (''Version'', Required_int (UpdateVersionNotesRequest.Version v))]"


definition GetConfigurationCloneRequest_Validate :: "'t GetConfigurationCloneRequest \<Rightarrow> go_error option" where
  "GetConfigurationCloneRequest_Validate v =
     Filter
       [(''ConfigID'', Required_int (GetConfigurationCloneRequest.ConfigID v)),
        (''Version'', Required_int (GetConfigurationCloneRequest.Version v))]"

definition CreateConfigurationCloneRequest_Validate :: "CreateConfigurationCloneRequest \<Rightarrow> go_error option" where
  "CreateConfigurationCloneRequest_Validate v =
     Filter
       [(''CreateFromConfigID'', Required_int (CreateFrom.ConfigID (CreateFrom v)))]"


section \<open>Responses\<close>

text \<open>
  An operation hands its response struct to \<open>Exec\<close> and returns it as \<open>Exec\<close> left it,
  so the type of a response that is never read is a parameter. The list responses
  that the client filters, and the response that \<open>RemoveMatchTarget\<close> returns
  untouched, are written out; the pointers to condition structs that they carry are
  parameters too.
\<close>

record 'ce AttackGroupsItem =
  Group :: string
  Action :: string
  ConditionException :: "'ce option"

record 'ce GetAttackGroupsResponse =
  AttackGroups :: "'ce AttackGroupsItem list"

record Parameter =
  DisplayName :: string
  Name :: string
  Value :: string

record CustomDenyListItem =
  Description :: string
  Name :: string
  ID :: customDenyID
  Parameters :: "Parameter list"

record GetCustomDenyListResponse =
  CustomDenyList :: "CustomDenyListItem list"

record 'c ReputationProfilesItem =
  Condition :: "'c option"
  Context :: string
  ContextReadable :: string
  Enabled :: bool
  ID :: int
  Name :: string
  SharedIPHandling :: string
  Threshold :: int

record 'c GetReputationProfilesResponse =
  ReputationProfiles :: "'c ReputationProfilesItem list"

record Api =
  ID :: int
  Name :: string

record SecurityPolicy =
  PolicyID :: string

record BypassNetworkList =
  Name :: string
  ID :: string

record APITarget =
  Type :: string
  Apis :: "Api list"
  Sequence :: int
  TargetID :: int
  ConfigID :: int
  ConfigVersion :: int
  SecurityPolicy :: SecurityPolicy
  BypassNetworkLists :: "BypassNetworkList list"

record WebsiteTarget =
  ConfigID :: int
  ConfigVersion :: int
  DefaultFile :: string
  IsNegativeFileExtensionMatch :: bool
  IsNegativePathMatch :: "RawMessage option"
  Sequence :: int
  TargetID :: int
  Type :: string
  FileExtensions :: "string list"
  FilePaths :: "string list"
  Hostnames :: "string list"
  SecurityPolicy :: SecurityPolicy
  BypassNetworkLists :: "BypassNetworkList list"

record MatchTargets =
  APITargets :: "APITarget list"
  WebsiteTargets :: "WebsiteTarget list"

record GetMatchTargetsResponse =
  MatchTargets :: MatchTargets

record RemoveMatchTargetResponse =
  Type :: string
  ConfigID :: int
  ConfigVersion :: int
  DefaultFile :: string
  Hostnames :: "string list"
  IsNegativeFileExtensionMatch :: bool
  IsNegativePathMatch :: bool
  FilePaths :: "string list"
  FileExtensions :: "string list"
  SecurityPolicy :: SecurityPolicy
  Sequence :: int
  TargetID :: int
  BypassNetworkLists :: "BypassNetworkList list"

text \<open>The zero value of \<open>var result RemoveMatchTargetResponse\<close>.\<close>

definition RemoveMatchTargetResponse_zero :: RemoveMatchTargetResponse where
  "RemoveMatchTargetResponse_zero =
     \<lparr>RemoveMatchTargetResponse.Type = [],
      ConfigID = 0,
      ConfigVersion = 0,
      DefaultFile = [],
      Hostnames = [],
      IsNegativeFileExtensionMatch = False,
      IsNegativePathMatch = False,
      FilePaths = [],
      FileExtensions = [],
      SecurityPolicy = \<lparr>PolicyID = []\<rparr>,
      Sequence = 0,
      TargetID = 0,
      BypassNetworkLists = []\<rparr>"

section \<open>The list post-filters\<close>

text \<open>
  Each \<open>for _, val := range ...\<close> loop of a list operation, over the entries still to
  visit, with the slice of the filtered response as accumulator: a matching entry is
  appended.
\<close>

fun GetAttackGroups_loop ::
  "string \<Rightarrow> 'ce AttackGroupsItem list \<Rightarrow> 'ce AttackGroupsItem list \<Rightarrow> 'ce AttackGroupsItem list" where
  "GetAttackGroups_loop g [] filtered = filtered"
| "GetAttackGroups_loop g (val # rest) filtered =
     (if Group val = g then GetAttackGroups_loop g rest (filtered @ [val])
      else GetAttackGroups_loop g rest filtered)"

fun GetCustomDenyList_loop ::
  "string \<Rightarrow> CustomDenyListItem list \<Rightarrow> CustomDenyListItem list \<Rightarrow> CustomDenyListItem list" where
  "GetCustomDenyList_loop i [] filtered = filtered"
| "GetCustomDenyList_loop i (val # rest) filtered =
     (if CustomDenyListItem.ID val = i then GetCustomDenyList_loop i rest (filtered @ [val])
      else GetCustomDenyList_loop i rest filtered)"

fun GetReputationProfiles_loop ::
  "int \<Rightarrow> 'c ReputationProfilesItem list \<Rightarrow> 'c ReputationProfilesItem list \<Rightarrow> 'c ReputationProfilesItem list" where
  "GetReputationProfiles_loop i [] filtered = filtered"
| "GetReputationProfiles_loop i (val # rest) filtered =
     (if ReputationProfilesItem.ID val = i then GetReputationProfiles_loop i rest (filtered @ [val])
      else GetReputationProfiles_loop i rest filtered)"

fun WebsiteTargets_loop :: "int \<Rightarrow> WebsiteTarget list \<Rightarrow> WebsiteTarget list \<Rightarrow> WebsiteTarget list" where
  "WebsiteTargets_loop t [] filtered = filtered"
| "WebsiteTargets_loop t (val # rest) filtered =
     (if WebsiteTarget.TargetID val = t then WebsiteTargets_loop t rest (filtered @ [val])
      else WebsiteTargets_loop t rest filtered)"

fun APITargets_loop :: "int \<Rightarrow> APITarget list \<Rightarrow> APITarget list \<Rightarrow> APITarget list" where
  "APITargets_loop t [] filtered = filtered"
| "APITargets_loop t (val # rest) filtered =
     (if APITarget.TargetID val = t then APITargets_loop t rest (filtered @ [val])
      else APITargets_loop t rest filtered)"

section \<open>The operations\<close>

text \<open>
  Every operation follows the order of its source: validation (where the source
  validates), the URL, the request, the call of \<open>Exec\<close>, the status check. Two
  operations differ from their siblings as their source does:
  \<open>RemoveReputationAnalysis\<close> starts at the URL, and the error that
  \<open>RemoveMatchTarget\<close> builds when \<open>Exec\<close> fails takes as operand of \<open>%w\<close> the
  variable \<open>err\<close> of the request construction, which is \<open>nil\<close> once the request
  is built, while the fault of \<open>Exec\<close> is in \<open>errd\<close>; \<open>RemoveMatchTarget\<close> also
  passes \<open>nil\<close> for \<open>out\<close> and returns its response at the zero value.
\<close>

definition GetApiHostnameCoverageOverlapping ::
  "('b, 'r) appsec \<Rightarrow> GetApiHostnameCoverageOverlappingRequest \<Rightarrow> ('b, 'r) result" where
  "GetApiHostnameCoverageOverlapping p params =
     (case GetApiHostnameCoverageOverlappingRequest_Validate params of
        Some err \<Rightarrow>
          ([], None,
           Some (fmt_Errorf ''%w: %s'' (Some ErrStructValidation) [error_Error err]))
      | None \<Rightarrow>
          (let uri =
             Sprintf
                ''/appsec/v1/configs/%d/versions/%d/hostname-coverage/overlapping?hostname=%s''
                [D (GetApiHostnameCoverageOverlappingRequest.ConfigID params),
                 D (GetApiHostnameCoverageOverlappingRequest.Version params),
                 S (GetApiHostnameCoverageOverlappingRequest.Hostname params)] in
           case NewRequestWithContext p MethodGet uri of
             Inl err \<Rightarrow>
               ([], None, Some (fmt_Errorf ''failed to create GetApiHostnameCoverageOverlapping request: %w'' (Some err) []))
           | Inr req \<Rightarrow>
               (case Exec p req [] of
                  Inl err \<Rightarrow>
                    ([(req, [])], None,
                     Some (fmt_Errorf ''GetApiHostnameCoverageOverlapping request failed: %w'' (Some err) []))
                | Inr (resp, rval) \<Rightarrow>
                    if StatusCode resp \<noteq> StatusOK then
                      ([(req, [])], None, Some (Error p resp))
                    else ([(req, [])], Some rval, None))))"

definition GetAttackGroup ::
  "('b, 'r) appsec \<Rightarrow> GetAttackGroupRequest \<Rightarrow> ('b, 'r) result" where
  "GetAttackGroup p params =
     (case GetAttackGroupRequest_Validate params of
        Some err \<Rightarrow>
          ([], None,
           Some (fmt_Errorf ''%w: %s'' (Some ErrStructValidation) [error_Error err]))
      | None \<Rightarrow>
          (let uri =
             Sprintf
                ''/appsec/v1/configs/%d/versions/%d/security-policies/%s/attack-groups/%s?includeConditionException=true''
                [D (GetAttackGroupRequest.ConfigID params),
                 D (GetAttackGroupRequest.Version params),
                 S (GetAttackGroupRequest.PolicyID params),
                 S (GetAttackGroupRequest.Group params)] in
           case NewRequestWithContext p MethodGet uri of
             Inl err \<Rightarrow>
               ([], None, Some (fmt_Errorf ''failed to create GetAttackGroup request: %w'' (Some err) []))
           | Inr req \<Rightarrow>
               (case Exec p req [] of
                  Inl err \<Rightarrow>
                    ([(req, [])], None,
                     Some (fmt_Errorf ''GetAttackGroup request failed: %w'' (Some err) []))
                | Inr (resp, rval) \<Rightarrow>
                    if StatusCode resp \<noteq> StatusOK then
                      ([(req, [])], None, Some (Error p resp))
                    else ([(req, [])], Some rval, None))))"

definition GetAttackGroups ::
  "('b, 'ce GetAttackGroupsResponse) appsec \<Rightarrow> GetAttackGroupsRequest \<Rightarrow> ('b, 'ce GetAttackGroupsResponse) result" where
  "GetAttackGroups p params =
     (case GetAttackGroupsRequest_Validate params of
        Some err \<Rightarrow>
          ([], None,
           Some (fmt_Errorf ''%w: %s'' (Some ErrStructValidation) [error_Error err]))
      | None \<Rightarrow>
          (let uri =
             Sprintf
                ''/appsec/v1/configs/%d/versions/%d/security-policies/%s/attack-groups?includeConditionException=true''
                [D (GetAttackGroupsRequest.ConfigID params),
                 D (GetAttackGroupsRequest.Version params),
                 S (GetAttackGroupsRequest.PolicyID params)] in
           case NewRequestWithContext p MethodGet uri of
             Inl err \<Rightarrow>
               ([], None, Some (fmt_Errorf ''failed to create GetAttackGroups request: %w'' (Some err) []))
           | Inr req \<Rightarrow>
               (case Exec p req [] of
                  Inl err \<Rightarrow>
                    ([(req, [])], None,
                     Some (fmt_Errorf ''GetAttackGroups request failed: %w'' (Some err) []))
                | Inr (resp, rval) \<Rightarrow>
                    if StatusCode resp \<noteq> StatusOK then
                      ([(req, [])], None, Some (Error p resp))
                    else
                      ([(req, [])],
                       if GetAttackGroupsRequest.Group params \<noteq> [] then
                       Some \<lparr>AttackGroups =
                         GetAttackGroups_loop (GetAttackGroupsRequest.Group params) (AttackGroups rval) []\<rparr>
                       else Some rval,
                       None))))"

definition UpdateAttackGroup ::
  "(UpdateAttackGroupRequest, 'r) appsec \<Rightarrow> UpdateAttackGroupRequest \<Rightarrow> (UpdateAttackGroupRequest, 'r) result" where
  "UpdateAttackGroup p params =
     (case UpdateAttackGroupRequest_Validate params of
        Some err \<Rightarrow>
          ([], None,
           Some (fmt_Errorf ''%w: %s'' (Some ErrStructValidation) [error_Error err]))
      | None \<Rightarrow>
          (let uri =
             Sprintf
                ''/appsec/v1/configs/%d/versions/%d/security-policies/%s/attack-groups/%s/action-condition-exception''
                [D (UpdateAttackGroupRequest.ConfigID params),
                 D (UpdateAttackGroupRequest.Version params),
                 S (UpdateAttackGroupRequest.PolicyID params),
                 S (UpdateAttackGroupRequest.Group params)] in
           case NewRequestWithContext p MethodPut uri of
             Inl err \<Rightarrow>
               ([], None, Some (fmt_Errorf ''failed to create UpdateAttackGroup request: %w'' (Some err) []))
           | Inr req0 \<Rightarrow>
               (let req = Header_Set ''Content-Type'' ''application/json'' req0 in
                case Exec p req [params] of
                  Inl err \<Rightarrow>
                    ([(req, [params])], None,
                     Some (fmt_Errorf ''UpdateAttackGroup request failed: %w'' (Some err) []))
                | Inr (resp, rval) \<Rightarrow>
                    if StatusCode resp \<noteq> StatusOK \<and> StatusCode resp \<noteq> StatusCreated then
                      ([(req, [params])], None, Some (Error p resp))
                    else ([(req, [params])], Some rval, None))))"

definition GetConfigurationClone ::
  "('b, 'r) appsec \<Rightarrow> 't GetConfigurationCloneRequest \<Rightarrow> ('b, 'r) result" where
  "GetConfigurationClone p params =
     (case GetConfigurationCloneRequest_Validate params of
        Some err \<Rightarrow>
          ([], None,
           Some (fmt_Errorf ''%w: %s'' (Some ErrStructValidation) [error_Error err]))
      | None \<Rightarrow>
          (let uri =
             Sprintf
                ''/appsec/v1/configs/%d/versions/%d''
                [D (GetConfigurationCloneRequest.ConfigID params),
                 D (GetConfigurationCloneRequest.Version params)] in
           case NewRequestWithContext p MethodGet uri of
             Inl err \<Rightarrow>
               ([], None, Some (fmt_Errorf ''failed to create getconfigurationclone request: %w'' (Some err) []))
           | Inr req \<Rightarrow>
               (case Exec p req [] of
                  Inl err \<Rightarrow>
                    ([(req, [])], None,
                     Some (fmt_Errorf ''getproperties request failed: %w'' (Some err) []))
                | Inr (resp, rval) \<Rightarrow>
                    if StatusCode resp \<noteq> StatusOK then
                      ([(req, [])], None, Some (Error p resp))
                    else ([(req, [])], Some rval, None))))"

definition CreateConfigurationClone ::
  "(CreateConfigurationCloneRequest, 'r) appsec \<Rightarrow> CreateConfigurationCloneRequest \<Rightarrow> (CreateConfigurationCloneRequest, 'r) result" where
  "CreateConfigurationClone p params =
     (case CreateConfigurationCloneRequest_Validate params of
        Some err \<Rightarrow>
          ([], None,
           Some (fmt_Errorf ''%w: %s'' (Some ErrStructValidation) [error_Error err]))
      | None \<Rightarrow>
          (let uri =
             ''/appsec/v1/configs/'' in
           case NewRequestWithContext p MethodPost uri of
             Inl err \<Rightarrow>
               ([], None, Some (fmt_Errorf ''failed to create create configurationclone request: %w'' (Some err) []))
           | Inr req \<Rightarrow>
               (case Exec p req [params] of
                  Inl err \<Rightarrow>
                    ([(req, [params])], None,
                     Some (fmt_Errorf ''create configurationclonerequest failed: %w'' (Some err) []))
                | Inr (resp, rval) \<Rightarrow>
                    if StatusCode resp \<noteq> StatusOK \<and> StatusCode resp \<noteq> StatusCreated then
                      ([(req, [params])], None, Some (Error p resp))
                    else ([(req, [params])], Some rval, None))))"

definition GetCustomDeny ::
  "('b, 'r) appsec \<Rightarrow> GetCustomDenyRequest \<Rightarrow> ('b, 'r) result" where
  "GetCustomDeny p params =
     (case GetCustomDenyRequest_Validate params of
        Some err \<Rightarrow>
          ([], None,
           Some (fmt_Errorf ''%w: %s'' (Some ErrStructValidation) [error_Error err]))
      | None \<Rightarrow>
          (let uri =
             Sprintf
                ''/appsec/v1/configs/%d/versions/%d/custom-deny/%s''
                [D (GetCustomDenyRequest.ConfigID params),
                 D (GetCustomDenyRequest.Version params),
                 S (GetCustomDenyRequest.ID params)] in
           case NewRequestWithContext p MethodGet uri of
             Inl err \<Rightarrow>
               ([], None, Some (fmt_Errorf ''failed to create GetCustomDeny request: %w'' (Some err) []))
           | Inr req \<Rightarrow>
               (case Exec p req [] of
                  Inl err \<Rightarrow>
                    ([(req, [])], None,
                     Some (fmt_Errorf ''GetCustomDeny request failed: %w'' (Some err) []))
                | Inr (resp, rval) \<Rightarrow>
                    if StatusCode resp \<noteq> StatusOK then
                      ([(req, [])], None, Some (Error p resp))
                    else ([(req, [])], Some rval, None))))"

definition GetCustomDenyList ::
  "('b, GetCustomDenyListResponse) appsec \<Rightarrow> GetCustomDenyListRequest \<Rightarrow> ('b, GetCustomDenyListResponse) result" where
  "GetCustomDenyList p params =
     (case GetCustomDenyListRequest_Validate params of
        Some err \<Rightarrow>
          ([], None,
           Some (fmt_Errorf ''%w: %s'' (Some ErrStructValidation) [error_Error err]))
      | None \<Rightarrow>
          (let uri =
             Sprintf
                ''/appsec/v1/configs/%d/versions/%d/custom-deny''
                [D (GetCustomDenyListRequest.ConfigID params),
                 D (GetCustomDenyListRequest.Version params)] in
           case NewRequestWithContext p MethodGet uri of
             Inl err \<Rightarrow>
               ([], None, Some (fmt_Errorf ''failed to create GetlustomDenyList request: %w'' (Some err) []))
           | Inr req \<Rightarrow>
               (case Exec p req [] of
                  Inl err \<Rightarrow>
                    ([(req, [])], None,
                     Some (fmt_Errorf ''GetCustomDenyList request failed: %w'' (Some err) []))
                | Inr (resp, rval) \<Rightarrow>
                    if StatusCode resp \<noteq> StatusOK then
                      ([(req, [])], None, Some (Error p resp))
                    else
                      ([(req, [])],
                       if GetCustomDenyListRequest.ID params \<noteq> [] then
                       Some \<lparr>CustomDenyList =
                         GetCustomDenyList_loop (GetCustomDenyListRequest.ID params) (CustomDenyList rval) []\<rparr>
                       else Some rval,
                       None))))"

definition UpdateCustomDeny ::
  "(RawMessage, 'r) appsec \<Rightarrow> UpdateCustomDenyRequest \<Rightarrow> (RawMessage, 'r) result" where
  "UpdateCustomDeny p params =
     (case UpdateCustomDenyRequest_Validate params of
        Some err \<Rightarrow>
          ([], None,
           Some (fmt_Errorf ''%w: %s'' (Some ErrStructValidation) [error_Error err]))
      | None \<Rightarrow>
          (let uri =
             Sprintf
                ''/appsec/v1/configs/%d/versions/%d/custom-deny/%s''
                [D (UpdateCustomDenyRequest.ConfigID params),
                 D (UpdateCustomDenyRequest.Version params),
                 S (UpdateCustomDenyRequest.ID params)] in
           case NewRequestWithContext p MethodPut uri of
             Inl err \<Rightarrow>
               ([], None, Some (fmt_Errorf ''failed to create UpdateCustomDeny request: %w'' (Some err) []))
           | Inr req0 \<Rightarrow>
               (let req = Header_Set ''Content-Type'' ''application/json'' req0 in
                case Exec p req [UpdateCustomDenyRequest.JsonPayloadRaw params] of
                  Inl err \<Rightarrow>
                    ([(req, [UpdateCustomDenyRequest.JsonPayloadRaw params])], None,
                     Some (fmt_Errorf ''UpdateCustomDeny request failed: %w'' (Some err) []))
                | Inr (resp, rval) \<Rightarrow>
                    if StatusCode resp \<noteq> StatusOK \<and> StatusCode resp \<noteq> StatusCreated then
                      ([(req, [UpdateCustomDenyRequest.JsonPayloadRaw params])], None, Some (Error p resp))
                    else ([(req, [UpdateCustomDenyRequest.JsonPayloadRaw params])], Some rval, None))))"

definition CreateCustomDeny ::
  "(RawMessage, 'r) appsec \<Rightarrow> CreateCustomDenyRequest \<Rightarrow> (RawMessage, 'r) result" where
  "CreateCustomDeny p params =
     (case CreateCustomDenyRequest_Validate params of
        Some err \<Rightarrow>
          ([], None,
           Some (fmt_Errorf ''%w: %s'' (Some ErrStructValidation) [error_Error err]))
      | None \<Rightarrow>
          (let uri =
             Sprintf
                ''/appsec/v1/configs/%d/versions/%d/custom-deny''
                [D (CreateCustomDenyRequest.ConfigID params),
                 D (CreateCustomDenyRequest.Version params)] in
           case NewRequestWithContext p MethodPost uri of
             Inl err \<Rightarrow>
               ([], None, Some (fmt_Errorf ''failed to create CreateCustomDeny request: %w'' (Some err) []))
           | Inr req0 \<Rightarrow>
               (let req = Header_Set ''Content-Type'' ''application/json'' req0 in
                case Exec p req [CreateCustomDenyRequest.JsonPayloadRaw params] of
                  Inl err \<Rightarrow>
                    ([(req, [CreateCustomDenyRequest.JsonPayloadRaw params])], None,
                     Some (fmt_Errorf ''CreateCustomDeny request failed: %w'' (Some err) []))
                | Inr (resp, rval) \<Rightarrow>
                    if StatusCode resp \<noteq> StatusOK \<and> StatusCode resp \<noteq> StatusCreated then
                      ([(req, [CreateCustomDenyRequest.JsonPayloadRaw params])], None, Some (Error p resp))
                    else ([(req, [CreateCustomDenyRequest.JsonPayloadRaw params])], Some rval, None))))"

definition RemoveCustomDeny ::
  "('b, 'r) appsec \<Rightarrow> RemoveCustomDenyRequest \<Rightarrow> ('b, 'r) result" where
  "RemoveCustomDeny p params =
     (case RemoveCustomDenyRequest_Validate params of
        Some err \<Rightarrow>
          ([], None,
           Some (fmt_Errorf ''%w: %s'' (Some ErrStructValidation) [error_Error err]))
      | None \<Rightarrow>
          (let uri =
             Sprintf
                ''/appsec/v1/configs/%d/versions/%d/custom-deny/%s''
                [D (RemoveCustomDenyRequest.ConfigID params),
                 D (RemoveCustomDenyRequest.Version params),
                 S (RemoveCustomDenyRequest.ID params)] in
           case url_Parse p uri of
             Inl err \<Rightarrow>
               ([], None, Some (fmt_Errorf ''failed to parse url: %w'' (Some err) []))
           | Inr uri_String \<Rightarrow>
               (case NewRequestWithContext p MethodDelete uri_String of
                  Inl err \<Rightarrow>
                    ([], None, Some (fmt_Errorf ''failed to create RemoveCustomDeny request: %w'' (Some err) []))
                | Inr req \<Rightarrow>
                    (case Exec p req [] of
                       Inl err \<Rightarrow>
                         ([(req, [])], None,
                          Some (fmt_Errorf ''RemoveCustomDeny request failed: %w'' (Some err) []))
                     | Inr (resp, rval) \<Rightarrow>
                         if StatusCode resp \<noteq> StatusNoContent \<and> StatusCode resp \<noteq> StatusOK then
                           ([(req, [])], None, Some (Error p resp))
                         else ([(req, [])], Some rval, None)))))"

definition GetMatchTarget ::
  "('b, 'r) appsec \<Rightarrow> GetMatchTargetRequest \<Rightarrow> ('b, 'r) result" where
  "GetMatchTarget p params =
     (case GetMatchTargetRequest_Validate params of
        Some err \<Rightarrow>
          ([], None,
           Some (fmt_Errorf ''%w: %s'' (Some ErrStructValidation) [error_Error err]))
      | None \<Rightarrow>
          (let uri =
             Sprintf
                ''/appsec/v1/configs/%d/versions/%d/match-targets/%d?includeChildObjectName=true''
                [D (GetMatchTargetRequest.ConfigID params),
                 D (GetMatchTargetRequest.ConfigVersion params),
                 D (GetMatchTargetRequest.TargetID params)] in
           case NewRequestWithContext p MethodGet uri of
             Inl err \<Rightarrow>
               ([], None, Some (fmt_Errorf ''failed to create GetMatchTarget request: %w'' (Some err) []))
           | Inr req \<Rightarrow>
               (case Exec p req [] of
                  Inl err \<Rightarrow>
                    ([(req, [])], None,
                     Some (fmt_Errorf ''GetMatchTarget request failed: %w'' (Some err) []))
                | Inr (resp, rval) \<Rightarrow>
                    if StatusCode resp \<noteq> StatusOK then
                      ([(req, [])], None, Some (Error p resp))
                    else ([(req, [])], Some rval, None))))"

definition GetMatchTargets ::
  "('b, GetMatchTargetsResponse) appsec \<Rightarrow> GetMatchTargetsRequest \<Rightarrow> ('b, GetMatchTargetsResponse) result" where
  "GetMatchTargets p params =
     (case GetMatchTargetsRequest_Validate params of
        Some err \<Rightarrow>
          ([], None,
           Some (fmt_Errorf ''%w: %s'' (Some ErrStructValidation) [error_Error err]))
      | None \<Rightarrow>
          (let uri =
             Sprintf
                ''/appsec/v1/configs/%d/versions/%d/match-targets''
                [D (GetMatchTargetsRequest.ConfigID params),
                 D (GetMatchTargetsRequest.ConfigVersion params)] in
           case NewRequestWithContext p MethodGet uri of
             Inl err \<Rightarrow>
               ([], None, Some (fmt_Errorf ''failed to create GetMatchTargets request: %w'' (Some err) []))
           | Inr req \<Rightarrow>
               (case Exec p req [] of
                  Inl err \<Rightarrow>
                    ([(req, [])], None,
                     Some (fmt_Errorf ''GetMatchTargets request failed: %w'' (Some err) []))
                | Inr (resp, rval) \<Rightarrow>
                    if StatusCode resp \<noteq> StatusOK then
                      ([(req, [])], None, Some (Error p resp))
                    else
                      ([(req, [])],
                       if GetMatchTargetsRequest.TargetID params \<noteq> 0 then
                       Some \<lparr>MatchTargets =
                         \<lparr>APITargets =
                            APITargets_loop (GetMatchTargetsRequest.TargetID params)
                              (APITargets (MatchTargets rval)) [],
                          WebsiteTargets =
                            WebsiteTargets_loop (GetMatchTargetsRequest.TargetID params)
                              (WebsiteTargets (MatchTargets rval)) []\<rparr>\<rparr>
                       else Some rval,
                       None))))"

definition UpdateMatchTarget ::
  "(RawMessage, 'r) appsec \<Rightarrow> UpdateMatchTargetRequest \<Rightarrow> (RawMessage, 'r) result" where
  "UpdateMatchTarget p params =
     (case UpdateMatchTargetRequest_Validate params of
        Some err \<Rightarrow>
          ([], None,
           Some (fmt_Errorf ''%w: %s'' (Some ErrStructValidation) [error_Error err]))
      | None \<Rightarrow>
          (let uri =
             Sprintf
                ''/appsec/v1/configs/%d/versions/%d/match-targets/%d''
                [D (UpdateMatchTargetRequest.ConfigID params),
                 D (UpdateMatchTargetRequest.ConfigVersion params),
                 D (UpdateMatchTargetRequest.TargetID params)] in
           case NewRequestWithContext p MethodPut uri of
             Inl err \<Rightarrow>
               ([], None, Some (fmt_Errorf ''failed to create UpdateMatchTarget request: %w'' (Some err) []))
           | Inr req0 \<Rightarrow>
               (let req = Header_Set ''Content-Type'' ''application/json'' req0 in
                case Exec p req [UpdateMatchTargetRequest.JsonPayloadRaw params] of
                  Inl err \<Rightarrow>
                    ([(req, [UpdateMatchTargetRequest.JsonPayloadRaw params])], None,
                     Some (fmt_Errorf ''UpdateMatchTarget request failed: %w'' (Some err) []))
                | Inr (resp, rval) \<Rightarrow>
                    if StatusCode resp \<noteq> StatusOK \<and> StatusCode resp \<noteq> StatusCreated then
                      ([(req, [UpdateMatchTargetRequest.JsonPayloadRaw params])], None, Some (Error p resp))
                    else ([(req, [UpdateMatchTargetRequest.JsonPayloadRaw params])], Some rval, None))))"

definition CreateMatchTarget ::
  "(RawMessage, 'r) appsec \<Rightarrow> CreateMatchTargetRequest \<Rightarrow> (RawMessage, 'r) result" where
  "CreateMatchTarget p params =
     (case CreateMatchTargetRequest_Validate params of
        Some err \<Rightarrow>
          ([], None,
           Some (fmt_Errorf ''%w: %s'' (Some ErrStructValidation) [error_Error err]))
      | None \<Rightarrow>
          (let uri =
             Sprintf
                ''/appsec/v1/configs/%d/versions/%d/match-targets''
                [D (CreateMatchTargetRequest.ConfigID params),
                 D (CreateMatchTargetRequest.ConfigVersion params)] in
           case NewRequestWithContext p MethodPost uri of
             Inl err \<Rightarrow>
               ([], None, Some (fmt_Errorf ''failed to create CreateMatchTarget request: %w'' (Some err) []))
           | Inr req0 \<Rightarrow>
               (let req = Header_Set ''Content-Type'' ''application/json'' req0 in
                case Exec p req [CreateMatchTargetRequest.JsonPayloadRaw params] of
                  Inl err \<Rightarrow>
                    ([(req, [CreateMatchTargetRequest.JsonPayloadRaw params])], None,
                     Some (fmt_Errorf ''CreateMatchTarget request failed: %w'' (Some err) []))
                | Inr (resp, rval) \<Rightarrow>
                    if StatusCode resp \<noteq> StatusCreated \<and> StatusCode resp \<noteq> StatusOK then
                      ([(req, [CreateMatchTargetRequest.JsonPayloadRaw params])], None, Some (Error p resp))
                    else ([(req, [CreateMatchTargetRequest.JsonPayloadRaw params])], Some rval, None))))"

definition RemoveMatchTarget ::
  "('b, 'r) appsec \<Rightarrow> RemoveMatchTargetRequest \<Rightarrow> ('b, RemoveMatchTargetResponse) result" where
  "RemoveMatchTarget p params =
     (case RemoveMatchTargetRequest_Validate params of
        Some err \<Rightarrow>
          ([], None,
           Some (fmt_Errorf ''%w: %s'' (Some ErrStructValidation) [error_Error err]))
      | None \<Rightarrow>
          (let uri =
             Sprintf
                ''/appsec/v1/configs/%d/versions/%d/match-targets/%d''
                [D (RemoveMatchTargetRequest.ConfigID params),
                 D (RemoveMatchTargetRequest.ConfigVersion params),
                 D (RemoveMatchTargetRequest.TargetID params)] in
           case NewRequestWithContext p MethodDelete uri of
             Inl err \<Rightarrow>
               ([], None, Some (fmt_Errorf ''failed to create RemoveMatchTarget request: %w'' (Some err) []))
           | Inr req \<Rightarrow>
               (let err = None in
                case Exec p req [] of
                  Inl errd \<Rightarrow>
                    ([(req, [])], None,
                     Some (fmt_Errorf ''RemoveMatchTarget request failed: %w'' err []))
                | Inr (resp, rval) \<Rightarrow>
                    if StatusCode resp \<noteq> StatusNoContent \<and> StatusCode resp \<noteq> StatusOK then
                      ([(req, [])], None, Some (Error p resp))
                    else ([(req, [])], Some RemoveMatchTargetResponse_zero, None))))"

definition GetReputationAnalysis ::
  "('b, 'r) appsec \<Rightarrow> GetReputationAnalysisRequest \<Rightarrow> ('b, 'r) result" where
  "GetReputationAnalysis p params =
     (case GetReputationAnalysisRequest_Validate params of
        Some err \<Rightarrow>
          ([], None,
           Some (fmt_Errorf ''%w: %s'' (Some ErrStructValidation) [error_Error err]))
      | None \<Rightarrow>
          (let uri =
             Sprintf
                ''/appsec/v1/configs/%d/versions/%d/security-policies/%s/reputation-analysis''
                [D (GetReputationAnalysisRequest.ConfigID params),
                 D (GetReputationAnalysisRequest.Version params),
                 S (GetReputationAnalysisRequest.PolicyID params)] in
           case NewRequestWithContext p MethodGet uri of
             Inl err \<Rightarrow>
               ([], None, Some (fmt_Errorf ''failed to create GetReputationAnalysis request: %w'' (Some err) []))
           | Inr req \<Rightarrow>
               (case Exec p req [] of
                  Inl err \<Rightarrow>
                    ([(req, [])], None,
                     Some (fmt_Errorf ''GetReputationAnalysis request failed: %w'' (Some err) []))
                | Inr (resp, rval) \<Rightarrow>
                    if StatusCode resp \<noteq> StatusOK then
                      ([(req, [])], None, Some (Error p resp))
                    else ([(req, [])], Some rval, None))))"

definition UpdateReputationAnalysis ::
  "(UpdateReputationAnalysisRequest, 'r) appsec \<Rightarrow> UpdateReputationAnalysisRequest \<Rightarrow> (UpdateReputationAnalysisRequest, 'r) result" where
  "UpdateReputationAnalysis p params =
     (case UpdateReputationAnalysisRequest_Validate params of
        Some err \<Rightarrow>
          ([], None,
           Some (fmt_Errorf ''%w: %s'' (Some ErrStructValidation) [error_Error err]))
      | None \<Rightarrow>
          (let uri =
             Sprintf
                ''/appsec/v1/configs/%d/versions/%d/security-policies/%s/reputation-analysis''
                [D (UpdateReputationAnalysisRequest.ConfigID params),
                 D (UpdateReputationAnalysisRequest.Version params),
                 S (UpdateReputationAnalysisRequest.PolicyID params)] in
           case NewRequestWithContext p MethodPut uri of
             Inl err \<Rightarrow>
               ([], None, Some (fmt_Errorf ''failed to create UpdateReputationAnalysis request: %w'' (Some err) []))
           | Inr req \<Rightarrow>
               (case Exec p req [params] of
                  Inl err \<Rightarrow>
                    ([(req, [params])], None,
                     Some (fmt_Errorf ''UpdateReputationAnalysis request failed: %w'' (Some err) []))
                | Inr (resp, rval) \<Rightarrow>
                    if StatusCode resp \<noteq> StatusOK \<and> StatusCode resp \<noteq> StatusCreated then
                      ([(req, [params])], None, Some (Error p resp))
                    else ([(req, [params])], Some rval, None))))"

definition RemoveReputationAnalysis ::
  "(RemoveReputationAnalysisRequest, 'r) appsec \<Rightarrow> RemoveReputationAnalysisRequest \<Rightarrow> (RemoveReputationAnalysisRequest, 'r) result" where
  "RemoveReputationAnalysis p params =
     (let uri =
        Sprintf
           ''/appsec/v1/configs/%d/versions/%d/security-policies/%s/reputation-analysis''
           [D (RemoveReputationAnalysisRequest.ConfigID params),
            D (RemoveReputationAnalysisRequest.Version params),
            S (RemoveReputationAnalysisRequest.PolicyID params)] in
      case NewRequestWithContext p MethodPut uri of
        Inl err \<Rightarrow>
          ([], None, Some (fmt_Errorf ''failed to create RemoveReputationAnalysis request: %w'' (Some err) []))
      | Inr req \<Rightarrow>
          (case Exec p req [params] of
             Inl err \<Rightarrow>
               ([(req, [params])], None,
                Some (fmt_Errorf ''RemoveReputationAnalysis request failed: %w'' (Some err) []))
           | Inr (resp, rval) \<Rightarrow>
               if StatusCode resp \<noteq> StatusOK \<and> StatusCode resp \<noteq> StatusCreated then
                 ([(req, [params])], None, Some (Error p resp))
               else ([(req, [params])], Some rval, None)))"

definition GetReputationProfile ::
  "('b, 'r) appsec \<Rightarrow> GetReputationProfileRequest \<Rightarrow> ('b, 'r) result" where
  "GetReputationProfile p params =
     (case GetReputationProfileRequest_Validate params of
        Some err \<Rightarrow>
          ([], None,
           Some (fmt_Errorf ''%w: %s'' (Some ErrStructValidation) [error_Error err]))
      | None \<Rightarrow>
          (let uri =
             Sprintf
                ''/appsec/v1/configs/%d/versions/%d/reputation-profiles/%d''
                [D (GetReputationProfileRequest.ConfigID params),
                 D (GetReputationProfileRequest.ConfigVersion params),
                 D (GetReputationProfileRequest.ReputationProfileId params)] in
           case NewRequestWithContext p MethodGet uri of
             Inl err \<Rightarrow>
               ([], None, Some (fmt_Errorf ''failed to create getreputationprofile request: %w'' (Some err) []))
           | Inr req \<Rightarrow>
               (case Exec p req [] of
                  Inl err \<Rightarrow>
                    ([(req, [])], None,
                     Some (fmt_Errorf ''getproperties request failed: %w'' (Some err) []))
                | Inr (resp, rval) \<Rightarrow>
                    if StatusCode resp \<noteq> StatusOK then
                      ([(req, [])], None, Some (Error p resp))
                    else ([(req, [])], Some rval, None))))"

definition GetReputationProfiles ::
  "('b, 'c GetReputationProfilesResponse) appsec \<Rightarrow> GetReputationProfilesRequest \<Rightarrow> ('b, 'c GetReputationProfilesResponse) result" where
  "GetReputationProfiles p params =
     (case GetReputationProfilesRequest_Validate params of
        Some err \<Rightarrow>
          ([], None,
           Some (fmt_Errorf ''%w: %s'' (Some ErrStructValidation) [error_Error err]))
      | None \<Rightarrow>
          (let uri =
             Sprintf
                ''/appsec/v1/configs/%d/versions/%d/reputation-profiles''
                [D (GetReputationProfilesRequest.ConfigID params),
                 D (GetReputationProfilesRequest.ConfigVersion params)] in
           case NewRequestWithContext p MethodGet uri of
             Inl err \<Rightarrow>
               ([], None, Some (fmt_Errorf ''failed to create getreputationprofiles request: %w'' (Some err) []))
           | Inr req \<Rightarrow>
               (case Exec p req [] of
                  Inl err \<Rightarrow>
                    ([(req, [])], None,
                     Some (fmt_Errorf ''getreputationprofiles request failed: %w'' (Some err) []))
                | Inr (resp, rval) \<Rightarrow>
                    if StatusCode resp \<noteq> StatusOK then
                      ([(req, [])], None, Some (Error p resp))
                    else
                      ([(req, [])],
                       if GetReputationProfilesRequest.ReputationProfileId params \<noteq> 0 then
                       Some \<lparr>ReputationProfiles =
                         GetReputationProfiles_loop (GetReputationProfilesRequest.ReputationProfileId params)
                           (ReputationProfiles rval) []\<rparr>
                       else Some rval,
                       None))))"

definition UpdateReputationProfile ::
  "(RawMessage, 'r) appsec \<Rightarrow> UpdateReputationProfileRequest \<Rightarrow> (RawMessage, 'r) result" where
  "UpdateReputationProfile p params =
     (case UpdateReputationProfileRequest_Validate params of
        Some err \<Rightarrow>
          ([], None,
           Some (fmt_Errorf ''%w: %s'' (Some ErrStructValidation) [error_Error err]))
      | None \<Rightarrow>
          (let uri =
             Sprintf
                ''/appsec/v1/configs/%d/versions/%d/reputation-profiles/%d''
                [D (UpdateReputationProfileRequest.ConfigID params),
                 D (UpdateReputationProfileRequest.ConfigVersion params),
                 D (UpdateReputationProfileRequest.ReputationProfileId params)] in
           case NewRequestWithContext p MethodPut uri of
             Inl err \<Rightarrow>
               ([], None, Some (fmt_Errorf ''failed to create create ReputationProfilerequest: %w'' (Some err) []))
           | Inr req0 \<Rightarrow>
               (let req = Header_Set ''Content-Type'' ''application/json'' req0 in
                case Exec p req [UpdateReputationProfileRequest.JsonPayloadRaw params] of
                  Inl err \<Rightarrow>
                    ([(req, [UpdateReputationProfileRequest.JsonPayloadRaw params])], None,
                     Some (fmt_Errorf ''create ReputationProfile request failed: %w'' (Some err) []))
                | Inr (resp, rval) \<Rightarrow>
                    if StatusCode resp \<noteq> StatusOK \<and> StatusCode resp \<noteq> StatusCreated then
                      ([(req, [UpdateReputationProfileRequest.JsonPayloadRaw params])], None, Some (Error p resp))
                    else ([(req, [UpdateReputationProfileRequest.JsonPayloadRaw params])], Some rval, None))))"

definition CreateReputationProfile ::
  "(RawMessage, 'r) appsec \<Rightarrow> CreateReputationProfileRequest \<Rightarrow> (RawMessage, 'r) result" where
  "CreateReputationProfile p params =
     (case CreateReputationProfileRequest_Validate params of
        Some err \<Rightarrow>
          ([], None,
           Some (fmt_Errorf ''%w: %s'' (Some ErrStructValidation) [error_Error err]))
      | None \<Rightarrow>
          (let uri =
             Sprintf
                ''/appsec/v1/configs/%d/versions/%d/reputation-profiles''
                [D (CreateReputationProfileRequest.ConfigID params),
                 D (CreateReputationProfileRequest.ConfigVersion params)] in
           case NewRequestWithContext p MethodPost uri of
             Inl err \<Rightarrow>
               ([], None, Some (fmt_Errorf ''failed to create create reputationprofile request: %w'' (Some err) []))
           | Inr req0 \<Rightarrow>
               (let req = Header_Set ''Content-Type'' ''application/json'' req0 in
                case Exec p req [CreateReputationProfileRequest.JsonPayloadRaw params] of
                  Inl err \<Rightarrow>
                    ([(req, [CreateReputationProfileRequest.JsonPayloadRaw params])], None,
                     Some (fmt_Errorf ''create reputationprofilerequest failed: %w'' (Some err) []))
                | Inr (resp, rval) \<Rightarrow>
                    if StatusCode resp \<noteq> StatusOK \<and> StatusCode resp \<noteq> StatusCreated then
                      ([(req, [CreateReputationProfileRequest.JsonPayloadRaw params])], None, Some (Error p resp))
                    else ([(req, [CreateReputationProfileRequest.JsonPayloadRaw params])], Some rval, None))))"

definition RemoveReputationProfile ::
  "('b, 'r) appsec \<Rightarrow> RemoveReputationProfileRequest \<Rightarrow> ('b, 'r) result" where
  "RemoveReputationProfile p params =
     (case RemoveReputationProfileRequest_Validate params of
        Some err \<Rightarrow>
          ([], None,
           Some (fmt_Errorf ''%w: %s'' (Some ErrStructValidation) [error_Error err]))
      | None \<Rightarrow>
          (let uri =
             Sprintf
                ''/appsec/v1/configs/%d/versions/%d/reputation-profiles/%d''
                [D (RemoveReputationProfileRequest.ConfigID params),
                 D (RemoveReputationProfileRequest.ConfigVersion params),
                 D (RemoveReputationProfileRequest.ReputationProfileId params)] in
           case url_Parse p uri of
             Inl err \<Rightarrow>
               ([], None, Some (fmt_Errorf ''failed parse url: %w'' (Some err) []))
           | Inr uri_String \<Rightarrow>
               (case NewRequestWithContext p MethodDelete uri_String of
                  Inl err \<Rightarrow>
                    ([], None, Some (fmt_Errorf ''failed to create delreputationprofile request: %w'' (Some err) []))
                | Inr req \<Rightarrow>
                    (case Exec p req [] of
                       Inl err \<Rightarrow>
                         ([(req, [])], None,
                          Some (fmt_Errorf ''delreputationprofile request failed: %w'' (Some err) []))
                     | Inr (resp, rval) \<Rightarrow>
                         if StatusCode resp \<noteq> StatusNoContent \<and> StatusCode resp \<noteq> StatusOK then
                           ([(req, [])], None, Some (Error p resp))
                         else ([(req, [])], Some rval, None)))))"

definition GetVersionNotes ::
  "('b, 'r) appsec \<Rightarrow> GetVersionNotesRequest \<Rightarrow> ('b, 'r) result" where
  "GetVersionNotes p params =
     (case GetVersionNotesRequest_Validate params of
        Some err \<Rightarrow>
          ([], None,
           Some (fmt_Errorf ''%w: %s'' (Some ErrStructValidation) [error_Error err]))
      | None \<Rightarrow>
          (let uri =
             Sprintf
                ''/appsec/v1/configs/%d/versions/%d/version-notes''
                [D (GetVersionNotesRequest.ConfigID params),
                 D (GetVersionNotesRequest.Version params)] in
           case NewRequestWithContext p MethodGet uri of
             Inl err \<Rightarrow>
               ([], None, Some (fmt_Errorf ''failed to create GetVersionNotes request: %w'' (Some err) []))
           | Inr req \<Rightarrow>
               (case Exec p req [] of
                  Inl err \<Rightarrow>
                    ([(req, [])], None,
                     Some (fmt_Errorf ''GetVersionNotes request failed: %w'' (Some err) []))
                | Inr (resp, rval) \<Rightarrow>
                    if StatusCode resp \<noteq> StatusOK then
                      ([(req, [])], None, Some (Error p resp))
                    else ([(req, [])], Some rval, None))))"

definition UpdateVersionNotes ::
  "(UpdateVersionNotesRequest, 'r) appsec \<Rightarrow> UpdateVersionNotesRequest \<Rightarrow> (UpdateVersionNotesRequest, 'r) result" where
  "UpdateVersionNotes p params =
     (case UpdateVersionNotesRequest_Validate params of
        Some err \<Rightarrow>
          ([], None,
           Some (fmt_Errorf ''%w: %s'' (Some ErrStructValidation) [error_Error err]))
      | None \<Rightarrow>
          (let uri =
             Sprintf
                ''/appsec/v1/configs/%d/versions/%d/version-notes''
                [D (UpdateVersionNotesRequest.ConfigID params),
                 D (UpdateVersionNotesRequest.Version params)] in
           case NewRequestWithContext p MethodPut uri of
             Inl err \<Rightarrow>
               ([], None, Some (fmt_Errorf ''failed to create UpdateVersionNotes request: %w'' (Some err) []))
           | Inr req \<Rightarrow>
               (case Exec p req [params] of
                  Inl err \<Rightarrow>
                    ([(req, [params])], None,
                     Some (fmt_Errorf ''UpdateVersionNotes request failed: %w'' (Some err) []))
                | Inr (resp, rval) \<Rightarrow>
                    if StatusCode resp \<noteq> StatusOK \<and> StatusCode resp \<noteq> StatusCreated then
                      ([(req, [params])], None, Some (Error p resp))
                    else ([(req, [params])], Some rval, None))))"



section \<open>What the specification asks of an operation\<close>

text \<open>
  The success codes of the specification, by HTTP method: \<open>GET\<close> 200; \<open>POST\<close> and
  \<open>PUT\<close> 200 or 201; \<open>DELETE\<close> 200 or 204.
\<close>

definition success_codes :: "string \<Rightarrow> int set" where
  "success_codes m =
     (if m = ''GET'' then {200}
      else if m = ''POST'' \<or> m = ''PUT'' then {200, 201}
      else if m = ''DELETE'' then {200, 204}
      else {})"

text \<open>
  The parsed URL of a request that an operation builds from the string \<open>s\<close>:
  \<open>url_Parse p s\<close> for an operation that passes the string to
  \<open>http.NewRequestWithContext\<close>, and \<open>parsed_twice p s\<close> for one that parses the
  string itself and passes the text of the parsed URL on.
\<close>

definition parsed_twice :: "('b, 'r) appsec \<Rightarrow> string \<Rightarrow> go_error + string" where
  "parsed_twice p s = (case url_Parse p s of Inl err \<Rightarrow> Inl err | Inr t \<Rightarrow> url_Parse p t)"

text \<open>
  \<open>status_policy m validate op route url\<close>: for a request that \<open>validate\<close> accepts,
  when the method is accepted and the URL string \<open>url params\<close> parses (along
  \<open>route\<close>) to \<open>u\<close>, the operation \<open>op\<close> calls \<open>Exec\<close> once, with a request of
  method \<open>m\<close> and URL \<open>u\<close>; and whatever response \<open>Exec\<close> gives to that call, the
  operation succeeds (a response and no error) exactly on the success codes of \<open>m\<close>,
  and on any other status it returns no response and the error of the error mapper.
\<close>

definition status_policy ::
  "string \<Rightarrow> ('q \<Rightarrow> go_error option) \<Rightarrow> (('b, 'r) appsec \<Rightarrow> 'q \<Rightarrow> ('b, 's) result) \<Rightarrow>
   (('b, 'r) appsec \<Rightarrow> string \<Rightarrow> go_error + string) \<Rightarrow> ('q \<Rightarrow> string) \<Rightarrow> bool" where
  "status_policy m validate op route url \<longleftrightarrow>
     (\<forall>p params u.
        validate params = None \<and> request_fault p m = None \<and> route p (url params) = Inr u \<longrightarrow>
          (\<exists>hdr body.
             fst (op p params) = [(\<lparr>Method = m, URL = u, Header = hdr\<rparr>, body)] \<and>
             (\<forall>resp rval.
                Exec p \<lparr>Method = m, URL = u, Header = hdr\<rparr> body = Inr (resp, rval) \<longrightarrow>
                  (snd (snd (op p params)) = None \<longleftrightarrow> StatusCode resp \<in> success_codes m) \<and>
                  (fst (snd (op p params)) \<noteq> None \<longleftrightarrow> StatusCode resp \<in> success_codes m) \<and>
                  (StatusCode resp \<notin> success_codes m \<longrightarrow>
                     snd (op p params) = (None, Some (Error p resp))))))"

text \<open>
  \<open>validates_first validate op\<close>: a request that \<open>validate\<close> rejects makes \<open>op\<close>
  return at once, without a call of \<open>Exec\<close>, with no response and an error wrapping
  \<open>ErrStructValidation\<close>.
\<close>

definition validates_first ::
  "('q \<Rightarrow> go_error option) \<Rightarrow> (('b, 'r) appsec \<Rightarrow> 'q \<Rightarrow> ('b, 's) result) \<Rightarrow> bool" where
  "validates_first validate op \<longleftrightarrow>
     (\<forall>p params err.
        validate params = Some err \<longrightarrow>
          op p params =
            ([], None, Some (fmt_Errorf ''%w: %s'' (Some ErrStructValidation) [error_Error err])))"

text \<open>
  \<open>requires validate blank\<close>: \<open>validate\<close> accepts a request exactly when none of the
  tests \<open>blank\<close> (a required field at its zero value) holds of it.
\<close>

definition requires :: "('q \<Rightarrow> go_error option) \<Rightarrow> ('q \<Rightarrow> bool) list \<Rightarrow> bool" where
  "requires validate blank \<longleftrightarrow> (\<forall>v. validate v = None \<longleftrightarrow> (\<forall>b \<in> set blank. \<not> b v))"

text \<open>
  The path under which every resource but a new configuration lives:
  \<open>/<api-root>/configs/{configId}/versions/{version}\<close>.
\<close>

definition configs_versions :: "int \<Rightarrow> int \<Rightarrow> string" where
  "configs_versions c v = ''/appsec/v1/configs/'' @ Itoa c @ ''/versions/'' @ Itoa v"

text \<open>
  \<open>builds_url m validate op route url\<close>: the URL string that \<open>op\<close> builds is
  \<open>url params\<close>. Every request that \<open>op\<close> hands to \<open>Exec\<close> has method \<open>m\<close> and, as
  its URL, what that string parses to (along \<open>route\<close>); and for a request that
  \<open>validate\<close> accepts, when the method is accepted and the string parses to \<open>u\<close>,
  \<open>op\<close> calls \<open>Exec\<close> once, with a request of method \<open>m\<close> and URL \<open>u\<close>.
\<close>

definition builds_url ::
  "string \<Rightarrow> ('q \<Rightarrow> go_error option) \<Rightarrow> (('b, 'r) appsec \<Rightarrow> 'q \<Rightarrow> ('b, 's) result) \<Rightarrow>
   (('b, 'r) appsec \<Rightarrow> string \<Rightarrow> go_error + string) \<Rightarrow> ('q \<Rightarrow> string) \<Rightarrow> bool" where
  "builds_url m validate op route url \<longleftrightarrow>
     (\<forall>p params.
        (\<forall>call \<in> set (fst (op p params)).
           Method (fst call) = m \<and> route p (url params) = Inr (URL (fst call))) \<and>
        (\<forall>u. validate params = None \<and> request_fault p m = None \<and>
           route p (url params) = Inr u \<longrightarrow>
             (\<exists>hdr body. fst (op p params) = [(\<lparr>Method = m, URL = u, Header = hdr\<rparr>, body)])))"

text \<open>
  \<open>post_filter validate op url key dflt ident entries\<close>: for a request that
  \<open>validate\<close> accepts, when \<open>GET\<close> is accepted and the URL string \<open>url params\<close>
  parses to \<open>u\<close>, the operation \<open>op\<close> calls \<open>Exec\<close> once, with the \<open>GET\<close> request
  of URL \<open>u\<close> and no body; and when \<open>Exec\<close> gives to that call the response \<open>rval\<close>
  with status 200, \<open>op\<close> returns a response and no error: with the filter
  \<open>key params\<close> at its default \<open>dflt\<close> the response is \<open>rval\<close> itself, otherwise its
  \<open>entries\<close> are those of \<open>rval\<close> whose \<open>ident\<close> equals the filter, in their order,
  and none when no entry matches.
\<close>

definition post_filter ::
  "('q \<Rightarrow> go_error option) \<Rightarrow> (('b, 'r) appsec \<Rightarrow> 'q \<Rightarrow> ('b, 'r) result) \<Rightarrow> ('q \<Rightarrow> string) \<Rightarrow>
   ('q \<Rightarrow> 'k) \<Rightarrow> 'k \<Rightarrow> ('e \<Rightarrow> 'k) \<Rightarrow> ('r \<Rightarrow> 'e list) \<Rightarrow> bool" where
  "post_filter validate op url key dflt ident entries \<longleftrightarrow>
     (\<forall>p params u.
        validate params = None \<and> request_fault p MethodGet = None \<and>
        url_Parse p (url params) = Inr u \<longrightarrow>
          fst (op p params) = [(\<lparr>Method = MethodGet, URL = u, Header = []\<rparr>, [])] \<and>
          (\<forall>resp rval.
             Exec p \<lparr>Method = MethodGet, URL = u, Header = []\<rparr> [] = Inr (resp, rval) \<and>
             StatusCode resp = 200 \<longrightarrow>
               (\<exists>r. snd (op p params) = (Some r, None) \<and>
                  (key params = dflt \<longrightarrow> r = rval) \<and>
                  (key params \<noteq> dflt \<longrightarrow>
                     entries r = filter (\<lambda>val. ident val = key params) (entries rval)) \<and>
                  (key params \<noteq> dflt \<and> (\<forall>val \<in> set (entries rval). ident val \<noteq> key params) \<longrightarrow>
                     entries r = []))))"

text \<open>
  Mocks of the collaborators, as the end-to-end properties of the specification use
  them: every method is accepted, \<open>url.Parse\<close> reads a URL whose text is the
  string it was given, and the error mapper reports the status code. The transport of \<open>answering\<close>
  answers every call with the given status and decoded value, the transport of
  \<open>failing\<close> fails every call with the given fault.
\<close>

definition answering :: "int \<Rightarrow> 'r \<Rightarrow> ('b, 'r) appsec" where
  "answering status rval =
     \<lparr>request_fault = (\<lambda>method. None),
      url_Parse = (\<lambda>url. Inr url),
      Exec = (\<lambda>req body. Inr (\<lparr>StatusCode = status, Body = []\<rparr>, rval)),
      Error = (\<lambda>resp. errors_New (''API error, status '' @ Itoa (StatusCode resp)))\<rparr>"

definition failing :: "go_error \<Rightarrow> ('b, 'r) appsec" where
  "failing fault =
     \<lparr>request_fault = (\<lambda>method. None),
      url_Parse = (\<lambda>url. Inr url),
      Exec = (\<lambda>req body. Inl fault),
      Error = (\<lambda>resp. errors_New (''API error, status '' @ Itoa (StatusCode resp)))\<rparr>"

text \<open>
  \<open>wraps_fault m validate op route url\<close>: under the same conditions as
  \<open>status_policy\<close>, when \<open>Exec\<close> fails the call that \<open>op\<close> makes, \<open>op\<close> returns no
  response and an error that wraps the fault of \<open>Exec\<close>.
\<close>

definition wraps_fault ::
  "string \<Rightarrow> ('q \<Rightarrow> go_error option) \<Rightarrow> (('b, 'r) appsec \<Rightarrow> 'q \<Rightarrow> ('b, 's) result) \<Rightarrow>
   (('b, 'r) appsec \<Rightarrow> string \<Rightarrow> go_error + string) \<Rightarrow> ('q \<Rightarrow> string) \<Rightarrow> bool" where
  "wraps_fault m validate op route url \<longleftrightarrow>
     (\<forall>p params u.
        validate params = None \<and> request_fault p m = None \<and> route p (url params) = Inr u \<longrightarrow>
          (\<exists>hdr body.
             fst (op p params) = [(\<lparr>Method = m, URL = u, Header = hdr\<rparr>, body)] \<and>
             (\<forall>fault.
                Exec p \<lparr>Method = m, URL = u, Header = hdr\<rparr> body = Inl fault \<longrightarrow>
                  fst (snd (op p params)) = None \<and>
                  (\<exists>err. snd (snd (op p params)) = Some err \<and> errors_Unwrap err = Some fault))))"

text \<open>
  Sample data: fetched lists of attack groups, custom deny actions, reputation
  profiles and match targets, and a raw JSON payload.
\<close>

definition sample_groups :: "unit GetAttackGroupsResponse" where
  "sample_groups =
     \<lparr>AttackGroups =
        [\<lparr>Group = ''SQL'', Action = ''deny'', ConditionException = None\<rparr>,
         \<lparr>Group = ''XSS'', Action = ''alert'', ConditionException = None\<rparr>,
         \<lparr>Group = ''CMD'', Action = ''deny'', ConditionException = None\<rparr>,
         \<lparr>Group = ''XSS'', Action = ''deny'', ConditionException = Some ()\<rparr>]\<rparr>"

definition sample_deny :: "string \<Rightarrow> string \<Rightarrow> CustomDenyListItem" where
  "sample_deny i n =
     \<lparr>Description = [], Name = n, ID = i,
      Parameters = [\<lparr>DisplayName = [], Name = ''response_status_code'', Value = ''403''\<rparr>]\<rparr>"

definition sample_deny_list :: GetCustomDenyListResponse where
  "sample_deny_list =
     \<lparr>CustomDenyList =
        [sample_deny ''deny_custom_1'' ''first'', sample_deny ''deny_custom_2'' ''second'',
         sample_deny ''deny_custom_3'' ''third'']\<rparr>"

definition sample_profile :: "int \<Rightarrow> string \<Rightarrow> unit ReputationProfilesItem" where
  "sample_profile i n =
     \<lparr>Condition = None, Context = ''WEBATCK'', ContextReadable = [], Enabled = False,
      ID = i, Name = n, SharedIPHandling = ''NON_SHARED'', Threshold = 5\<rparr>"

definition sample_profiles :: "unit GetReputationProfilesResponse" where
  "sample_profiles =
     \<lparr>ReputationProfiles =
        [sample_profile 10 ''web attackers'', sample_profile 20 ''scanners'',
         sample_profile 30 ''scrapers'']\<rparr>"

definition sample_website_target :: "int \<Rightarrow> WebsiteTarget" where
  "sample_website_target t =
     \<lparr>WebsiteTarget.ConfigID = 1, ConfigVersion = 2, DefaultFile = ''NO_MATCH'',
      IsNegativeFileExtensionMatch = False, IsNegativePathMatch = None, Sequence = 0,
      TargetID = t, Type = ''website'', FileExtensions = [], FilePaths = [''/*''],
      Hostnames = [''www.example.com''], SecurityPolicy = \<lparr>PolicyID = ''pol1''\<rparr>,
      BypassNetworkLists = []\<rparr>"

definition sample_api_target :: "int \<Rightarrow> APITarget" where
  "sample_api_target t =
     \<lparr>APITarget.Type = ''api'', Apis = [\<lparr>Api.ID = 7, Name = ''orders''\<rparr>], Sequence = 1,
      TargetID = t, ConfigID = 1, ConfigVersion = 2,
      SecurityPolicy = \<lparr>PolicyID = ''pol1''\<rparr>, BypassNetworkLists = []\<rparr>"

definition sample_targets :: GetMatchTargetsResponse where
  "sample_targets =
     \<lparr>MatchTargets =
        \<lparr>APITargets = [sample_api_target 100, sample_api_target 200],
         WebsiteTargets =
           [sample_website_target 300, sample_website_target 200, sample_website_target 400]\<rparr>\<rparr>"

definition sample_payload :: RawMessage where
  \<open>sample_payload = ''{"name":"deny page","parameters":[]}''\<close>

section \<open>Evaluation\<close>

text \<open>The defining equations that evaluate an operation on a concrete request.\<close>

lemmas eval_defs =
  Sprintf.simps verb_def render_def Itoa_def decimal.simps digit_def
  NewRequestWithContext_def answering_def Let_def Header_Set_def
  Filter_def Required_int_def Required_string_def Errors_Error_def
  MethodGet_def MethodPut_def MethodPost_def MethodDelete_def
  StatusOK_def StatusCreated_def StatusNoContent_def

section \<open>Properties of the decoders\<close>

lemma customDenyID_string:
  "customDenyID_UnmarshalJSON c (Document (JString s)) = Inr (s, None)"
  by (simp add: customDenyID_UnmarshalJSON_def)

lemma customDenyID_number:
  "customDenyID_UnmarshalJSON c (Document (JNumber x)) = Inr (c, None)"
  by (simp add: customDenyID_UnmarshalJSON_def)

lemma customDenyID_other_kinds:
  "customDenyID_UnmarshalJSON c (Document JNull) = Inr (c, None)"
  "customDenyID_UnmarshalJSON c (Document (JBool b)) = Inr (c, None)"
  "customDenyID_UnmarshalJSON c (Document (JArray xs)) = Inr (c, None)"
  "customDenyID_UnmarshalJSON c (Document (JObject kvs)) = Inr (c, None)"
  by (simp_all add: customDenyID_UnmarshalJSON_def)

text \<open>No JSON document decodes to an \<open>int\<close>: the \<open>reflect.Int\<close> branch is never taken.\<close>

lemma to_interface_never_Int: "ValueOf_Kind (to_interface j) \<noteq> reflect_Int"
  by (cases j) simp_all

lemma slice_loop_strings: "slice_loop (map GoString ss) c = Inr (c @ ss)"
  by (induction ss arbitrary: c) (simp_all add: Index_Kind_def)

lemma atomicConditionsName_array_of_strings:
  "atomicConditionsName_UnmarshalJSON c (Document (JArray (map JString ss))) = Inr (ss, None)"
proof -
  have elems: "map (to_interface \<circ> JString) ss = map GoString ss"
    by (induction ss) simp_all
  show ?thesis
    by (simp add: atomicConditionsName_UnmarshalJSON_def elems slice_loop_strings)
qed

text \<open>
  \<open>customDenyID.UnmarshalJSON\<close> never panics: its assertions are guarded by the kind.
  The loop of \<open>atomicConditionsName.UnmarshalJSON\<close> panics exactly when an element
  of the array is not a string.
\<close>

lemma customDenyID_never_panics: "customDenyID_UnmarshalJSON c dat \<noteq> Inl p"
proof (cases dat)
  case (Malformed err)
  then show ?thesis
    by (simp add: customDenyID_UnmarshalJSON_def)
next
  case (Document j)
  then show ?thesis
    by (cases j) (simp_all add: customDenyID_UnmarshalJSON_def)
qed

lemma slice_loop_panics_iff:
  "(\<exists>p. slice_loop items c = Inl p) \<longleftrightarrow> (\<exists>item \<in> set items. \<forall>s. item \<noteq> GoString s)"
proof (induction items arbitrary: c)
  case Nil
  then show ?case
    by simp
next
  case (Cons item items)
  show ?case
  proof (cases item)
    case (GoString s)
    with Cons show ?thesis
      by (simp add: Index_Kind_def)
  qed (simp_all add: Index_Kind_def)
qed

lemma atomicConditionsName_string:
  "atomicConditionsName_UnmarshalJSON c (Document (JString s)) = Inr (c @ [s], None)"
  by (simp add: atomicConditionsName_UnmarshalJSON_def)

lemma atomicConditionsName_other_kinds:
  "atomicConditionsName_UnmarshalJSON c (Document JNull) = Inr (c, None)"
  "atomicConditionsName_UnmarshalJSON c (Document (JBool b)) = Inr (c, None)"
  "atomicConditionsName_UnmarshalJSON c (Document (JNumber x)) = Inr (c, None)"
  "atomicConditionsName_UnmarshalJSON c (Document (JObject kvs)) = Inr (c, None)"
  by (simp_all add: atomicConditionsName_UnmarshalJSON_def)

text \<open>
  C1. The flexible-type decoders are to normalise every supported JSON shape: the
  string \<open>"7"\<close> and the number \<open>7\<close> to \<open>"7"\<close>, an array of strings to the collection
  of its elements, any other kind to the zero value without an error. Strings,
  arrays of strings, \<open>null\<close> and objects are decoded so (the lemmas above). The
  number \<open>7\<close> is not: \<open>json.Unmarshal\<close> stores it as a \<open>float64\<close>, the switch of
  \<open>customDenyID.UnmarshalJSON\<close> has a branch for \<open>reflect.Int\<close> only, and the field
  stays at its zero value instead of becoming \<open>"7"\<close>.
\<close>

theorem customDenyID_number_7_left_at_zero_value:
  "customDenyID_UnmarshalJSON [] (Document (JNumber 7)) = Inr ([], None)"
  by (simp add: customDenyID_UnmarshalJSON_def)

text \<open>
  C9. \<open>atomicConditionsName.UnmarshalJSON\<close> is to return normally, with a value or an
  error, on every well-formed JSON input. On the array \<open>[1,2]\<close> it panics instead:
  each element of the slice has kind \<open>Interface\<close>, is asserted to be a \<open>string\<close>
  and holds a \<open>float64\<close>.
\<close>

theorem atomicConditionsName_array_of_numbers_panics:
  "atomicConditionsName_UnmarshalJSON [] (Document (JArray [JNumber 1, JNumber 2])) =
     Inl (TypeAssertionError ''float64'' ''string'')"
  by (simp add: atomicConditionsName_UnmarshalJSON_def Index_Kind_def)

section \<open>Properties of validation\<close>

lemma GetApiHostnameCoverageOverlappingRequest_requires:
  "requires GetApiHostnameCoverageOverlappingRequest_Validate
    [\<lambda>v. GetApiHostnameCoverageOverlappingRequest.ConfigID v = 0,
     \<lambda>v. GetApiHostnameCoverageOverlappingRequest.Version v = 0]"
  by (auto simp: requires_def GetApiHostnameCoverageOverlappingRequest_Validate_def Filter_def Required_int_def Required_string_def)

lemma GetAttackGroupRequest_requires:
  "requires GetAttackGroupRequest_Validate
    [\<lambda>v. GetAttackGroupRequest.ConfigID v = 0,
     \<lambda>v. GetAttackGroupRequest.Version v = 0,
     \<lambda>v. GetAttackGroupRequest.PolicyID v = []]"
  by (auto simp: requires_def GetAttackGroupRequest_Validate_def Filter_def Required_int_def Required_string_def)

lemma GetAttackGroupsRequest_requires:
  "requires GetAttackGroupsRequest_Validate
    [\<lambda>v. GetAttackGroupsRequest.ConfigID v = 0,
     \<lambda>v. GetAttackGroupsRequest.Version v = 0,
     \<lambda>v. GetAttackGroupsRequest.PolicyID v = []]"
  by (auto simp: requires_def GetAttackGroupsRequest_Validate_def Filter_def Required_int_def Required_string_def)

lemma UpdateAttackGroupRequest_requires:
  "requires UpdateAttackGroupRequest_Validate
    [\<lambda>v. UpdateAttackGroupRequest.ConfigID v = 0,
     \<lambda>v. UpdateAttackGroupRequest.Version v = 0,
     \<lambda>v. UpdateAttackGroupRequest.PolicyID v = []]"
  by (auto simp: requires_def UpdateAttackGroupRequest_Validate_def Filter_def Required_int_def Required_string_def)

lemma GetConfigurationCloneRequest_requires:
  "requires GetConfigurationCloneRequest_Validate
    [\<lambda>v. GetConfigurationCloneRequest.ConfigID v = 0,
     \<lambda>v. GetConfigurationCloneRequest.Version v = 0]"
  by (auto simp: requires_def GetConfigurationCloneRequest_Validate_def Filter_def Required_int_def Required_string_def)

lemma CreateConfigurationCloneRequest_requires:
  "requires CreateConfigurationCloneRequest_Validate
    [\<lambda>v. CreateFrom.ConfigID (CreateFrom v) = 0]"
  by (auto simp: requires_def CreateConfigurationCloneRequest_Validate_def Filter_def Required_int_def Required_string_def)

lemma GetCustomDenyRequest_requires:
  "requires GetCustomDenyRequest_Validate
    [\<lambda>v. GetCustomDenyRequest.ConfigID v = 0,
     \<lambda>v. GetCustomDenyRequest.Version v = 0,
     \<lambda>v. GetCustomDenyRequest.ID v = []]"
  by (auto simp: requires_def GetCustomDenyRequest_Validate_def Filter_def Required_int_def Required_string_def)

lemma GetCustomDenyListRequest_requires:
  "requires GetCustomDenyListRequest_Validate
    [\<lambda>v. GetCustomDenyListRequest.ConfigID v = 0,
     \<lambda>v. GetCustomDenyListRequest.Version v = 0]"
  by (auto simp: requires_def GetCustomDenyListRequest_Validate_def Filter_def Required_int_def Required_string_def)

lemma UpdateCustomDenyRequest_requires:
  "requires UpdateCustomDenyRequest_Validate
    [\<lambda>v. UpdateCustomDenyRequest.ConfigID v = 0,
     \<lambda>v. UpdateCustomDenyRequest.Version v = 0,
     \<lambda>v. UpdateCustomDenyRequest.ID v = []]"
  by (auto simp: requires_def UpdateCustomDenyRequest_Validate_def Filter_def Required_int_def Required_string_def)

lemma CreateCustomDenyRequest_requires:
  "requires CreateCustomDenyRequest_Validate
    [\<lambda>v. CreateCustomDenyRequest.ConfigID v = 0,
     \<lambda>v. CreateCustomDenyRequest.Version v = 0]"
  by (auto simp: requires_def CreateCustomDenyRequest_Validate_def Filter_def Required_int_def Required_string_def)

lemma RemoveCustomDenyRequest_requires:
  "requires RemoveCustomDenyRequest_Validate
    [\<lambda>v. RemoveCustomDenyRequest.ConfigID v = 0,
     \<lambda>v. RemoveCustomDenyRequest.Version v = 0,
     \<lambda>v. RemoveCustomDenyRequest.ID v = []]"
  by (auto simp: requires_def RemoveCustomDenyRequest_Validate_def Filter_def Required_int_def Required_string_def)

lemma GetMatchTargetRequest_requires:
  "requires GetMatchTargetRequest_Validate
    [\<lambda>v. GetMatchTargetRequest.ConfigID v = 0,
     \<lambda>v. GetMatchTargetRequest.ConfigVersion v = 0,
     \<lambda>v. GetMatchTargetRequest.TargetID v = 0]"
  by (auto simp: requires_def GetMatchTargetRequest_Validate_def Filter_def Required_int_def Required_string_def)

lemma GetMatchTargetsRequest_requires:
  "requires GetMatchTargetsRequest_Validate
    [\<lambda>v. GetMatchTargetsRequest.ConfigID v = 0,
     \<lambda>v. GetMatchTargetsRequest.ConfigVersion v = 0]"
  by (auto simp: requires_def GetMatchTargetsRequest_Validate_def Filter_def Required_int_def Required_string_def)

lemma UpdateMatchTargetRequest_requires:
  "requires UpdateMatchTargetRequest_Validate
    [\<lambda>v. UpdateMatchTargetRequest.ConfigID v = 0,
     \<lambda>v. UpdateMatchTargetRequest.ConfigVersion v = 0,
     \<lambda>v. UpdateMatchTargetRequest.TargetID v = 0]"
  by (auto simp: requires_def UpdateMatchTargetRequest_Validate_def Filter_def Required_int_def Required_string_def)

lemma CreateMatchTargetRequest_requires:
  "requires CreateMatchTargetRequest_Validate
    [\<lambda>v. CreateMatchTargetRequest.ConfigID v = 0,
     \<lambda>v. CreateMatchTargetRequest.ConfigVersion v = 0]"
  by (auto simp: requires_def CreateMatchTargetRequest_Validate_def Filter_def Required_int_def Required_string_def)

lemma RemoveMatchTargetRequest_requires:
  "requires RemoveMatchTargetRequest_Validate
    [\<lambda>v. RemoveMatchTargetRequest.ConfigID v = 0,
     \<lambda>v. RemoveMatchTargetRequest.ConfigVersion v = 0,
     \<lambda>v. RemoveMatchTargetRequest.TargetID v = 0]"
  by (auto simp: requires_def RemoveMatchTargetRequest_Validate_def Filter_def Required_int_def Required_string_def)

lemma GetReputationAnalysisRequest_requires:
  "requires GetReputationAnalysisRequest_Validate
    [\<lambda>v. GetReputationAnalysisRequest.ConfigID v = 0,
     \<lambda>v. GetReputationAnalysisRequest.Version v = 0,
     \<lambda>v. GetReputationAnalysisRequest.PolicyID v = []]"
  by (auto simp: requires_def GetReputationAnalysisRequest_Validate_def Filter_def Required_int_def Required_string_def)

lemma UpdateReputationAnalysisRequest_requires:
  "requires UpdateReputationAnalysisRequest_Validate
    [\<lambda>v. UpdateReputationAnalysisRequest.ConfigID v = 0,
     \<lambda>v. UpdateReputationAnalysisRequest.Version v = 0,
     \<lambda>v. UpdateReputationAnalysisRequest.PolicyID v = []]"
  by (auto simp: requires_def UpdateReputationAnalysisRequest_Validate_def Filter_def Required_int_def Required_string_def)

lemma RemoveReputationAnalysisRequest_requires:
  "requires RemoveReputationAnalysisRequest_Validate
    [\<lambda>v. RemoveReputationAnalysisRequest.ConfigID v = 0,
     \<lambda>v. RemoveReputationAnalysisRequest.Version v = 0,
     \<lambda>v. RemoveReputationAnalysisRequest.PolicyID v = []]"
  by (auto simp: requires_def RemoveReputationAnalysisRequest_Validate_def Filter_def Required_int_def Required_string_def)

lemma GetReputationProfileRequest_requires:
  "requires GetReputationProfileRequest_Validate
    [\<lambda>v. GetReputationProfileRequest.ConfigID v = 0,
     \<lambda>v. GetReputationProfileRequest.ConfigVersion v = 0,
     \<lambda>v. GetReputationProfileRequest.ReputationProfileId v = 0]"
  by (auto simp: requires_def GetReputationProfileRequest_Validate_def Filter_def Required_int_def Required_string_def)

lemma GetReputationProfilesRequest_requires:
  "requires GetReputationProfilesRequest_Validate
    [\<lambda>v. GetReputationProfilesRequest.ConfigID v = 0,
     \<lambda>v. GetReputationProfilesRequest.ConfigVersion v = 0]"
  by (auto simp: requires_def GetReputationProfilesRequest_Validate_def Filter_def Required_int_def Required_string_def)

lemma UpdateReputationProfileRequest_requires:
  "requires UpdateReputationProfileRequest_Validate
    [\<lambda>v. UpdateReputationProfileRequest.ConfigID v = 0,
     \<lambda>v. UpdateReputationProfileRequest.ConfigVersion v = 0,
     \<lambda>v. UpdateReputationProfileRequest.ReputationProfileId v = 0]"
  by (auto simp: requires_def UpdateReputationProfileRequest_Validate_def Filter_def Required_int_def Required_string_def)

lemma CreateReputationProfileRequest_requires:
  "requires CreateReputationProfileRequest_Validate
    [\<lambda>v. CreateReputationProfileRequest.ConfigID v = 0,
     \<lambda>v. CreateReputationProfileRequest.ConfigVersion v = 0]"
  by (auto simp: requires_def CreateReputationProfileRequest_Validate_def Filter_def Required_int_def Required_string_def)

lemma RemoveReputationProfileRequest_requires:
  "requires RemoveReputationProfileRequest_Validate
    [\<lambda>v. RemoveReputationProfileRequest.ConfigID v = 0,
     \<lambda>v. RemoveReputationProfileRequest.ConfigVersion v = 0,
     \<lambda>v. RemoveReputationProfileRequest.ReputationProfileId v = 0]"
  by (auto simp: requires_def RemoveReputationProfileRequest_Validate_def Filter_def Required_int_def Required_string_def)

lemma GetVersionNotesRequest_requires:
  "requires GetVersionNotesRequest_Validate
    [\<lambda>v. GetVersionNotesRequest.ConfigID v = 0,
     \<lambda>v. GetVersionNotesRequest.Version v = 0]"
  by (auto simp: requires_def GetVersionNotesRequest_Validate_def Filter_def Required_int_def Required_string_def)

lemma UpdateVersionNotesRequest_requires:
  "requires UpdateVersionNotesRequest_Validate
    [\<lambda>v. UpdateVersionNotesRequest.ConfigID v = 0,
     \<lambda>v. UpdateVersionNotesRequest.Version v = 0]"
  by (auto simp: requires_def UpdateVersionNotesRequest_Validate_def Filter_def Required_int_def Required_string_def)


text \<open>
  C6. \<open>Validate\<close> is to name the required field that is missing. For a
  \<open>GetReputationProfileRequest\<close> without \<open>ReputationProfileId\<close> the error names
  \<open>RatePolicyID\<close>, a field the request does not have, where the \<open>Validate\<close> methods
  of \<open>UpdateReputationProfileRequest\<close> and \<open>RemoveReputationProfileRequest\<close> name
  \<open>ReputationProfileId\<close>.
\<close>

theorem GetReputationProfileRequest_Validate_names_RatePolicyID:
  "GetReputationProfileRequest_Validate
     \<lparr>GetReputationProfileRequest.ConfigID = 1, ConfigVersion = 2, ReputationProfileId = 0\<rparr> =
     Some (validation_Errors [(''RatePolicyID'', ''cannot be blank'')]) \<and>
   error_Error (validation_Errors [(''RatePolicyID'', ''cannot be blank'')]) =
     ''RatePolicyID: cannot be blank.''"
  by (simp add: GetReputationProfileRequest_Validate_def eval_defs)

section \<open>Properties of the operations\<close>

subsection \<open>The text of a URL\<close>

lemma Sprintf_GetApiHostnameCoverageOverlapping:
  "Sprintf ''/appsec/v1/configs/%d/versions/%d/hostname-coverage/overlapping?hostname=%s''
     [D a, D b, S c] =
   configs_versions a b @ ''/hostname-coverage/overlapping?hostname='' @ c"
  by (simp add: Sprintf.simps verb_def render_def configs_versions_def)

lemma Sprintf_GetAttackGroup:
  "Sprintf ''/appsec/v1/configs/%d/versions/%d/security-policies/%s/attack-groups/%s?includeConditionException=true''
     [D a, D b, S c, S d] =
   configs_versions a b @ ''/security-policies/'' @ c @ ''/attack-groups/'' @ d @ ''?includeConditionException=true''"
  by (simp add: Sprintf.simps verb_def render_def configs_versions_def)

lemma Sprintf_GetAttackGroups:
  "Sprintf ''/appsec/v1/configs/%d/versions/%d/security-policies/%s/attack-groups?includeConditionException=true''
     [D a, D b, S c] =
   configs_versions a b @ ''/security-policies/'' @ c @ ''/attack-groups?includeConditionException=true''"
  by (simp add: Sprintf.simps verb_def render_def configs_versions_def)

lemma Sprintf_UpdateAttackGroup:
  "Sprintf ''/appsec/v1/configs/%d/versions/%d/security-policies/%s/attack-groups/%s/action-condition-exception''
     [D a, D b, S c, S d] =
   configs_versions a b @ ''/security-policies/'' @ c @ ''/attack-groups/'' @ d @ ''/action-condition-exception''"
  by (simp add: Sprintf.simps verb_def render_def configs_versions_def)

lemma Sprintf_GetConfigurationClone:
  "Sprintf ''/appsec/v1/configs/%d/versions/%d''
     [D a, D b] =
   configs_versions a b"
  by (simp add: Sprintf.simps verb_def render_def configs_versions_def)

lemma Sprintf_GetCustomDeny:
  "Sprintf ''/appsec/v1/configs/%d/versions/%d/custom-deny/%s''
     [D a, D b, S c] =
   configs_versions a b @ ''/custom-deny/'' @ c"
  by (simp add: Sprintf.simps verb_def render_def configs_versions_def)

lemma Sprintf_GetCustomDenyList:
  "Sprintf ''/appsec/v1/configs/%d/versions/%d/custom-deny''
     [D a, D b] =
   configs_versions a b @ ''/custom-deny''"
  by (simp add: Sprintf.simps verb_def render_def configs_versions_def)

lemma Sprintf_GetMatchTarget:
  "Sprintf ''/appsec/v1/configs/%d/versions/%d/match-targets/%d?includeChildObjectName=true''
     [D a, D b, D c] =
   configs_versions a b @ ''/match-targets/'' @ Itoa c @ ''?includeChildObjectName=true''"
  by (simp add: Sprintf.simps verb_def render_def configs_versions_def)

lemma Sprintf_GetMatchTargets:
  "Sprintf ''/appsec/v1/configs/%d/versions/%d/match-targets''
     [D a, D b] =
   configs_versions a b @ ''/match-targets''"
  by (simp add: Sprintf.simps verb_def render_def configs_versions_def)

lemma Sprintf_UpdateMatchTarget:
  "Sprintf ''/appsec/v1/configs/%d/versions/%d/match-targets/%d''
     [D a, D b, D c] =
   configs_versions a b @ ''/match-targets/'' @ Itoa c"
  by (simp add: Sprintf.simps verb_def render_def configs_versions_def)

lemma Sprintf_GetReputationAnalysis:
  "Sprintf ''/appsec/v1/configs/%d/versions/%d/security-policies/%s/reputation-analysis''
     [D a, D b, S c] =
   configs_versions a b @ ''/security-policies/'' @ c @ ''/reputation-analysis''"
  by (simp add: Sprintf.simps verb_def render_def configs_versions_def)

lemma Sprintf_GetReputationProfile:
  "Sprintf ''/appsec/v1/configs/%d/versions/%d/reputation-profiles/%d''
     [D a, D b, D c] =
   configs_versions a b @ ''/reputation-profiles/'' @ Itoa c"
  by (simp add: Sprintf.simps verb_def render_def configs_versions_def)

lemma Sprintf_GetReputationProfiles:
  "Sprintf ''/appsec/v1/configs/%d/versions/%d/reputation-profiles''
     [D a, D b] =
   configs_versions a b @ ''/reputation-profiles''"
  by (simp add: Sprintf.simps verb_def render_def configs_versions_def)

lemma Sprintf_GetVersionNotes:
  "Sprintf ''/appsec/v1/configs/%d/versions/%d/version-notes''
     [D a, D b] =
   configs_versions a b @ ''/version-notes''"
  by (simp add: Sprintf.simps verb_def render_def configs_versions_def)


subsection \<open>What the predicates exclude\<close>

text \<open>
  None of the predicates on operations holds of an operation that returns at once
  without calling \<open>Exec\<close>: each one makes the operation send its request.
\<close>

lemma status_policy_rejects_idle:
  assumes "validate v = None"
  shows "\<not> status_policy m validate (\<lambda>p params. ([], None, None)) url_Parse url"
proof
  assume "status_policy m validate (\<lambda>p params. ([], None, None)) url_Parse url"
  from this [unfolded status_policy_def, rule_format, of v "answering 200 undefined" "url v"] assms
  show False
    by (simp add: answering_def)
qed

lemma post_filter_rejects_idle:
  assumes "validate v = None"
  shows "\<not> post_filter validate (\<lambda>p params. ([], None, None)) url key dflt ident entries"
proof
  assume "post_filter validate (\<lambda>p params. ([], None, None)) url key dflt ident entries"
  from this [unfolded post_filter_def, rule_format, of v "answering 200 undefined" "url v"] assms
  show False
    by (simp add: answering_def)
qed

lemma builds_url_rejects_idle:
  assumes "validate v = None"
  shows "\<not> builds_url m validate (\<lambda>p params. ([], None, None)) url_Parse url"
proof
  assume "builds_url m validate (\<lambda>p params. ([], None, None)) url_Parse url"
  from this [unfolded builds_url_def, rule_format, of "answering 200 undefined" v] assms
  show False
    by (simp add: answering_def)
qed

lemma wraps_fault_rejects_idle:
  assumes "validate v = None"
  shows "\<not> wraps_fault m validate (\<lambda>p params. ([], None, None)) url_Parse url"
proof
  assume "wraps_fault m validate (\<lambda>p params. ([], None, None)) url_Parse url"
  from this [unfolded wraps_fault_def, rule_format, of v "answering 200 undefined" "url v"] assms
  show False
    by (simp add: answering_def)
qed

subsection \<open>Validation comes first\<close>

lemma GetApiHostnameCoverageOverlapping_validates: "validates_first GetApiHostnameCoverageOverlappingRequest_Validate GetApiHostnameCoverageOverlapping"
  by (simp add: validates_first_def GetApiHostnameCoverageOverlapping_def)

lemma GetAttackGroup_validates: "validates_first GetAttackGroupRequest_Validate GetAttackGroup"
  by (simp add: validates_first_def GetAttackGroup_def)

lemma GetAttackGroups_validates: "validates_first GetAttackGroupsRequest_Validate GetAttackGroups"
  by (simp add: validates_first_def GetAttackGroups_def)

lemma UpdateAttackGroup_validates: "validates_first UpdateAttackGroupRequest_Validate UpdateAttackGroup"
  by (simp add: validates_first_def UpdateAttackGroup_def)

lemma GetConfigurationClone_validates: "validates_first GetConfigurationCloneRequest_Validate GetConfigurationClone"
  by (simp add: validates_first_def GetConfigurationClone_def)

lemma CreateConfigurationClone_validates: "validates_first CreateConfigurationCloneRequest_Validate CreateConfigurationClone"
  by (simp add: validates_first_def CreateConfigurationClone_def)

lemma GetCustomDeny_validates: "validates_first GetCustomDenyRequest_Validate GetCustomDeny"
  by (simp add: validates_first_def GetCustomDeny_def)

lemma GetCustomDenyList_validates: "validates_first GetCustomDenyListRequest_Validate GetCustomDenyList"
  by (simp add: validates_first_def GetCustomDenyList_def)

lemma UpdateCustomDeny_validates: "validates_first UpdateCustomDenyRequest_Validate UpdateCustomDeny"
  by (simp add: validates_first_def UpdateCustomDeny_def)

lemma CreateCustomDeny_validates: "validates_first CreateCustomDenyRequest_Validate CreateCustomDeny"
  by (simp add: validates_first_def CreateCustomDeny_def)

lemma RemoveCustomDeny_validates: "validates_first RemoveCustomDenyRequest_Validate RemoveCustomDeny"
  by (simp add: validates_first_def RemoveCustomDeny_def)

lemma GetMatchTarget_validates: "validates_first GetMatchTargetRequest_Validate GetMatchTarget"
  by (simp add: validates_first_def GetMatchTarget_def)

lemma GetMatchTargets_validates: "validates_first GetMatchTargetsRequest_Validate GetMatchTargets"
  by (simp add: validates_first_def GetMatchTargets_def)

lemma UpdateMatchTarget_validates: "validates_first UpdateMatchTargetRequest_Validate UpdateMatchTarget"
  by (simp add: validates_first_def UpdateMatchTarget_def)

lemma CreateMatchTarget_validates: "validates_first CreateMatchTargetRequest_Validate CreateMatchTarget"
  by (simp add: validates_first_def CreateMatchTarget_def)

lemma RemoveMatchTarget_validates: "validates_first RemoveMatchTargetRequest_Validate RemoveMatchTarget"
  by (simp add: validates_first_def RemoveMatchTarget_def)

lemma GetReputationAnalysis_validates: "validates_first GetReputationAnalysisRequest_Validate GetReputationAnalysis"
  by (simp add: validates_first_def GetReputationAnalysis_def)

lemma UpdateReputationAnalysis_validates: "validates_first UpdateReputationAnalysisRequest_Validate UpdateReputationAnalysis"
  by (simp add: validates_first_def UpdateReputationAnalysis_def)

lemma GetReputationProfile_validates: "validates_first GetReputationProfileRequest_Validate GetReputationProfile"
  by (simp add: validates_first_def GetReputationProfile_def)

lemma GetReputationProfiles_validates: "validates_first GetReputationProfilesRequest_Validate GetReputationProfiles"
  by (simp add: validates_first_def GetReputationProfiles_def)

lemma UpdateReputationProfile_validates: "validates_first UpdateReputationProfileRequest_Validate UpdateReputationProfile"
  by (simp add: validates_first_def UpdateReputationProfile_def)

lemma CreateReputationProfile_validates: "validates_first CreateReputationProfileRequest_Validate CreateReputationProfile"
  by (simp add: validates_first_def CreateReputationProfile_def)

lemma RemoveReputationProfile_validates: "validates_first RemoveReputationProfileRequest_Validate RemoveReputationProfile"
  by (simp add: validates_first_def RemoveReputationProfile_def)

lemma GetVersionNotes_validates: "validates_first GetVersionNotesRequest_Validate GetVersionNotes"
  by (simp add: validates_first_def GetVersionNotes_def)

lemma UpdateVersionNotes_validates: "validates_first UpdateVersionNotesRequest_Validate UpdateVersionNotes"
  by (simp add: validates_first_def UpdateVersionNotes_def)


text \<open>
  C2. Every operation is to validate its request before any network call and to
  return an error wrapping \<open>ErrStructValidation\<close> when \<open>Validate\<close> rejects it. All
  operations but one do (the lemmas above). \<open>RemoveReputationAnalysis\<close> never calls
  \<open>Validate\<close>: with a request whose three required fields are blank it builds the
  URL, calls \<open>Exec\<close> and returns what the transport answered.
\<close>

theorem RemoveReputationAnalysis_skips_validation:
  "RemoveReputationAnalysisRequest_Validate
     \<lparr>RemoveReputationAnalysisRequest.ConfigID = 0, Version = 0, PolicyID = [],
      ForwardToHTTPHeader = False, ForwardSharedIPToHTTPHeaderAndSIEM = False\<rparr> =
     Some (validation_Errors
       [(''ConfigID'', ''cannot be blank''), (''Version'', ''cannot be blank''),
        (''PolicyID'', ''cannot be blank'')]) \<and>
   RemoveReputationAnalysis (answering 200 ())
     \<lparr>RemoveReputationAnalysisRequest.ConfigID = 0, Version = 0, PolicyID = [],
      ForwardToHTTPHeader = False, ForwardSharedIPToHTTPHeaderAndSIEM = False\<rparr> =
     ([(\<lparr>Method = ''PUT'',
         URL = ''/appsec/v1/configs/0/versions/0/security-policies//reputation-analysis'',
         Header = []\<rparr>,
        [\<lparr>RemoveReputationAnalysisRequest.ConfigID = 0, Version = 0, PolicyID = [],
          ForwardToHTTPHeader = False, ForwardSharedIPToHTTPHeaderAndSIEM = False\<rparr>])],
      Some (), None)"
  by (simp add: RemoveReputationAnalysis_def RemoveReputationAnalysisRequest_Validate_def eval_defs)

subsection \<open>Status codes\<close>

lemma GetApiHostnameCoverageOverlapping_status:
  "status_policy MethodGet GetApiHostnameCoverageOverlappingRequest_Validate GetApiHostnameCoverageOverlapping url_Parse
    (\<lambda>v.
         configs_versions (GetApiHostnameCoverageOverlappingRequest.ConfigID v) (GetApiHostnameCoverageOverlappingRequest.Version v) @
         ''/hostname-coverage/overlapping?hostname='' @
         GetApiHostnameCoverageOverlappingRequest.Hostname v)"
  unfolding status_policy_def GetApiHostnameCoverageOverlapping_def
  by (auto simp: Let_def NewRequestWithContext_def parsed_twice_def Sprintf_GetApiHostnameCoverageOverlapping success_codes_def MethodGet_def StatusOK_def
           split: option.splits sum.splits if_splits)

lemma GetAttackGroup_status:
  "status_policy MethodGet GetAttackGroupRequest_Validate GetAttackGroup url_Parse
    (\<lambda>v.
         configs_versions (GetAttackGroupRequest.ConfigID v) (GetAttackGroupRequest.Version v) @
         ''/security-policies/'' @ GetAttackGroupRequest.PolicyID v @ ''/attack-groups/'' @
         GetAttackGroupRequest.Group v @ ''?includeConditionException=true'')"
  unfolding status_policy_def GetAttackGroup_def
  by (auto simp: Let_def NewRequestWithContext_def parsed_twice_def Sprintf_GetAttackGroup success_codes_def MethodGet_def StatusOK_def
           split: option.splits sum.splits if_splits)

lemma GetAttackGroups_status:
  "status_policy MethodGet GetAttackGroupsRequest_Validate GetAttackGroups url_Parse
    (\<lambda>v.
         configs_versions (GetAttackGroupsRequest.ConfigID v) (GetAttackGroupsRequest.Version v) @
         ''/security-policies/'' @ GetAttackGroupsRequest.PolicyID v @
         ''/attack-groups?includeConditionException=true'')"
  unfolding status_policy_def GetAttackGroups_def
  by (auto simp: Let_def NewRequestWithContext_def parsed_twice_def Sprintf_GetAttackGroups success_codes_def MethodGet_def StatusOK_def
           split: option.splits sum.splits if_splits)

lemma UpdateAttackGroup_status:
  "status_policy MethodPut UpdateAttackGroupRequest_Validate UpdateAttackGroup url_Parse
    (\<lambda>v.
         configs_versions (UpdateAttackGroupRequest.ConfigID v) (UpdateAttackGroupRequest.Version v) @
         ''/security-policies/'' @ UpdateAttackGroupRequest.PolicyID v @
         ''/attack-groups/'' @ UpdateAttackGroupRequest.Group v @
         ''/action-condition-exception'')"
  unfolding status_policy_def UpdateAttackGroup_def
  by (auto simp: Let_def NewRequestWithContext_def parsed_twice_def Header_Set_def Sprintf_UpdateAttackGroup success_codes_def MethodPut_def StatusOK_def StatusCreated_def
           split: option.splits sum.splits if_splits)

lemma GetConfigurationClone_status:
  "status_policy MethodGet GetConfigurationCloneRequest_Validate GetConfigurationClone url_Parse
    (\<lambda>v.
         configs_versions (GetConfigurationCloneRequest.ConfigID v) (GetConfigurationCloneRequest.Version v))"
  unfolding status_policy_def GetConfigurationClone_def
  by (auto simp: Let_def NewRequestWithContext_def parsed_twice_def Sprintf_GetConfigurationClone success_codes_def MethodGet_def StatusOK_def
           split: option.splits sum.splits if_splits)

lemma CreateConfigurationClone_status:
  "status_policy MethodPost CreateConfigurationCloneRequest_Validate CreateConfigurationClone url_Parse
    (\<lambda>v. ''/appsec/v1/configs/'')"
  unfolding status_policy_def CreateConfigurationClone_def
  by (auto simp: Let_def NewRequestWithContext_def parsed_twice_def success_codes_def MethodPost_def StatusOK_def StatusCreated_def
           split: option.splits sum.splits if_splits)

lemma GetCustomDeny_status:
  "status_policy MethodGet GetCustomDenyRequest_Validate GetCustomDeny url_Parse
    (\<lambda>v.
         configs_versions (GetCustomDenyRequest.ConfigID v) (GetCustomDenyRequest.Version v) @
         ''/custom-deny/'' @ GetCustomDenyRequest.ID v)"
  unfolding status_policy_def GetCustomDeny_def
  by (auto simp: Let_def NewRequestWithContext_def parsed_twice_def Sprintf_GetCustomDeny success_codes_def MethodGet_def StatusOK_def
           split: option.splits sum.splits if_splits)

lemma GetCustomDenyList_status:
  "status_policy MethodGet GetCustomDenyListRequest_Validate GetCustomDenyList url_Parse
    (\<lambda>v.
         configs_versions (GetCustomDenyListRequest.ConfigID v) (GetCustomDenyListRequest.Version v) @
         ''/custom-deny'')"
  unfolding status_policy_def GetCustomDenyList_def
  by (auto simp: Let_def NewRequestWithContext_def parsed_twice_def Sprintf_GetCustomDenyList success_codes_def MethodGet_def StatusOK_def
           split: option.splits sum.splits if_splits)

lemma UpdateCustomDeny_status:
  "status_policy MethodPut UpdateCustomDenyRequest_Validate UpdateCustomDeny url_Parse
    (\<lambda>v.
         configs_versions (UpdateCustomDenyRequest.ConfigID v) (UpdateCustomDenyRequest.Version v) @
         ''/custom-deny/'' @ UpdateCustomDenyRequest.ID v)"
  unfolding status_policy_def UpdateCustomDeny_def
  by (auto simp: Let_def NewRequestWithContext_def parsed_twice_def Header_Set_def Sprintf_GetCustomDeny success_codes_def MethodPut_def StatusOK_def StatusCreated_def
           split: option.splits sum.splits if_splits)

lemma CreateCustomDeny_status:
  "status_policy MethodPost CreateCustomDenyRequest_Validate CreateCustomDeny url_Parse
    (\<lambda>v.
         configs_versions (CreateCustomDenyRequest.ConfigID v) (CreateCustomDenyRequest.Version v) @
         ''/custom-deny'')"
  unfolding status_policy_def CreateCustomDeny_def
  by (auto simp: Let_def NewRequestWithContext_def parsed_twice_def Header_Set_def Sprintf_GetCustomDenyList success_codes_def MethodPost_def StatusOK_def StatusCreated_def
           split: option.splits sum.splits if_splits)

lemma RemoveCustomDeny_status:
  "status_policy MethodDelete RemoveCustomDenyRequest_Validate RemoveCustomDeny parsed_twice
    (\<lambda>v.
         configs_versions (RemoveCustomDenyRequest.ConfigID v) (RemoveCustomDenyRequest.Version v) @
         ''/custom-deny/'' @ RemoveCustomDenyRequest.ID v)"
  unfolding status_policy_def RemoveCustomDeny_def
  by (auto simp: Let_def NewRequestWithContext_def parsed_twice_def Sprintf_GetCustomDeny success_codes_def MethodDelete_def StatusNoContent_def StatusOK_def
           split: option.splits sum.splits if_splits)

lemma GetMatchTarget_status:
  "status_policy MethodGet GetMatchTargetRequest_Validate GetMatchTarget url_Parse
    (\<lambda>v.
         configs_versions (GetMatchTargetRequest.ConfigID v) (GetMatchTargetRequest.ConfigVersion v) @
         ''/match-targets/'' @ Itoa (GetMatchTargetRequest.TargetID v) @
         ''?includeChildObjectName=true'')"
  unfolding status_policy_def GetMatchTarget_def
  by (auto simp: Let_def NewRequestWithContext_def parsed_twice_def Sprintf_GetMatchTarget success_codes_def MethodGet_def StatusOK_def
           split: option.splits sum.splits if_splits)

lemma GetMatchTargets_status:
  "status_policy MethodGet GetMatchTargetsRequest_Validate GetMatchTargets url_Parse
    (\<lambda>v.
         configs_versions (GetMatchTargetsRequest.ConfigID v) (GetMatchTargetsRequest.ConfigVersion v) @
         ''/match-targets'')"
  unfolding status_policy_def GetMatchTargets_def
  by (auto simp: Let_def NewRequestWithContext_def parsed_twice_def Sprintf_GetMatchTargets success_codes_def MethodGet_def StatusOK_def
           split: option.splits sum.splits if_splits)

lemma UpdateMatchTarget_status:
  "status_policy MethodPut UpdateMatchTargetRequest_Validate UpdateMatchTarget url_Parse
    (\<lambda>v.
         configs_versions (UpdateMatchTargetRequest.ConfigID v) (UpdateMatchTargetRequest.ConfigVersion v) @
         ''/match-targets/'' @ Itoa (UpdateMatchTargetRequest.TargetID v))"
  unfolding status_policy_def UpdateMatchTarget_def
  by (auto simp: Let_def NewRequestWithContext_def parsed_twice_def Header_Set_def Sprintf_UpdateMatchTarget success_codes_def MethodPut_def StatusOK_def StatusCreated_def
           split: option.splits sum.splits if_splits)

lemma CreateMatchTarget_status:
  "status_policy MethodPost CreateMatchTargetRequest_Validate CreateMatchTarget url_Parse
    (\<lambda>v.
         configs_versions (CreateMatchTargetRequest.ConfigID v) (CreateMatchTargetRequest.ConfigVersion v) @
         ''/match-targets'')"
  unfolding status_policy_def CreateMatchTarget_def
  by (auto simp: Let_def NewRequestWithContext_def parsed_twice_def Header_Set_def Sprintf_GetMatchTargets success_codes_def MethodPost_def StatusCreated_def StatusOK_def
           split: option.splits sum.splits if_splits)

lemma RemoveMatchTarget_status:
  "status_policy MethodDelete RemoveMatchTargetRequest_Validate RemoveMatchTarget url_Parse
    (\<lambda>v.
         configs_versions (RemoveMatchTargetRequest.ConfigID v) (RemoveMatchTargetRequest.ConfigVersion v) @
         ''/match-targets/'' @ Itoa (RemoveMatchTargetRequest.TargetID v))"
  unfolding status_policy_def RemoveMatchTarget_def
  by (auto simp: Let_def NewRequestWithContext_def parsed_twice_def Sprintf_UpdateMatchTarget success_codes_def MethodDelete_def StatusNoContent_def StatusOK_def
           split: option.splits sum.splits if_splits)

lemma GetReputationAnalysis_status:
  "status_policy MethodGet GetReputationAnalysisRequest_Validate GetReputationAnalysis url_Parse
    (\<lambda>v.
         configs_versions (GetReputationAnalysisRequest.ConfigID v) (GetReputationAnalysisRequest.Version v) @
         ''/security-policies/'' @ GetReputationAnalysisRequest.PolicyID v @
         ''/reputation-analysis'')"
  unfolding status_policy_def GetReputationAnalysis_def
  by (auto simp: Let_def NewRequestWithContext_def parsed_twice_def Sprintf_GetReputationAnalysis success_codes_def MethodGet_def StatusOK_def
           split: option.splits sum.splits if_splits)

lemma UpdateReputationAnalysis_status:
  "status_policy MethodPut UpdateReputationAnalysisRequest_Validate UpdateReputationAnalysis url_Parse
    (\<lambda>v.
         configs_versions (UpdateReputationAnalysisRequest.ConfigID v) (UpdateReputationAnalysisRequest.Version v) @
         ''/security-policies/'' @ UpdateReputationAnalysisRequest.PolicyID v @
         ''/reputation-analysis'')"
  unfolding status_policy_def UpdateReputationAnalysis_def
  by (auto simp: Let_def NewRequestWithContext_def parsed_twice_def Sprintf_GetReputationAnalysis success_codes_def MethodPut_def StatusOK_def StatusCreated_def
           split: option.splits sum.splits if_splits)

lemma RemoveReputationAnalysis_status:
  "status_policy MethodPut (\<lambda>v. None) RemoveReputationAnalysis url_Parse
    (\<lambda>v.
         configs_versions (RemoveReputationAnalysisRequest.ConfigID v) (RemoveReputationAnalysisRequest.Version v) @
         ''/security-policies/'' @ RemoveReputationAnalysisRequest.PolicyID v @
         ''/reputation-analysis'')"
  unfolding status_policy_def RemoveReputationAnalysis_def
  by (auto simp: Let_def NewRequestWithContext_def parsed_twice_def Sprintf_GetReputationAnalysis success_codes_def MethodPut_def StatusOK_def StatusCreated_def
           split: option.splits sum.splits if_splits)

lemma GetReputationProfile_status:
  "status_policy MethodGet GetReputationProfileRequest_Validate GetReputationProfile url_Parse
    (\<lambda>v.
         configs_versions (GetReputationProfileRequest.ConfigID v) (GetReputationProfileRequest.ConfigVersion v) @
         ''/reputation-profiles/'' @
         Itoa (GetReputationProfileRequest.ReputationProfileId v))"
  unfolding status_policy_def GetReputationProfile_def
  by (auto simp: Let_def NewRequestWithContext_def parsed_twice_def Sprintf_GetReputationProfile success_codes_def MethodGet_def StatusOK_def
           split: option.splits sum.splits if_splits)

lemma GetReputationProfiles_status:
  "status_policy MethodGet GetReputationProfilesRequest_Validate GetReputationProfiles url_Parse
    (\<lambda>v.
         configs_versions (GetReputationProfilesRequest.ConfigID v) (GetReputationProfilesRequest.ConfigVersion v) @
         ''/reputation-profiles'')"
  unfolding status_policy_def GetReputationProfiles_def
  by (auto simp: Let_def NewRequestWithContext_def parsed_twice_def Sprintf_GetReputationProfiles success_codes_def MethodGet_def StatusOK_def
           split: option.splits sum.splits if_splits)

lemma UpdateReputationProfile_status:
  "status_policy MethodPut UpdateReputationProfileRequest_Validate UpdateReputationProfile url_Parse
    (\<lambda>v.
         configs_versions (UpdateReputationProfileRequest.ConfigID v) (UpdateReputationProfileRequest.ConfigVersion v) @
         ''/reputation-profiles/'' @
         Itoa (UpdateReputationProfileRequest.ReputationProfileId v))"
  unfolding status_policy_def UpdateReputationProfile_def
  by (auto simp: Let_def NewRequestWithContext_def parsed_twice_def Header_Set_def Sprintf_GetReputationProfile success_codes_def MethodPut_def StatusOK_def StatusCreated_def
           split: option.splits sum.splits if_splits)

lemma CreateReputationProfile_status:
  "status_policy MethodPost CreateReputationProfileRequest_Validate CreateReputationProfile url_Parse
    (\<lambda>v.
         configs_versions (CreateReputationProfileRequest.ConfigID v) (CreateReputationProfileRequest.ConfigVersion v) @
         ''/reputation-profiles'')"
  unfolding status_policy_def CreateReputationProfile_def
  by (auto simp: Let_def NewRequestWithContext_def parsed_twice_def Header_Set_def Sprintf_GetReputationProfiles success_codes_def MethodPost_def StatusOK_def StatusCreated_def
           split: option.splits sum.splits if_splits)

lemma RemoveReputationProfile_status:
  "status_policy MethodDelete RemoveReputationProfileRequest_Validate RemoveReputationProfile parsed_twice
    (\<lambda>v.
         configs_versions (RemoveReputationProfileRequest.ConfigID v) (RemoveReputationProfileRequest.ConfigVersion v) @
         ''/reputation-profiles/'' @
         Itoa (RemoveReputationProfileRequest.ReputationProfileId v))"
  unfolding status_policy_def RemoveReputationProfile_def
  by (auto simp: Let_def NewRequestWithContext_def parsed_twice_def Sprintf_GetReputationProfile success_codes_def MethodDelete_def StatusNoContent_def StatusOK_def
           split: option.splits sum.splits if_splits)

lemma GetVersionNotes_status:
  "status_policy MethodGet GetVersionNotesRequest_Validate GetVersionNotes url_Parse
    (\<lambda>v.
         configs_versions (GetVersionNotesRequest.ConfigID v) (GetVersionNotesRequest.Version v) @
         ''/version-notes'')"
  unfolding status_policy_def GetVersionNotes_def
  by (auto simp: Let_def NewRequestWithContext_def parsed_twice_def Sprintf_GetVersionNotes success_codes_def MethodGet_def StatusOK_def
           split: option.splits sum.splits if_splits)

lemma UpdateVersionNotes_status:
  "status_policy MethodPut UpdateVersionNotesRequest_Validate UpdateVersionNotes url_Parse
    (\<lambda>v.
         configs_versions (UpdateVersionNotesRequest.ConfigID v) (UpdateVersionNotesRequest.Version v) @
         ''/version-notes'')"
  unfolding status_policy_def UpdateVersionNotes_def
  by (auto simp: Let_def NewRequestWithContext_def parsed_twice_def Sprintf_GetVersionNotes success_codes_def MethodPut_def StatusOK_def StatusCreated_def
           split: option.splits sum.splits if_splits)


text \<open>
  C4. For every operation and every status code that the transport returns: an
  operation that sends \<open>GET\<close> succeeds exactly on 200, one that sends \<open>POST\<close> or
  \<open>PUT\<close> exactly on 200 and 201, one that sends \<open>DELETE\<close> exactly on 200 and 204;
  on any other status the operation returns no response and the error that the
  shared error mapper makes of the response. The operation does reach the
  transport, once and with its method, whenever its request passes validation and
  \<open>http.NewRequestWithContext\<close> builds the request. (\<open>RemoveReputationAnalysis\<close>
  sends \<open>PUT\<close> and validates nothing.)
\<close>

theorem status_codes_by_method:
  "(status_policy MethodGet GetApiHostnameCoverageOverlappingRequest_Validate GetApiHostnameCoverageOverlapping url_Parse
     (\<lambda>v.
          configs_versions (GetApiHostnameCoverageOverlappingRequest.ConfigID v) (GetApiHostnameCoverageOverlappingRequest.Version v) @
          ''/hostname-coverage/overlapping?hostname='' @
          GetApiHostnameCoverageOverlappingRequest.Hostname v)) \<and>
   (status_policy MethodGet GetAttackGroupRequest_Validate GetAttackGroup url_Parse
     (\<lambda>v.
          configs_versions (GetAttackGroupRequest.ConfigID v) (GetAttackGroupRequest.Version v) @
          ''/security-policies/'' @ GetAttackGroupRequest.PolicyID v @
          ''/attack-groups/'' @ GetAttackGroupRequest.Group v @
          ''?includeConditionException=true'')) \<and>
   (status_policy MethodGet GetAttackGroupsRequest_Validate GetAttackGroups url_Parse
     (\<lambda>v.
          configs_versions (GetAttackGroupsRequest.ConfigID v) (GetAttackGroupsRequest.Version v) @
          ''/security-policies/'' @ GetAttackGroupsRequest.PolicyID v @
          ''/attack-groups?includeConditionException=true'')) \<and>
   (status_policy MethodPut UpdateAttackGroupRequest_Validate UpdateAttackGroup url_Parse
     (\<lambda>v.
          configs_versions (UpdateAttackGroupRequest.ConfigID v) (UpdateAttackGroupRequest.Version v) @
          ''/security-policies/'' @ UpdateAttackGroupRequest.PolicyID v @
          ''/attack-groups/'' @ UpdateAttackGroupRequest.Group v @
          ''/action-condition-exception'')) \<and>
   (status_policy MethodGet GetConfigurationCloneRequest_Validate GetConfigurationClone url_Parse
     (\<lambda>v.
          configs_versions (GetConfigurationCloneRequest.ConfigID v) (GetConfigurationCloneRequest.Version v))) \<and>
   (status_policy MethodPost CreateConfigurationCloneRequest_Validate CreateConfigurationClone url_Parse
     (\<lambda>v. ''/appsec/v1/configs/'')) \<and>
   (status_policy MethodGet GetCustomDenyRequest_Validate GetCustomDeny url_Parse
     (\<lambda>v.
          configs_versions (GetCustomDenyRequest.ConfigID v) (GetCustomDenyRequest.Version v) @
          ''/custom-deny/'' @ GetCustomDenyRequest.ID v)) \<and>
   (status_policy MethodGet GetCustomDenyListRequest_Validate GetCustomDenyList url_Parse
     (\<lambda>v.
          configs_versions (GetCustomDenyListRequest.ConfigID v) (GetCustomDenyListRequest.Version v) @
          ''/custom-deny'')) \<and>
   (status_policy MethodPut UpdateCustomDenyRequest_Validate UpdateCustomDeny url_Parse
     (\<lambda>v.
          configs_versions (UpdateCustomDenyRequest.ConfigID v) (UpdateCustomDenyRequest.Version v) @
          ''/custom-deny/'' @ UpdateCustomDenyRequest.ID v)) \<and>
   (status_policy MethodPost CreateCustomDenyRequest_Validate CreateCustomDeny url_Parse
     (\<lambda>v.
          configs_versions (CreateCustomDenyRequest.ConfigID v) (CreateCustomDenyRequest.Version v) @
          ''/custom-deny'')) \<and>
   (status_policy MethodDelete RemoveCustomDenyRequest_Validate RemoveCustomDeny parsed_twice
     (\<lambda>v.
          configs_versions (RemoveCustomDenyRequest.ConfigID v) (RemoveCustomDenyRequest.Version v) @
          ''/custom-deny/'' @ RemoveCustomDenyRequest.ID v)) \<and>
   (status_policy MethodGet GetMatchTargetRequest_Validate GetMatchTarget url_Parse
     (\<lambda>v.
          configs_versions (GetMatchTargetRequest.ConfigID v) (GetMatchTargetRequest.ConfigVersion v) @
          ''/match-targets/'' @ Itoa (GetMatchTargetRequest.TargetID v) @
          ''?includeChildObjectName=true'')) \<and>
   (status_policy MethodGet GetMatchTargetsRequest_Validate GetMatchTargets url_Parse
     (\<lambda>v.
          configs_versions (GetMatchTargetsRequest.ConfigID v) (GetMatchTargetsRequest.ConfigVersion v) @
          ''/match-targets'')) \<and>
   (status_policy MethodPut UpdateMatchTargetRequest_Validate UpdateMatchTarget url_Parse
     (\<lambda>v.
          configs_versions (UpdateMatchTargetRequest.ConfigID v) (UpdateMatchTargetRequest.ConfigVersion v) @
          ''/match-targets/'' @ Itoa (UpdateMatchTargetRequest.TargetID v))) \<and>
   (status_policy MethodPost CreateMatchTargetRequest_Validate CreateMatchTarget url_Parse
     (\<lambda>v.
          configs_versions (CreateMatchTargetRequest.ConfigID v) (CreateMatchTargetRequest.ConfigVersion v) @
          ''/match-targets'')) \<and>
   (status_policy MethodDelete RemoveMatchTargetRequest_Validate RemoveMatchTarget url_Parse
     (\<lambda>v.
          configs_versions (RemoveMatchTargetRequest.ConfigID v) (RemoveMatchTargetRequest.ConfigVersion v) @
          ''/match-targets/'' @ Itoa (RemoveMatchTargetRequest.TargetID v))) \<and>
   (status_policy MethodGet GetReputationAnalysisRequest_Validate GetReputationAnalysis url_Parse
     (\<lambda>v.
          configs_versions (GetReputationAnalysisRequest.ConfigID v) (GetReputationAnalysisRequest.Version v) @
          ''/security-policies/'' @ GetReputationAnalysisRequest.PolicyID v @
          ''/reputation-analysis'')) \<and>
   (status_policy MethodPut UpdateReputationAnalysisRequest_Validate UpdateReputationAnalysis url_Parse
     (\<lambda>v.
          configs_versions (UpdateReputationAnalysisRequest.ConfigID v) (UpdateReputationAnalysisRequest.Version v) @
          ''/security-policies/'' @ UpdateReputationAnalysisRequest.PolicyID v @
          ''/reputation-analysis'')) \<and>
   (status_policy MethodPut (\<lambda>v. None) RemoveReputationAnalysis url_Parse
     (\<lambda>v.
          configs_versions (RemoveReputationAnalysisRequest.ConfigID v) (RemoveReputationAnalysisRequest.Version v) @
          ''/security-policies/'' @ RemoveReputationAnalysisRequest.PolicyID v @
          ''/reputation-analysis'')) \<and>
   (status_policy MethodGet GetReputationProfileRequest_Validate GetReputationProfile url_Parse
     (\<lambda>v.
          configs_versions (GetReputationProfileRequest.ConfigID v) (GetReputationProfileRequest.ConfigVersion v) @
          ''/reputation-profiles/'' @
          Itoa (GetReputationProfileRequest.ReputationProfileId v))) \<and>
   (status_policy MethodGet GetReputationProfilesRequest_Validate GetReputationProfiles url_Parse
     (\<lambda>v.
          configs_versions (GetReputationProfilesRequest.ConfigID v) (GetReputationProfilesRequest.ConfigVersion v) @
          ''/reputation-profiles'')) \<and>
   (status_policy MethodPut UpdateReputationProfileRequest_Validate UpdateReputationProfile url_Parse
     (\<lambda>v.
          configs_versions (UpdateReputationProfileRequest.ConfigID v) (UpdateReputationProfileRequest.ConfigVersion v) @
          ''/reputation-profiles/'' @
          Itoa (UpdateReputationProfileRequest.ReputationProfileId v))) \<and>
   (status_policy MethodPost CreateReputationProfileRequest_Validate CreateReputationProfile url_Parse
     (\<lambda>v.
          configs_versions (CreateReputationProfileRequest.ConfigID v) (CreateReputationProfileRequest.ConfigVersion v) @
          ''/reputation-profiles'')) \<and>
   (status_policy MethodDelete RemoveReputationProfileRequest_Validate RemoveReputationProfile parsed_twice
     (\<lambda>v.
          configs_versions (RemoveReputationProfileRequest.ConfigID v) (RemoveReputationProfileRequest.ConfigVersion v) @
          ''/reputation-profiles/'' @
          Itoa (RemoveReputationProfileRequest.ReputationProfileId v))) \<and>
   (status_policy MethodGet GetVersionNotesRequest_Validate GetVersionNotes url_Parse
     (\<lambda>v.
          configs_versions (GetVersionNotesRequest.ConfigID v) (GetVersionNotesRequest.Version v) @
          ''/version-notes'')) \<and>
   (status_policy MethodPut UpdateVersionNotesRequest_Validate UpdateVersionNotes url_Parse
     (\<lambda>v.
          configs_versions (UpdateVersionNotesRequest.ConfigID v) (UpdateVersionNotesRequest.Version v) @
          ''/version-notes''))"
  by (intro conjI)
     (rule GetApiHostnameCoverageOverlapping_status
       GetAttackGroup_status
       GetAttackGroups_status
       UpdateAttackGroup_status
       GetConfigurationClone_status
       CreateConfigurationClone_status
       GetCustomDeny_status
       GetCustomDenyList_status
       UpdateCustomDeny_status
       CreateCustomDeny_status
       RemoveCustomDeny_status
       GetMatchTarget_status
       GetMatchTargets_status
       UpdateMatchTarget_status
       CreateMatchTarget_status
       RemoveMatchTarget_status
       GetReputationAnalysis_status
       UpdateReputationAnalysis_status
       RemoveReputationAnalysis_status
       GetReputationProfile_status
       GetReputationProfiles_status
       UpdateReputationProfile_status
       CreateReputationProfile_status
       RemoveReputationProfile_status
       GetVersionNotes_status
       UpdateVersionNotes_status)+

theorem status_codes_by_method_witness:
  "snd (GetAttackGroup (answering 404 () :: (unit, unit) appsec)
          \<lparr>GetAttackGroupRequest.ConfigID = 1, Version = 2, PolicyID = ''pol1'', Group = ''XSS''\<rparr>) =
     (None, Some (errors_New ''API error, status 404'')) \<and>
   snd (CreateCustomDeny (answering 201 () :: (RawMessage, unit) appsec)
          \<lparr>CreateCustomDenyRequest.ConfigID = 1, Version = 2, JsonPayloadRaw = sample_payload\<rparr>) =
     (Some (), None) \<and>
   snd (UpdateVersionNotes (answering 204 () :: (UpdateVersionNotesRequest, unit) appsec)
          \<lparr>UpdateVersionNotesRequest.ConfigID = 1, Version = 2, Notes = ''reviewed''\<rparr>) =
     (None, Some (errors_New ''API error, status 204'')) \<and>
   snd (RemoveCustomDeny (answering 204 () :: (unit, unit) appsec)
          \<lparr>RemoveCustomDenyRequest.ConfigID = 1, Version = 2, ID = ''deny_custom_1''\<rparr>) =
     (Some (), None)"
proof -
  have rejected:
    "snd (op (answering s ()) r) = (None, Some (errors_New (''API error, status '' @ Itoa s)))"
    if "status_policy m validate op route url" and "validate r = None"
      and "route (answering s ()) (url r) = Inr u" and "s \<notin> success_codes m"
    for m validate route url u s and op :: "('b, unit) appsec \<Rightarrow> 'q \<Rightarrow> ('b, unit) result" and r
  proof -
    let ?p = "answering s () :: ('b, unit) appsec"
    have accepted: "request_fault ?p m = None"
      by (simp add: answering_def)
    from that(1) [unfolded status_policy_def, rule_format, OF conjI [OF that(2) conjI [OF accepted that(3)]]]
    obtain hdr body where
      policy: "\<forall>resp rval. Exec ?p \<lparr>Method = m, URL = u, Header = hdr\<rparr> body = Inr (resp, rval) \<longrightarrow>
        (StatusCode resp \<notin> success_codes m \<longrightarrow> snd (op ?p r) = (None, Some (Error ?p resp)))"
      by blast
    have "Exec ?p \<lparr>Method = m, URL = u, Header = hdr\<rparr> body = Inr (\<lparr>StatusCode = s, Body = []\<rparr>, ())"
      by (simp add: answering_def)
    with policy that(4) have "snd (op ?p r) = (None, Some (Error ?p \<lparr>StatusCode = s, Body = []\<rparr>))"
      by fastforce
    then show ?thesis
      by (simp add: answering_def)
  qed
  have succeeded: "snd (op (answering s ()) r) = (Some (), None)"
    if "status_policy m validate op route url" and "validate r = None"
      and "route (answering s ()) (url r) = Inr u" and "s \<in> success_codes m"
    for m validate route url u s and op :: "('b, unit) appsec \<Rightarrow> 'q \<Rightarrow> ('b, unit) result" and r
  proof -
    let ?p = "answering s () :: ('b, unit) appsec"
    have accepted: "request_fault ?p m = None"
      by (simp add: answering_def)
    from that(1) [unfolded status_policy_def, rule_format, OF conjI [OF that(2) conjI [OF accepted that(3)]]]
    obtain hdr body where
      policy: "\<forall>resp rval. Exec ?p \<lparr>Method = m, URL = u, Header = hdr\<rparr> body = Inr (resp, rval) \<longrightarrow>
        (snd (snd (op ?p r)) = None \<longleftrightarrow> StatusCode resp \<in> success_codes m) \<and>
        (fst (snd (op ?p r)) \<noteq> None \<longleftrightarrow> StatusCode resp \<in> success_codes m)"
      by blast
    have "Exec ?p \<lparr>Method = m, URL = u, Header = hdr\<rparr> body = Inr (\<lparr>StatusCode = s, Body = []\<rparr>, ())"
      by (simp add: answering_def)
    with policy that(4) have "snd (snd (op ?p r)) = None" "fst (snd (op ?p r)) \<noteq> None"
      by fastforce+
    then show ?thesis
      by (cases "snd (op ?p r)") auto
  qed
  have get: "snd (GetAttackGroup (answering 404 () :: (unit, unit) appsec)
          \<lparr>GetAttackGroupRequest.ConfigID = 1, Version = 2, PolicyID = ''pol1'', Group = ''XSS''\<rparr>) =
     (None, Some (errors_New (''API error, status '' @ Itoa 404)))"
    by (rule rejected [OF status_codes_by_method [THEN conjunct2, THEN conjunct1]])
       (simp_all add: GetAttackGroupRequest_Validate_def Filter_def Required_int_def
          Required_string_def answering_def success_codes_def MethodGet_def)
  have post: "snd (CreateCustomDeny (answering 201 () :: (RawMessage, unit) appsec)
          \<lparr>CreateCustomDenyRequest.ConfigID = 1, Version = 2, JsonPayloadRaw = sample_payload\<rparr>) =
     (Some (), None)"
    by (rule succeeded [OF status_codes_by_method
          [THEN conjunct2, THEN conjunct2, THEN conjunct2, THEN conjunct2, THEN conjunct2,
           THEN conjunct2, THEN conjunct2, THEN conjunct2, THEN conjunct2, THEN conjunct1]])
       (simp_all add: CreateCustomDenyRequest_Validate_def Filter_def Required_int_def
          answering_def success_codes_def MethodPost_def)
  have put: "snd (UpdateVersionNotes (answering 204 () :: (UpdateVersionNotesRequest, unit) appsec)
          \<lparr>UpdateVersionNotesRequest.ConfigID = 1, Version = 2, Notes = ''reviewed''\<rparr>) =
     (None, Some (errors_New (''API error, status '' @ Itoa 204)))"
    by (rule rejected [OF status_codes_by_method
          [THEN conjunct2, THEN conjunct2, THEN conjunct2, THEN conjunct2, THEN conjunct2,
           THEN conjunct2, THEN conjunct2, THEN conjunct2, THEN conjunct2, THEN conjunct2,
           THEN conjunct2, THEN conjunct2, THEN conjunct2, THEN conjunct2, THEN conjunct2,
           THEN conjunct2, THEN conjunct2, THEN conjunct2, THEN conjunct2, THEN conjunct2,
           THEN conjunct2, THEN conjunct2, THEN conjunct2, THEN conjunct2, THEN conjunct2]])
       (simp_all add: UpdateVersionNotesRequest_Validate_def Filter_def Required_int_def
          answering_def success_codes_def MethodPut_def)
  have delete: "snd (RemoveCustomDeny (answering 204 () :: (unit, unit) appsec)
          \<lparr>RemoveCustomDenyRequest.ConfigID = 1, Version = 2, ID = ''deny_custom_1''\<rparr>) =
     (Some (), None)"
    by (rule succeeded [OF status_codes_by_method
          [THEN conjunct2, THEN conjunct2, THEN conjunct2, THEN conjunct2, THEN conjunct2,
           THEN conjunct2, THEN conjunct2, THEN conjunct2, THEN conjunct2, THEN conjunct2,
           THEN conjunct1]])
       (simp_all add: RemoveCustomDenyRequest_Validate_def Filter_def Required_int_def
          Required_string_def answering_def parsed_twice_def success_codes_def MethodDelete_def)
  from get post put delete show ?thesis
    by (simp add: Itoa_def decimal.simps digit_def)
qed


subsection \<open>Transport faults\<close>

lemma GetApiHostnameCoverageOverlapping_wraps:
  "wraps_fault MethodGet GetApiHostnameCoverageOverlappingRequest_Validate GetApiHostnameCoverageOverlapping url_Parse
    (\<lambda>v.
         configs_versions (GetApiHostnameCoverageOverlappingRequest.ConfigID v) (GetApiHostnameCoverageOverlappingRequest.Version v) @
         ''/hostname-coverage/overlapping?hostname='' @
         GetApiHostnameCoverageOverlappingRequest.Hostname v)"
  unfolding wraps_fault_def GetApiHostnameCoverageOverlapping_def
  by (auto simp: Let_def NewRequestWithContext_def parsed_twice_def Sprintf_GetApiHostnameCoverageOverlapping
           split: option.splits sum.splits if_splits)

lemma GetAttackGroup_wraps:
  "wraps_fault MethodGet GetAttackGroupRequest_Validate GetAttackGroup url_Parse
    (\<lambda>v.
         configs_versions (GetAttackGroupRequest.ConfigID v) (GetAttackGroupRequest.Version v) @
         ''/security-policies/'' @ GetAttackGroupRequest.PolicyID v @ ''/attack-groups/'' @
         GetAttackGroupRequest.Group v @ ''?includeConditionException=true'')"
  unfolding wraps_fault_def GetAttackGroup_def
  by (auto simp: Let_def NewRequestWithContext_def parsed_twice_def Sprintf_GetAttackGroup
           split: option.splits sum.splits if_splits)

lemma GetAttackGroups_wraps:
  "wraps_fault MethodGet GetAttackGroupsRequest_Validate GetAttackGroups url_Parse
    (\<lambda>v.
         configs_versions (GetAttackGroupsRequest.ConfigID v) (GetAttackGroupsRequest.Version v) @
         ''/security-policies/'' @ GetAttackGroupsRequest.PolicyID v @
         ''/attack-groups?includeConditionException=true'')"
  unfolding wraps_fault_def GetAttackGroups_def
  by (auto simp: Let_def NewRequestWithContext_def parsed_twice_def Sprintf_GetAttackGroups
           split: option.splits sum.splits if_splits)

lemma UpdateAttackGroup_wraps:
  "wraps_fault MethodPut UpdateAttackGroupRequest_Validate UpdateAttackGroup url_Parse
    (\<lambda>v.
         configs_versions (UpdateAttackGroupRequest.ConfigID v) (UpdateAttackGroupRequest.Version v) @
         ''/security-policies/'' @ UpdateAttackGroupRequest.PolicyID v @
         ''/attack-groups/'' @ UpdateAttackGroupRequest.Group v @
         ''/action-condition-exception'')"
  unfolding wraps_fault_def UpdateAttackGroup_def
  by (auto simp: Let_def NewRequestWithContext_def parsed_twice_def Header_Set_def Sprintf_UpdateAttackGroup
           split: option.splits sum.splits if_splits)

lemma GetConfigurationClone_wraps:
  "wraps_fault MethodGet GetConfigurationCloneRequest_Validate GetConfigurationClone url_Parse
    (\<lambda>v.
         configs_versions (GetConfigurationCloneRequest.ConfigID v) (GetConfigurationCloneRequest.Version v))"
  unfolding wraps_fault_def GetConfigurationClone_def
  by (auto simp: Let_def NewRequestWithContext_def parsed_twice_def Sprintf_GetConfigurationClone
           split: option.splits sum.splits if_splits)

lemma CreateConfigurationClone_wraps:
  "wraps_fault MethodPost CreateConfigurationCloneRequest_Validate CreateConfigurationClone url_Parse
    (\<lambda>v. ''/appsec/v1/configs/'')"
  unfolding wraps_fault_def CreateConfigurationClone_def
  by (auto simp: Let_def NewRequestWithContext_def parsed_twice_def
           split: option.splits sum.splits if_splits)

lemma GetCustomDeny_wraps:
  "wraps_fault MethodGet GetCustomDenyRequest_Validate GetCustomDeny url_Parse
    (\<lambda>v.
         configs_versions (GetCustomDenyRequest.ConfigID v) (GetCustomDenyRequest.Version v) @
         ''/custom-deny/'' @ GetCustomDenyRequest.ID v)"
  unfolding wraps_fault_def GetCustomDeny_def
  by (auto simp: Let_def NewRequestWithContext_def parsed_twice_def Sprintf_GetCustomDeny
           split: option.splits sum.splits if_splits)

lemma GetCustomDenyList_wraps:
  "wraps_fault MethodGet GetCustomDenyListRequest_Validate GetCustomDenyList url_Parse
    (\<lambda>v.
         configs_versions (GetCustomDenyListRequest.ConfigID v) (GetCustomDenyListRequest.Version v) @
         ''/custom-deny'')"
  unfolding wraps_fault_def GetCustomDenyList_def
  by (auto simp: Let_def NewRequestWithContext_def parsed_twice_def Sprintf_GetCustomDenyList
           split: option.splits sum.splits if_splits)

lemma UpdateCustomDeny_wraps:
  "wraps_fault MethodPut UpdateCustomDenyRequest_Validate UpdateCustomDeny url_Parse
    (\<lambda>v.
         configs_versions (UpdateCustomDenyRequest.ConfigID v) (UpdateCustomDenyRequest.Version v) @
         ''/custom-deny/'' @ UpdateCustomDenyRequest.ID v)"
  unfolding wraps_fault_def UpdateCustomDeny_def
  by (auto simp: Let_def NewRequestWithContext_def parsed_twice_def Header_Set_def Sprintf_GetCustomDeny
           split: option.splits sum.splits if_splits)

lemma CreateCustomDeny_wraps:
  "wraps_fault MethodPost CreateCustomDenyRequest_Validate CreateCustomDeny url_Parse
    (\<lambda>v.
         configs_versions (CreateCustomDenyRequest.ConfigID v) (CreateCustomDenyRequest.Version v) @
         ''/custom-deny'')"
  unfolding wraps_fault_def CreateCustomDeny_def
  by (auto simp: Let_def NewRequestWithContext_def parsed_twice_def Header_Set_def Sprintf_GetCustomDenyList
           split: option.splits sum.splits if_splits)

lemma RemoveCustomDeny_wraps:
  "wraps_fault MethodDelete RemoveCustomDenyRequest_Validate RemoveCustomDeny parsed_twice
    (\<lambda>v.
         configs_versions (RemoveCustomDenyRequest.ConfigID v) (RemoveCustomDenyRequest.Version v) @
         ''/custom-deny/'' @ RemoveCustomDenyRequest.ID v)"
  unfolding wraps_fault_def RemoveCustomDeny_def
  by (auto simp: Let_def NewRequestWithContext_def parsed_twice_def Sprintf_GetCustomDeny
           split: option.splits sum.splits if_splits)

lemma GetMatchTarget_wraps:
  "wraps_fault MethodGet GetMatchTargetRequest_Validate GetMatchTarget url_Parse
    (\<lambda>v.
         configs_versions (GetMatchTargetRequest.ConfigID v) (GetMatchTargetRequest.ConfigVersion v) @
         ''/match-targets/'' @ Itoa (GetMatchTargetRequest.TargetID v) @
         ''?includeChildObjectName=true'')"
  unfolding wraps_fault_def GetMatchTarget_def
  by (auto simp: Let_def NewRequestWithContext_def parsed_twice_def Sprintf_GetMatchTarget
           split: option.splits sum.splits if_splits)

lemma GetMatchTargets_wraps:
  "wraps_fault MethodGet GetMatchTargetsRequest_Validate GetMatchTargets url_Parse
    (\<lambda>v.
         configs_versions (GetMatchTargetsRequest.ConfigID v) (GetMatchTargetsRequest.ConfigVersion v) @
         ''/match-targets'')"
  unfolding wraps_fault_def GetMatchTargets_def
  by (auto simp: Let_def NewRequestWithContext_def parsed_twice_def Sprintf_GetMatchTargets
           split: option.splits sum.splits if_splits)

lemma UpdateMatchTarget_wraps:
  "wraps_fault MethodPut UpdateMatchTargetRequest_Validate UpdateMatchTarget url_Parse
    (\<lambda>v.
         configs_versions (UpdateMatchTargetRequest.ConfigID v) (UpdateMatchTargetRequest.ConfigVersion v) @
         ''/match-targets/'' @ Itoa (UpdateMatchTargetRequest.TargetID v))"
  unfolding wraps_fault_def UpdateMatchTarget_def
  by (auto simp: Let_def NewRequestWithContext_def parsed_twice_def Header_Set_def Sprintf_UpdateMatchTarget
           split: option.splits sum.splits if_splits)

lemma CreateMatchTarget_wraps:
  "wraps_fault MethodPost CreateMatchTargetRequest_Validate CreateMatchTarget url_Parse
    (\<lambda>v.
         configs_versions (CreateMatchTargetRequest.ConfigID v) (CreateMatchTargetRequest.ConfigVersion v) @
         ''/match-targets'')"
  unfolding wraps_fault_def CreateMatchTarget_def
  by (auto simp: Let_def NewRequestWithContext_def parsed_twice_def Header_Set_def Sprintf_GetMatchTargets
           split: option.splits sum.splits if_splits)

lemma GetReputationAnalysis_wraps:
  "wraps_fault MethodGet GetReputationAnalysisRequest_Validate GetReputationAnalysis url_Parse
    (\<lambda>v.
         configs_versions (GetReputationAnalysisRequest.ConfigID v) (GetReputationAnalysisRequest.Version v) @
         ''/security-policies/'' @ GetReputationAnalysisRequest.PolicyID v @
         ''/reputation-analysis'')"
  unfolding wraps_fault_def GetReputationAnalysis_def
  by (auto simp: Let_def NewRequestWithContext_def parsed_twice_def Sprintf_GetReputationAnalysis
           split: option.splits sum.splits if_splits)

lemma UpdateReputationAnalysis_wraps:
  "wraps_fault MethodPut UpdateReputationAnalysisRequest_Validate UpdateReputationAnalysis url_Parse
    (\<lambda>v.
         configs_versions (UpdateReputationAnalysisRequest.ConfigID v) (UpdateReputationAnalysisRequest.Version v) @
         ''/security-policies/'' @ UpdateReputationAnalysisRequest.PolicyID v @
         ''/reputation-analysis'')"
  unfolding wraps_fault_def UpdateReputationAnalysis_def
  by (auto simp: Let_def NewRequestWithContext_def parsed_twice_def Sprintf_GetReputationAnalysis
           split: option.splits sum.splits if_splits)

lemma RemoveReputationAnalysis_wraps:
  "wraps_fault MethodPut (\<lambda>v. None) RemoveReputationAnalysis url_Parse
    (\<lambda>v.
         configs_versions (RemoveReputationAnalysisRequest.ConfigID v) (RemoveReputationAnalysisRequest.Version v) @
         ''/security-policies/'' @ RemoveReputationAnalysisRequest.PolicyID v @
         ''/reputation-analysis'')"
  unfolding wraps_fault_def RemoveReputationAnalysis_def
  by (auto simp: Let_def NewRequestWithContext_def parsed_twice_def Sprintf_GetReputationAnalysis
           split: option.splits sum.splits if_splits)

lemma GetReputationProfile_wraps:
  "wraps_fault MethodGet GetReputationProfileRequest_Validate GetReputationProfile url_Parse
    (\<lambda>v.
         configs_versions (GetReputationProfileRequest.ConfigID v) (GetReputationProfileRequest.ConfigVersion v) @
         ''/reputation-profiles/'' @
         Itoa (GetReputationProfileRequest.ReputationProfileId v))"
  unfolding wraps_fault_def GetReputationProfile_def
  by (auto simp: Let_def NewRequestWithContext_def parsed_twice_def Sprintf_GetReputationProfile
           split: option.splits sum.splits if_splits)

lemma GetReputationProfiles_wraps:
  "wraps_fault MethodGet GetReputationProfilesRequest_Validate GetReputationProfiles url_Parse
    (\<lambda>v.
         configs_versions (GetReputationProfilesRequest.ConfigID v) (GetReputationProfilesRequest.ConfigVersion v) @
         ''/reputation-profiles'')"
  unfolding wraps_fault_def GetReputationProfiles_def
  by (auto simp: Let_def NewRequestWithContext_def parsed_twice_def Sprintf_GetReputationProfiles
           split: option.splits sum.splits if_splits)

lemma UpdateReputationProfile_wraps:
  "wraps_fault MethodPut UpdateReputationProfileRequest_Validate UpdateReputationProfile url_Parse
    (\<lambda>v.
         configs_versions (UpdateReputationProfileRequest.ConfigID v) (UpdateReputationProfileRequest.ConfigVersion v) @
         ''/reputation-profiles/'' @
         Itoa (UpdateReputationProfileRequest.ReputationProfileId v))"
  unfolding wraps_fault_def UpdateReputationProfile_def
  by (auto simp: Let_def NewRequestWithContext_def parsed_twice_def Header_Set_def Sprintf_GetReputationProfile
           split: option.splits sum.splits if_splits)

lemma CreateReputationProfile_wraps:
  "wraps_fault MethodPost CreateReputationProfileRequest_Validate CreateReputationProfile url_Parse
    (\<lambda>v.
         configs_versions (CreateReputationProfileRequest.ConfigID v) (CreateReputationProfileRequest.ConfigVersion v) @
         ''/reputation-profiles'')"
  unfolding wraps_fault_def CreateReputationProfile_def
  by (auto simp: Let_def NewRequestWithContext_def parsed_twice_def Header_Set_def Sprintf_GetReputationProfiles
           split: option.splits sum.splits if_splits)

lemma RemoveReputationProfile_wraps:
  "wraps_fault MethodDelete RemoveReputationProfileRequest_Validate RemoveReputationProfile parsed_twice
    (\<lambda>v.
         configs_versions (RemoveReputationProfileRequest.ConfigID v) (RemoveReputationProfileRequest.ConfigVersion v) @
         ''/reputation-profiles/'' @
         Itoa (RemoveReputationProfileRequest.ReputationProfileId v))"
  unfolding wraps_fault_def RemoveReputationProfile_def
  by (auto simp: Let_def NewRequestWithContext_def parsed_twice_def Sprintf_GetReputationProfile
           split: option.splits sum.splits if_splits)

lemma GetVersionNotes_wraps:
  "wraps_fault MethodGet GetVersionNotesRequest_Validate GetVersionNotes url_Parse
    (\<lambda>v.
         configs_versions (GetVersionNotesRequest.ConfigID v) (GetVersionNotesRequest.Version v) @
         ''/version-notes'')"
  unfolding wraps_fault_def GetVersionNotes_def
  by (auto simp: Let_def NewRequestWithContext_def parsed_twice_def Sprintf_GetVersionNotes
           split: option.splits sum.splits if_splits)

lemma UpdateVersionNotes_wraps:
  "wraps_fault MethodPut UpdateVersionNotesRequest_Validate UpdateVersionNotes url_Parse
    (\<lambda>v.
         configs_versions (UpdateVersionNotesRequest.ConfigID v) (UpdateVersionNotesRequest.Version v) @
         ''/version-notes'')"
  unfolding wraps_fault_def UpdateVersionNotes_def
  by (auto simp: Let_def NewRequestWithContext_def parsed_twice_def Sprintf_GetVersionNotes
           split: option.splits sum.splits if_splits)


text \<open>
  C5. Whenever \<open>Exec\<close> returns an error, the operation is to return no response and
  an error that wraps that fault. Every operation but one does (the lemmas above).
  The error of \<open>RemoveMatchTarget\<close> wraps nothing: its \<open>%w\<close> operand is \<open>err\<close>, which
  is \<open>nil\<close>, not \<open>errd\<close>, and the fault of the transport cannot be found in it.
\<close>

theorem RemoveMatchTarget_loses_transport_fault:
  "RemoveMatchTarget (failing (errors_New ''connection reset'') :: (unit, unit) appsec)
     \<lparr>RemoveMatchTargetRequest.ConfigID = 1, ConfigVersion = 2, TargetID = 3\<rparr> =
     ([(\<lparr>Method = ''DELETE'', URL = ''/appsec/v1/configs/1/versions/2/match-targets/3'',
         Header = []\<rparr>, [])],
      None, Some (fmt_Errorf ''RemoveMatchTarget request failed: %w'' None [])) \<and>
   errors_Unwrap (fmt_Errorf ''RemoveMatchTarget request failed: %w'' None []) = None \<and>
   \<not> errors_Is (fmt_Errorf ''RemoveMatchTarget request failed: %w'' None [])
        (errors_New ''connection reset'')"
  by (simp add: RemoveMatchTarget_def RemoveMatchTargetRequest_Validate_def failing_def eval_defs)


subsection \<open>Filtered lists\<close>

lemma GetAttackGroups_loop_filter:
  "GetAttackGroups_loop g xs filtered = filtered @ filter (\<lambda>val. Group val = g) xs"
  by (induction xs arbitrary: filtered) simp_all

lemma GetCustomDenyList_loop_filter:
  "GetCustomDenyList_loop i xs filtered = filtered @ filter (\<lambda>val. CustomDenyListItem.ID val = i) xs"
  by (induction xs arbitrary: filtered) simp_all

lemma GetReputationProfiles_loop_filter:
  "GetReputationProfiles_loop i xs filtered =
     filtered @ filter (\<lambda>val. ReputationProfilesItem.ID val = i) xs"
  by (induction xs arbitrary: filtered) simp_all

lemma WebsiteTargets_loop_filter:
  "WebsiteTargets_loop t xs filtered = filtered @ filter (\<lambda>val. WebsiteTarget.TargetID val = t) xs"
  by (induction xs arbitrary: filtered) simp_all

lemma APITargets_loop_filter:
  "APITargets_loop t xs filtered = filtered @ filter (\<lambda>val. APITarget.TargetID val = t) xs"
  by (induction xs arbitrary: filtered) simp_all

lemma GetAttackGroups_filter:
  "post_filter GetAttackGroupsRequest_Validate GetAttackGroups
     (\<lambda>v. configs_versions (GetAttackGroupsRequest.ConfigID v) (GetAttackGroupsRequest.Version v) @
        ''/security-policies/'' @ GetAttackGroupsRequest.PolicyID v @
        ''/attack-groups?includeConditionException=true'')
     GetAttackGroupsRequest.Group [] AttackGroupsItem.Group AttackGroups"
  unfolding post_filter_def GetAttackGroups_def
  by (auto simp: Let_def NewRequestWithContext_def StatusOK_def Sprintf_GetAttackGroups
        GetAttackGroups_loop_filter split: option.splits sum.splits if_splits)

lemma GetCustomDenyList_filter:
  "post_filter GetCustomDenyListRequest_Validate GetCustomDenyList
     (\<lambda>v. configs_versions (GetCustomDenyListRequest.ConfigID v) (GetCustomDenyListRequest.Version v) @
        ''/custom-deny'')
     GetCustomDenyListRequest.ID [] CustomDenyListItem.ID CustomDenyList"
  unfolding post_filter_def GetCustomDenyList_def
  by (auto simp: Let_def NewRequestWithContext_def StatusOK_def Sprintf_GetCustomDenyList
        GetCustomDenyList_loop_filter split: option.splits sum.splits if_splits)

lemma GetReputationProfiles_filter:
  "post_filter GetReputationProfilesRequest_Validate GetReputationProfiles
     (\<lambda>v. configs_versions (GetReputationProfilesRequest.ConfigID v)
        (GetReputationProfilesRequest.ConfigVersion v) @ ''/reputation-profiles'')
     GetReputationProfilesRequest.ReputationProfileId 0 ReputationProfilesItem.ID ReputationProfiles"
  unfolding post_filter_def GetReputationProfiles_def
  by (auto simp: Let_def NewRequestWithContext_def StatusOK_def Sprintf_GetReputationProfiles
        GetReputationProfiles_loop_filter split: option.splits sum.splits if_splits)

lemma GetMatchTargets_filter_website:
  "post_filter GetMatchTargetsRequest_Validate GetMatchTargets
     (\<lambda>v. configs_versions (GetMatchTargetsRequest.ConfigID v) (GetMatchTargetsRequest.ConfigVersion v) @
        ''/match-targets'')
     GetMatchTargetsRequest.TargetID 0 WebsiteTarget.TargetID (\<lambda>r. WebsiteTargets (MatchTargets r))"
  unfolding post_filter_def GetMatchTargets_def
  by (auto simp: Let_def NewRequestWithContext_def StatusOK_def Sprintf_GetMatchTargets
        WebsiteTargets_loop_filter split: option.splits sum.splits if_splits)

lemma GetMatchTargets_filter_api:
  "post_filter GetMatchTargetsRequest_Validate GetMatchTargets
     (\<lambda>v. configs_versions (GetMatchTargetsRequest.ConfigID v) (GetMatchTargetsRequest.ConfigVersion v) @
        ''/match-targets'')
     GetMatchTargetsRequest.TargetID 0 APITarget.TargetID (\<lambda>r. APITargets (MatchTargets r))"
  unfolding post_filter_def GetMatchTargets_def
  by (auto simp: Let_def NewRequestWithContext_def StatusOK_def Sprintf_GetMatchTargets
        APITargets_loop_filter split: option.splits sum.splits if_splits)

lemma post_filter_answering:
  fixes op :: "('b, 'r) appsec \<Rightarrow> 'q \<Rightarrow> ('b, 'r) result"
  assumes "post_filter validate op url key dflt ident entries" and "validate v = None"
  shows "\<exists>r. snd (op (answering 200 rval) v) = (Some r, None) \<and>
      (key v = dflt \<longrightarrow> r = rval) \<and>
      (key v \<noteq> dflt \<longrightarrow> entries r = filter (\<lambda>val. ident val = key v) (entries rval))"
proof -
  let ?p = "answering 200 rval :: ('b, 'r) appsec"
  have accepted: "request_fault ?p MethodGet = None"
    by (simp add: answering_def)
  have parsed: "url_Parse ?p (url v) = Inr (url v)"
    by (simp add: answering_def)
  have answer: "Exec ?p \<lparr>Method = MethodGet, URL = url v, Header = []\<rparr> [] =
      Inr (\<lparr>StatusCode = 200, Body = []\<rparr>, rval)"
    by (simp add: answering_def)
  have status: "StatusCode \<lparr>StatusCode = 200, Body = []\<rparr> = 200"
    by simp
  from assms(1) [unfolded post_filter_def, rule_format, OF conjI [OF assms(2) conjI [OF accepted parsed]]]
  have "\<forall>resp rval'. Exec ?p \<lparr>Method = MethodGet, URL = url v, Header = []\<rparr> [] = Inr (resp, rval') \<and>
      StatusCode resp = 200 \<longrightarrow>
        (\<exists>r. snd (op ?p v) = (Some r, None) \<and> (key v = dflt \<longrightarrow> r = rval') \<and>
           (key v \<noteq> dflt \<longrightarrow> entries r = filter (\<lambda>val. ident val = key v) (entries rval')) \<and>
           (key v \<noteq> dflt \<and> (\<forall>val \<in> set (entries rval'). ident val \<noteq> key v) \<longrightarrow> entries r = []))"
    by blast
  from this [rule_format, OF conjI [OF answer status]] show ?thesis
    by blast
qed

text \<open>
  C3. For every list operation with an optional client-side filter
  (\<open>GetAttackGroups\<close> by \<open>Group\<close>, \<open>GetCustomDenyList\<close> by \<open>ID\<close>,
  \<open>GetReputationProfiles\<close> by \<open>ReputationProfileId\<close>, and \<open>GetMatchTargets\<close> by
  \<open>TargetID\<close> on both of its lists) and every fetched list: the operation fetches
  the list with one \<open>GET\<close> request and, with a filter value other than the default,
  returns exactly the fetched entries whose identifying field equals the filter
  value, in their original order, and an empty list, with a \<open>nil\<close> error, when no
  entry matches; with the default filter value (the empty string, zero) it returns
  the fetched response.
\<close>

theorem list_post_filters:
  "post_filter GetAttackGroupsRequest_Validate GetAttackGroups
     (\<lambda>v. configs_versions (GetAttackGroupsRequest.ConfigID v) (GetAttackGroupsRequest.Version v) @
        ''/security-policies/'' @ GetAttackGroupsRequest.PolicyID v @
        ''/attack-groups?includeConditionException=true'')
     GetAttackGroupsRequest.Group [] AttackGroupsItem.Group AttackGroups \<and>
   post_filter GetCustomDenyListRequest_Validate GetCustomDenyList
     (\<lambda>v. configs_versions (GetCustomDenyListRequest.ConfigID v) (GetCustomDenyListRequest.Version v) @
        ''/custom-deny'')
     GetCustomDenyListRequest.ID [] CustomDenyListItem.ID CustomDenyList \<and>
   post_filter GetReputationProfilesRequest_Validate GetReputationProfiles
     (\<lambda>v. configs_versions (GetReputationProfilesRequest.ConfigID v)
        (GetReputationProfilesRequest.ConfigVersion v) @ ''/reputation-profiles'')
     GetReputationProfilesRequest.ReputationProfileId 0 ReputationProfilesItem.ID ReputationProfiles \<and>
   post_filter GetMatchTargetsRequest_Validate GetMatchTargets
     (\<lambda>v. configs_versions (GetMatchTargetsRequest.ConfigID v) (GetMatchTargetsRequest.ConfigVersion v) @
        ''/match-targets'')
     GetMatchTargetsRequest.TargetID 0 WebsiteTarget.TargetID (\<lambda>r. WebsiteTargets (MatchTargets r)) \<and>
   post_filter GetMatchTargetsRequest_Validate GetMatchTargets
     (\<lambda>v. configs_versions (GetMatchTargetsRequest.ConfigID v) (GetMatchTargetsRequest.ConfigVersion v) @
        ''/match-targets'')
     GetMatchTargetsRequest.TargetID 0 APITarget.TargetID (\<lambda>r. APITargets (MatchTargets r))"
  by (intro conjI)
     (rule GetAttackGroups_filter GetCustomDenyList_filter GetReputationProfiles_filter
       GetMatchTargets_filter_website GetMatchTargets_filter_api)+

theorem list_post_filters_witness:
  "map_option AttackGroups
     (fst (snd (GetAttackGroups (answering 200 sample_groups :: (unit, unit GetAttackGroupsResponse) appsec)
        \<lparr>GetAttackGroupsRequest.ConfigID = 1, Version = 2, PolicyID = ''pol1'', Group = ''XSS''\<rparr>))) =
     Some [\<lparr>Group = ''XSS'', Action = ''alert'', ConditionException = None\<rparr>,
           \<lparr>Group = ''XSS'', Action = ''deny'', ConditionException = Some ()\<rparr>] \<and>
   map_option AttackGroups
     (fst (snd (GetAttackGroups (answering 200 sample_groups :: (unit, unit GetAttackGroupsResponse) appsec)
        \<lparr>GetAttackGroupsRequest.ConfigID = 1, Version = 2, PolicyID = ''pol1'', Group = ''RFI''\<rparr>))) =
     Some [] \<and>
   snd (GetAttackGroups (answering 200 sample_groups :: (unit, unit GetAttackGroupsResponse) appsec)
        \<lparr>GetAttackGroupsRequest.ConfigID = 1, Version = 2, PolicyID = ''pol1'', Group = []\<rparr>) =
     (Some sample_groups, None) \<and>
   map_option CustomDenyList
     (fst (snd (GetCustomDenyList (answering 200 sample_deny_list :: (unit, GetCustomDenyListResponse) appsec)
        \<lparr>GetCustomDenyListRequest.ConfigID = 1, Version = 2, ID = ''deny_custom_2''\<rparr>))) =
     Some [sample_deny ''deny_custom_2'' ''second''] \<and>
   map_option ReputationProfiles
     (fst (snd (GetReputationProfiles
        (answering 200 sample_profiles :: (unit, unit GetReputationProfilesResponse) appsec)
        \<lparr>GetReputationProfilesRequest.ConfigID = 1, ConfigVersion = 2, ReputationProfileId = 20\<rparr>))) =
     Some [sample_profile 20 ''scanners''] \<and>
   map_option (\<lambda>r. WebsiteTargets (MatchTargets r))
     (fst (snd (GetMatchTargets (answering 200 sample_targets :: (unit, GetMatchTargetsResponse) appsec)
        \<lparr>GetMatchTargetsRequest.ConfigID = 1, ConfigVersion = 2, TargetID = 200\<rparr>))) =
     Some [sample_website_target 200] \<and>
   map_option (\<lambda>r. APITargets (MatchTargets r))
     (fst (snd (GetMatchTargets (answering 200 sample_targets :: (unit, GetMatchTargetsResponse) appsec)
        \<lparr>GetMatchTargetsRequest.ConfigID = 1, ConfigVersion = 2, TargetID = 200\<rparr>))) =
     Some [sample_api_target 200]"
proof -
  note groups = post_filter_answering [where ?'b = unit and rval = sample_groups, OF list_post_filters [THEN conjunct1]]
  note denies = post_filter_answering [where ?'b = unit and rval = sample_deny_list, OF list_post_filters [THEN conjunct2, THEN conjunct1]]
  note profiles = post_filter_answering [where ?'b = unit and rval = sample_profiles, OF list_post_filters [THEN conjunct2, THEN conjunct2, THEN conjunct1]]
  note websites = post_filter_answering [where ?'b = unit and rval = sample_targets, OF list_post_filters
      [THEN conjunct2, THEN conjunct2, THEN conjunct2, THEN conjunct1]]
  note apis = post_filter_answering [where ?'b = unit and rval = sample_targets, OF list_post_filters
      [THEN conjunct2, THEN conjunct2, THEN conjunct2, THEN conjunct2]]
  have valid_groups: "GetAttackGroupsRequest_Validate
      \<lparr>GetAttackGroupsRequest.ConfigID = 1, Version = 2, PolicyID = ''pol1'', Group = g\<rparr> = None" for g
    by (simp add: GetAttackGroupsRequest_Validate_def Filter_def Required_int_def Required_string_def)
  have xss: "map_option AttackGroups
     (fst (snd (GetAttackGroups (answering 200 sample_groups :: (unit, unit GetAttackGroupsResponse) appsec)
        \<lparr>GetAttackGroupsRequest.ConfigID = 1, Version = 2, PolicyID = ''pol1'', Group = ''XSS''\<rparr>))) =
     Some [\<lparr>Group = ''XSS'', Action = ''alert'', ConditionException = None\<rparr>,
           \<lparr>Group = ''XSS'', Action = ''deny'', ConditionException = Some ()\<rparr>]"
    using groups [OF valid_groups [of "''XSS''"]] by (auto simp: sample_groups_def)
  have rfi: "map_option AttackGroups
     (fst (snd (GetAttackGroups (answering 200 sample_groups :: (unit, unit GetAttackGroupsResponse) appsec)
        \<lparr>GetAttackGroupsRequest.ConfigID = 1, Version = 2, PolicyID = ''pol1'', Group = ''RFI''\<rparr>))) =
     Some []"
    using groups [OF valid_groups [of "''RFI''"]] by (auto simp: sample_groups_def)
  have unfiltered: "snd (GetAttackGroups (answering 200 sample_groups :: (unit, unit GetAttackGroupsResponse) appsec)
        \<lparr>GetAttackGroupsRequest.ConfigID = 1, Version = 2, PolicyID = ''pol1'', Group = []\<rparr>) =
     (Some sample_groups, None)"
    using groups [OF valid_groups [of "[]"]] by auto
  have valid_deny: "GetCustomDenyListRequest_Validate
      \<lparr>GetCustomDenyListRequest.ConfigID = 1, Version = 2, ID = ''deny_custom_2''\<rparr> = None"
    by (simp add: GetCustomDenyListRequest_Validate_def Filter_def Required_int_def)
  have deny: "map_option CustomDenyList
     (fst (snd (GetCustomDenyList (answering 200 sample_deny_list :: (unit, GetCustomDenyListResponse) appsec)
        \<lparr>GetCustomDenyListRequest.ConfigID = 1, Version = 2, ID = ''deny_custom_2''\<rparr>))) =
     Some [sample_deny ''deny_custom_2'' ''second'']"
    using denies [OF valid_deny]
    by (auto simp: sample_deny_list_def sample_deny_def)
  have valid_profile: "GetReputationProfilesRequest_Validate
      \<lparr>GetReputationProfilesRequest.ConfigID = 1, ConfigVersion = 2, ReputationProfileId = 20\<rparr> = None"
    by (simp add: GetReputationProfilesRequest_Validate_def Filter_def Required_int_def)
  have profile: "map_option ReputationProfiles
     (fst (snd (GetReputationProfiles
        (answering 200 sample_profiles :: (unit, unit GetReputationProfilesResponse) appsec)
        \<lparr>GetReputationProfilesRequest.ConfigID = 1, ConfigVersion = 2, ReputationProfileId = 20\<rparr>))) =
     Some [sample_profile 20 ''scanners'']"
    using profiles [OF valid_profile]
    by (auto simp: sample_profiles_def sample_profile_def)
  have valid_target: "GetMatchTargetsRequest_Validate
      \<lparr>GetMatchTargetsRequest.ConfigID = 1, ConfigVersion = 2, TargetID = 200\<rparr> = None"
    by (simp add: GetMatchTargetsRequest_Validate_def Filter_def Required_int_def)
  have website: "map_option (\<lambda>r. WebsiteTargets (MatchTargets r))
     (fst (snd (GetMatchTargets (answering 200 sample_targets :: (unit, GetMatchTargetsResponse) appsec)
        \<lparr>GetMatchTargetsRequest.ConfigID = 1, ConfigVersion = 2, TargetID = 200\<rparr>))) =
     Some [sample_website_target 200]"
    using websites [OF valid_target]
    by (auto simp: sample_targets_def sample_website_target_def)
  have api: "map_option (\<lambda>r. APITargets (MatchTargets r))
     (fst (snd (GetMatchTargets (answering 200 sample_targets :: (unit, GetMatchTargetsResponse) appsec)
        \<lparr>GetMatchTargetsRequest.ConfigID = 1, ConfigVersion = 2, TargetID = 200\<rparr>))) =
     Some [sample_api_target 200]"
    using apis [OF valid_target]
    by (auto simp: sample_targets_def sample_api_target_def)
  from xss rfi unfiltered deny profile website api show ?thesis
    by blast
qed


subsection \<open>The body of an update\<close>

text \<open>
  C8. \<open>UpdateCustomDeny\<close> hands to the transport, as the body of the request,
  exactly the bytes of \<open>JsonPayloadRaw\<close> that the caller supplied: no call of \<open>Exec\<close>
  carries another body, and a request that passes validation and can be built does
  reach \<open>Exec\<close> with it. A status 500 from the server yields no response and the
  error of the error mapper.
\<close>

theorem UpdateCustomDeny_payload_and_status_500:
  "(\<forall>(p :: (RawMessage, 'r) appsec) params.
      \<forall>call \<in> set (fst (UpdateCustomDeny p params)).
        snd call = [UpdateCustomDenyRequest.JsonPayloadRaw params]) \<and>
   (\<forall>(p :: (RawMessage, 'r) appsec) params u.
      UpdateCustomDenyRequest_Validate params = None \<and> request_fault p MethodPut = None \<and>
      url_Parse p
        (configs_versions (UpdateCustomDenyRequest.ConfigID params)
           (UpdateCustomDenyRequest.Version params) @
         ''/custom-deny/'' @ UpdateCustomDenyRequest.ID params) = Inr u \<longrightarrow>
        fst (UpdateCustomDeny p params) =
          [(\<lparr>Method = MethodPut, URL = u, Header = [(''Content-Type'', ''application/json'')]\<rparr>,
            [UpdateCustomDenyRequest.JsonPayloadRaw params])]) \<and>
   (\<forall>(p :: (RawMessage, 'r) appsec) params req body resp rval.
      fst (UpdateCustomDeny p params) = [(req, body)] \<and> Exec p req body = Inr (resp, rval) \<and>
      StatusCode resp = 500 \<longrightarrow>
        snd (UpdateCustomDeny p params) = (None, Some (Error p resp)))"
  unfolding UpdateCustomDeny_def
  by (auto simp: Let_def NewRequestWithContext_def Header_Set_def StatusOK_def StatusCreated_def
        Sprintf_GetCustomDeny split: option.splits sum.splits if_splits)

theorem UpdateCustomDeny_payload_and_status_500_witness:
  "UpdateCustomDenyRequest_Validate
     \<lparr>UpdateCustomDenyRequest.ConfigID = 1, Version = 2, ID = ''deny_custom_1'',
      JsonPayloadRaw = sample_payload\<rparr> = None \<and>
   UpdateCustomDeny (answering 500 () :: (RawMessage, unit) appsec)
     \<lparr>UpdateCustomDenyRequest.ConfigID = 1, Version = 2, ID = ''deny_custom_1'',
      JsonPayloadRaw = sample_payload\<rparr> =
     ([(\<lparr>Method = ''PUT'', URL = ''/appsec/v1/configs/1/versions/2/custom-deny/deny_custom_1'',
         Header = [(''Content-Type'', ''application/json'')]\<rparr>, [sample_payload])],
      None, Some (errors_New ''API error, status 500''))"
proof -
  let ?p = "answering 500 () :: (RawMessage, unit) appsec"
  let ?r = "\<lparr>UpdateCustomDenyRequest.ConfigID = 1, Version = 2, ID = ''deny_custom_1'',
      JsonPayloadRaw = sample_payload\<rparr>"
  let ?u = "''/appsec/v1/configs/1/versions/2/custom-deny/deny_custom_1''"
  let ?req = "\<lparr>Method = MethodPut, URL = ?u,
         Header = [(''Content-Type'', ''application/json'')]\<rparr>"
  note main = UpdateCustomDeny_payload_and_status_500 [where ?'r = unit]
  have valid: "UpdateCustomDenyRequest_Validate ?r = None"
    by (simp add: UpdateCustomDenyRequest_Validate_def eval_defs)
  have accepted: "request_fault ?p MethodPut = None"
    by (simp add: answering_def)
  have parsed: "url_Parse ?p
      (configs_versions (UpdateCustomDenyRequest.ConfigID ?r) (UpdateCustomDenyRequest.Version ?r) @
       ''/custom-deny/'' @ UpdateCustomDenyRequest.ID ?r) = Inr ?u"
    by (simp add: configs_versions_def eval_defs)
  have calls: "fst (UpdateCustomDeny ?p ?r) = [(?req, [UpdateCustomDenyRequest.JsonPayloadRaw ?r])]"
    using main [THEN conjunct2, THEN conjunct1, rule_format, OF conjI [OF valid conjI [OF accepted parsed]]] .
  have answer: "Exec ?p ?req [UpdateCustomDenyRequest.JsonPayloadRaw ?r] =
      Inr (\<lparr>StatusCode = 500, Body = []\<rparr>, ())"
    by (simp add: answering_def)
  have "snd (UpdateCustomDeny ?p ?r) = (None, Some (Error ?p \<lparr>StatusCode = 500, Body = []\<rparr>))"
    using main [THEN conjunct2, THEN conjunct2, rule_format, OF conjI [OF calls conjI [OF answer]]]
    by simp
  then have "snd (UpdateCustomDeny ?p ?r) = (None, Some (errors_New ''API error, status 500''))"
    by (simp add: eval_defs)
  with calls valid show ?thesis
    by (simp add: prod_eq_iff MethodPut_def)
qed

subsection \<open>URLs\<close>

lemma GetApiHostnameCoverageOverlapping_url:
  "builds_url MethodGet GetApiHostnameCoverageOverlappingRequest_Validate GetApiHostnameCoverageOverlapping url_Parse
    (\<lambda>v.
         configs_versions (GetApiHostnameCoverageOverlappingRequest.ConfigID v) (GetApiHostnameCoverageOverlappingRequest.Version v) @
         ''/hostname-coverage/overlapping?hostname='' @
         GetApiHostnameCoverageOverlappingRequest.Hostname v)"
  unfolding builds_url_def GetApiHostnameCoverageOverlapping_def
  by (auto simp: Let_def NewRequestWithContext_def parsed_twice_def Sprintf_GetApiHostnameCoverageOverlapping
           split: option.splits sum.splits if_splits)

lemma GetAttackGroup_url:
  "builds_url MethodGet GetAttackGroupRequest_Validate GetAttackGroup url_Parse
    (\<lambda>v.
         configs_versions (GetAttackGroupRequest.ConfigID v) (GetAttackGroupRequest.Version v) @
         ''/security-policies/'' @ GetAttackGroupRequest.PolicyID v @ ''/attack-groups/'' @
         GetAttackGroupRequest.Group v @ ''?includeConditionException=true'')"
  unfolding builds_url_def GetAttackGroup_def
  by (auto simp: Let_def NewRequestWithContext_def parsed_twice_def Sprintf_GetAttackGroup
           split: option.splits sum.splits if_splits)

lemma GetAttackGroups_url:
  "builds_url MethodGet GetAttackGroupsRequest_Validate GetAttackGroups url_Parse
    (\<lambda>v.
         configs_versions (GetAttackGroupsRequest.ConfigID v) (GetAttackGroupsRequest.Version v) @
         ''/security-policies/'' @ GetAttackGroupsRequest.PolicyID v @
         ''/attack-groups?includeConditionException=true'')"
  unfolding builds_url_def GetAttackGroups_def
  by (auto simp: Let_def NewRequestWithContext_def parsed_twice_def Sprintf_GetAttackGroups
           split: option.splits sum.splits if_splits)

lemma UpdateAttackGroup_url:
  "builds_url MethodPut UpdateAttackGroupRequest_Validate UpdateAttackGroup url_Parse
    (\<lambda>v.
         configs_versions (UpdateAttackGroupRequest.ConfigID v) (UpdateAttackGroupRequest.Version v) @
         ''/security-policies/'' @ UpdateAttackGroupRequest.PolicyID v @
         ''/attack-groups/'' @ UpdateAttackGroupRequest.Group v @
         ''/action-condition-exception'')"
  unfolding builds_url_def UpdateAttackGroup_def
  by (auto simp: Let_def NewRequestWithContext_def parsed_twice_def Header_Set_def Sprintf_UpdateAttackGroup
           split: option.splits sum.splits if_splits)

lemma GetConfigurationClone_url:
  "builds_url MethodGet GetConfigurationCloneRequest_Validate GetConfigurationClone url_Parse
    (\<lambda>v.
         configs_versions (GetConfigurationCloneRequest.ConfigID v) (GetConfigurationCloneRequest.Version v))"
  unfolding builds_url_def GetConfigurationClone_def
  by (auto simp: Let_def NewRequestWithContext_def parsed_twice_def Sprintf_GetConfigurationClone
           split: option.splits sum.splits if_splits)

lemma CreateConfigurationClone_url:
  "builds_url MethodPost CreateConfigurationCloneRequest_Validate CreateConfigurationClone url_Parse
    (\<lambda>v. ''/appsec/v1/configs/'')"
  unfolding builds_url_def CreateConfigurationClone_def
  by (auto simp: Let_def NewRequestWithContext_def parsed_twice_def
           split: option.splits sum.splits if_splits)

lemma GetCustomDeny_url:
  "builds_url MethodGet GetCustomDenyRequest_Validate GetCustomDeny url_Parse
    (\<lambda>v.
         configs_versions (GetCustomDenyRequest.ConfigID v) (GetCustomDenyRequest.Version v) @
         ''/custom-deny/'' @ GetCustomDenyRequest.ID v)"
  unfolding builds_url_def GetCustomDeny_def
  by (auto simp: Let_def NewRequestWithContext_def parsed_twice_def Sprintf_GetCustomDeny
           split: option.splits sum.splits if_splits)

lemma GetCustomDenyList_url:
  "builds_url MethodGet GetCustomDenyListRequest_Validate GetCustomDenyList url_Parse
    (\<lambda>v.
         configs_versions (GetCustomDenyListRequest.ConfigID v) (GetCustomDenyListRequest.Version v) @
         ''/custom-deny'')"
  unfolding builds_url_def GetCustomDenyList_def
  by (auto simp: Let_def NewRequestWithContext_def parsed_twice_def Sprintf_GetCustomDenyList
           split: option.splits sum.splits if_splits)

lemma UpdateCustomDeny_url:
  "builds_url MethodPut UpdateCustomDenyRequest_Validate UpdateCustomDeny url_Parse
    (\<lambda>v.
         configs_versions (UpdateCustomDenyRequest.ConfigID v) (UpdateCustomDenyRequest.Version v) @
         ''/custom-deny/'' @ UpdateCustomDenyRequest.ID v)"
  unfolding builds_url_def UpdateCustomDeny_def
  by (auto simp: Let_def NewRequestWithContext_def parsed_twice_def Header_Set_def Sprintf_GetCustomDeny
           split: option.splits sum.splits if_splits)

lemma CreateCustomDeny_url:
  "builds_url MethodPost CreateCustomDenyRequest_Validate CreateCustomDeny url_Parse
    (\<lambda>v.
         configs_versions (CreateCustomDenyRequest.ConfigID v) (CreateCustomDenyRequest.Version v) @
         ''/custom-deny'')"
  unfolding builds_url_def CreateCustomDeny_def
  by (auto simp: Let_def NewRequestWithContext_def parsed_twice_def Header_Set_def Sprintf_GetCustomDenyList
           split: option.splits sum.splits if_splits)

lemma RemoveCustomDeny_url:
  "builds_url MethodDelete RemoveCustomDenyRequest_Validate RemoveCustomDeny parsed_twice
    (\<lambda>v.
         configs_versions (RemoveCustomDenyRequest.ConfigID v) (RemoveCustomDenyRequest.Version v) @
         ''/custom-deny/'' @ RemoveCustomDenyRequest.ID v)"
  unfolding builds_url_def RemoveCustomDeny_def
  by (auto simp: Let_def NewRequestWithContext_def parsed_twice_def Sprintf_GetCustomDeny
           split: option.splits sum.splits if_splits)

lemma GetMatchTarget_url:
  "builds_url MethodGet GetMatchTargetRequest_Validate GetMatchTarget url_Parse
    (\<lambda>v.
         configs_versions (GetMatchTargetRequest.ConfigID v) (GetMatchTargetRequest.ConfigVersion v) @
         ''/match-targets/'' @ Itoa (GetMatchTargetRequest.TargetID v) @
         ''?includeChildObjectName=true'')"
  unfolding builds_url_def GetMatchTarget_def
  by (auto simp: Let_def NewRequestWithContext_def parsed_twice_def Sprintf_GetMatchTarget
           split: option.splits sum.splits if_splits)

lemma GetMatchTargets_url:
  "builds_url MethodGet GetMatchTargetsRequest_Validate GetMatchTargets url_Parse
    (\<lambda>v.
         configs_versions (GetMatchTargetsRequest.ConfigID v) (GetMatchTargetsRequest.ConfigVersion v) @
         ''/match-targets'')"
  unfolding builds_url_def GetMatchTargets_def
  by (auto simp: Let_def NewRequestWithContext_def parsed_twice_def Sprintf_GetMatchTargets
           split: option.splits sum.splits if_splits)

lemma UpdateMatchTarget_url:
  "builds_url MethodPut UpdateMatchTargetRequest_Validate UpdateMatchTarget url_Parse
    (\<lambda>v.
         configs_versions (UpdateMatchTargetRequest.ConfigID v) (UpdateMatchTargetRequest.ConfigVersion v) @
         ''/match-targets/'' @ Itoa (UpdateMatchTargetRequest.TargetID v))"
  unfolding builds_url_def UpdateMatchTarget_def
  by (auto simp: Let_def NewRequestWithContext_def parsed_twice_def Header_Set_def Sprintf_UpdateMatchTarget
           split: option.splits sum.splits if_splits)

lemma CreateMatchTarget_url:
  "builds_url MethodPost CreateMatchTargetRequest_Validate CreateMatchTarget url_Parse
    (\<lambda>v.
         configs_versions (CreateMatchTargetRequest.ConfigID v) (CreateMatchTargetRequest.ConfigVersion v) @
         ''/match-targets'')"
  unfolding builds_url_def CreateMatchTarget_def
  by (auto simp: Let_def NewRequestWithContext_def parsed_twice_def Header_Set_def Sprintf_GetMatchTargets
           split: option.splits sum.splits if_splits)

lemma RemoveMatchTarget_url:
  "builds_url MethodDelete RemoveMatchTargetRequest_Validate RemoveMatchTarget url_Parse
    (\<lambda>v.
         configs_versions (RemoveMatchTargetRequest.ConfigID v) (RemoveMatchTargetRequest.ConfigVersion v) @
         ''/match-targets/'' @ Itoa (RemoveMatchTargetRequest.TargetID v))"
  unfolding builds_url_def RemoveMatchTarget_def
  by (auto simp: Let_def NewRequestWithContext_def parsed_twice_def Sprintf_UpdateMatchTarget
           split: option.splits sum.splits if_splits)

lemma GetReputationAnalysis_url:
  "builds_url MethodGet GetReputationAnalysisRequest_Validate GetReputationAnalysis url_Parse
    (\<lambda>v.
         configs_versions (GetReputationAnalysisRequest.ConfigID v) (GetReputationAnalysisRequest.Version v) @
         ''/security-policies/'' @ GetReputationAnalysisRequest.PolicyID v @
         ''/reputation-analysis'')"
  unfolding builds_url_def GetReputationAnalysis_def
  by (auto simp: Let_def NewRequestWithContext_def parsed_twice_def Sprintf_GetReputationAnalysis
           split: option.splits sum.splits if_splits)

lemma UpdateReputationAnalysis_url:
  "builds_url MethodPut UpdateReputationAnalysisRequest_Validate UpdateReputationAnalysis url_Parse
    (\<lambda>v.
         configs_versions (UpdateReputationAnalysisRequest.ConfigID v) (UpdateReputationAnalysisRequest.Version v) @
         ''/security-policies/'' @ UpdateReputationAnalysisRequest.PolicyID v @
         ''/reputation-analysis'')"
  unfolding builds_url_def UpdateReputationAnalysis_def
  by (auto simp: Let_def NewRequestWithContext_def parsed_twice_def Sprintf_GetReputationAnalysis
           split: option.splits sum.splits if_splits)

lemma RemoveReputationAnalysis_url:
  "builds_url MethodPut (\<lambda>v. None) RemoveReputationAnalysis url_Parse
    (\<lambda>v.
         configs_versions (RemoveReputationAnalysisRequest.ConfigID v) (RemoveReputationAnalysisRequest.Version v) @
         ''/security-policies/'' @ RemoveReputationAnalysisRequest.PolicyID v @
         ''/reputation-analysis'')"
  unfolding builds_url_def RemoveReputationAnalysis_def
  by (auto simp: Let_def NewRequestWithContext_def parsed_twice_def Sprintf_GetReputationAnalysis
           split: option.splits sum.splits if_splits)

lemma GetReputationProfile_url:
  "builds_url MethodGet GetReputationProfileRequest_Validate GetReputationProfile url_Parse
    (\<lambda>v.
         configs_versions (GetReputationProfileRequest.ConfigID v) (GetReputationProfileRequest.ConfigVersion v) @
         ''/reputation-profiles/'' @
         Itoa (GetReputationProfileRequest.ReputationProfileId v))"
  unfolding builds_url_def GetReputationProfile_def
  by (auto simp: Let_def NewRequestWithContext_def parsed_twice_def Sprintf_GetReputationProfile
           split: option.splits sum.splits if_splits)

lemma GetReputationProfiles_url:
  "builds_url MethodGet GetReputationProfilesRequest_Validate GetReputationProfiles url_Parse
    (\<lambda>v.
         configs_versions (GetReputationProfilesRequest.ConfigID v) (GetReputationProfilesRequest.ConfigVersion v) @
         ''/reputation-profiles'')"
  unfolding builds_url_def GetReputationProfiles_def
  by (auto simp: Let_def NewRequestWithContext_def parsed_twice_def Sprintf_GetReputationProfiles
           split: option.splits sum.splits if_splits)

lemma UpdateReputationProfile_url:
  "builds_url MethodPut UpdateReputationProfileRequest_Validate UpdateReputationProfile url_Parse
    (\<lambda>v.
         configs_versions (UpdateReputationProfileRequest.ConfigID v) (UpdateReputationProfileRequest.ConfigVersion v) @
         ''/reputation-profiles/'' @
         Itoa (UpdateReputationProfileRequest.ReputationProfileId v))"
  unfolding builds_url_def UpdateReputationProfile_def
  by (auto simp: Let_def NewRequestWithContext_def parsed_twice_def Header_Set_def Sprintf_GetReputationProfile
           split: option.splits sum.splits if_splits)

lemma CreateReputationProfile_url:
  "builds_url MethodPost CreateReputationProfileRequest_Validate CreateReputationProfile url_Parse
    (\<lambda>v.
         configs_versions (CreateReputationProfileRequest.ConfigID v) (CreateReputationProfileRequest.ConfigVersion v) @
         ''/reputation-profiles'')"
  unfolding builds_url_def CreateReputationProfile_def
  by (auto simp: Let_def NewRequestWithContext_def parsed_twice_def Header_Set_def Sprintf_GetReputationProfiles
           split: option.splits sum.splits if_splits)

lemma RemoveReputationProfile_url:
  "builds_url MethodDelete RemoveReputationProfileRequest_Validate RemoveReputationProfile parsed_twice
    (\<lambda>v.
         configs_versions (RemoveReputationProfileRequest.ConfigID v) (RemoveReputationProfileRequest.ConfigVersion v) @
         ''/reputation-profiles/'' @
         Itoa (RemoveReputationProfileRequest.ReputationProfileId v))"
  unfolding builds_url_def RemoveReputationProfile_def
  by (auto simp: Let_def NewRequestWithContext_def parsed_twice_def Sprintf_GetReputationProfile
           split: option.splits sum.splits if_splits)

lemma GetVersionNotes_url:
  "builds_url MethodGet GetVersionNotesRequest_Validate GetVersionNotes url_Parse
    (\<lambda>v.
         configs_versions (GetVersionNotesRequest.ConfigID v) (GetVersionNotesRequest.Version v) @
         ''/version-notes'')"
  unfolding builds_url_def GetVersionNotes_def
  by (auto simp: Let_def NewRequestWithContext_def parsed_twice_def Sprintf_GetVersionNotes
           split: option.splits sum.splits if_splits)

lemma UpdateVersionNotes_url:
  "builds_url MethodPut UpdateVersionNotesRequest_Validate UpdateVersionNotes url_Parse
    (\<lambda>v.
         configs_versions (UpdateVersionNotesRequest.ConfigID v) (UpdateVersionNotesRequest.Version v) @
         ''/version-notes'')"
  unfolding builds_url_def UpdateVersionNotes_def
  by (auto simp: Let_def NewRequestWithContext_def parsed_twice_def Sprintf_GetVersionNotes
           split: option.splits sum.splits if_splits)


lemma builds_url_answering:
  fixes op :: "('b, 'r) appsec \<Rightarrow> 'q \<Rightarrow> ('b, 's) result"
  assumes "builds_url m validate op route url" and "validate v = None"
    and "route (answering status rval) (url v) = Inr u"
  shows "map (\<lambda>call. (Method (fst call), URL (fst call))) (fst (op (answering status rval) v)) =
    [(m, u)]"
proof -
  let ?p = "answering status rval :: ('b, 'r) appsec"
  have accepted: "request_fault ?p m = None"
    by (simp add: answering_def)
  from assms(1) [unfolded builds_url_def, rule_format, of ?p v]
  have "\<forall>u. validate v = None \<and> request_fault ?p m = None \<and> route ?p (url v) = Inr u \<longrightarrow>
      (\<exists>hdr body. fst (op ?p v) = [(\<lparr>Method = m, URL = u, Header = hdr\<rparr>, body)])"
    by blast
  from this [rule_format, OF conjI [OF assms(2) conjI [OF accepted assms(3)]]]
  show ?thesis
    by auto
qed

text \<open>
  C7, as stated: an optional query parameter, such as the hostname filter of
  \<open>GetApiHostnameCoverageOverlapping\<close>, is appended to the URL only when its field
  is not at the default, so that with \<open>Hostname\<close> empty the URL has no hostname
  query parameter. It has one: the format of the URL ends in \<open>?hostname=%s\<close>
  whatever the field holds.
\<close>

theorem GetApiHostnameCoverageOverlapping_empty_hostname:
  "fst (GetApiHostnameCoverageOverlapping (answering 200 () :: (unit, unit) appsec)
          \<lparr>GetApiHostnameCoverageOverlappingRequest.ConfigID = 1, Version = 2, Hostname = []\<rparr>) =
     [(\<lparr>Method = ''GET'',
        URL = ''/appsec/v1/configs/1/versions/2/hostname-coverage/overlapping?hostname='',
        Header = []\<rparr>, [])]"
  by (simp add: GetApiHostnameCoverageOverlapping_def
        GetApiHostnameCoverageOverlappingRequest_Validate_def eval_defs)

text \<open>
  C7, amended. For every operation, the URL string that the operation builds is
  its path with every path parameter of the request in it (integers in decimal);
  the query parameters of an operation are part of its format and are always
  appended: \<open>includeConditionException=true\<close> for \<open>GetAttackGroup\<close> and
  \<open>GetAttackGroups\<close>, \<open>includeChildObjectName=true\<close> for \<open>GetMatchTarget\<close>, and
  \<open>hostname=\<close> followed by \<open>Hostname\<close> for \<open>GetApiHostnameCoverageOverlapping\<close>,
  also when \<open>Hostname\<close> is empty. The request handed to the transport has the
  method of the operation and holds that string as \<open>url.Parse\<close> reads it
  (\<open>RemoveCustomDeny\<close> and \<open>RemoveReputationProfile\<close> parse the string themselves
  and pass the text of the parsed URL on, so that it is parsed twice); a request
  that passes validation and can be built is handed over, once.
\<close>

theorem urls_of_operations:
  "(builds_url MethodGet GetApiHostnameCoverageOverlappingRequest_Validate GetApiHostnameCoverageOverlapping url_Parse
     (\<lambda>v.
          configs_versions (GetApiHostnameCoverageOverlappingRequest.ConfigID v) (GetApiHostnameCoverageOverlappingRequest.Version v) @
          ''/hostname-coverage/overlapping?hostname='' @
          GetApiHostnameCoverageOverlappingRequest.Hostname v)) \<and>
   (builds_url MethodGet GetAttackGroupRequest_Validate GetAttackGroup url_Parse
     (\<lambda>v.
          configs_versions (GetAttackGroupRequest.ConfigID v) (GetAttackGroupRequest.Version v) @
          ''/security-policies/'' @ GetAttackGroupRequest.PolicyID v @
          ''/attack-groups/'' @ GetAttackGroupRequest.Group v @
          ''?includeConditionException=true'')) \<and>
   (builds_url MethodGet GetAttackGroupsRequest_Validate GetAttackGroups url_Parse
     (\<lambda>v.
          configs_versions (GetAttackGroupsRequest.ConfigID v) (GetAttackGroupsRequest.Version v) @
          ''/security-policies/'' @ GetAttackGroupsRequest.PolicyID v @
          ''/attack-groups?includeConditionException=true'')) \<and>
   (builds_url MethodPut UpdateAttackGroupRequest_Validate UpdateAttackGroup url_Parse
     (\<lambda>v.
          configs_versions (UpdateAttackGroupRequest.ConfigID v) (UpdateAttackGroupRequest.Version v) @
          ''/security-policies/'' @ UpdateAttackGroupRequest.PolicyID v @
          ''/attack-groups/'' @ UpdateAttackGroupRequest.Group v @
          ''/action-condition-exception'')) \<and>
   (builds_url MethodGet GetConfigurationCloneRequest_Validate GetConfigurationClone url_Parse
     (\<lambda>v.
          configs_versions (GetConfigurationCloneRequest.ConfigID v) (GetConfigurationCloneRequest.Version v))) \<and>
   (builds_url MethodPost CreateConfigurationCloneRequest_Validate CreateConfigurationClone url_Parse
     (\<lambda>v. ''/appsec/v1/configs/'')) \<and>
   (builds_url MethodGet GetCustomDenyRequest_Validate GetCustomDeny url_Parse
     (\<lambda>v.
          configs_versions (GetCustomDenyRequest.ConfigID v) (GetCustomDenyRequest.Version v) @
          ''/custom-deny/'' @ GetCustomDenyRequest.ID v)) \<and>
   (builds_url MethodGet GetCustomDenyListRequest_Validate GetCustomDenyList url_Parse
     (\<lambda>v.
          configs_versions (GetCustomDenyListRequest.ConfigID v) (GetCustomDenyListRequest.Version v) @
          ''/custom-deny'')) \<and>
   (builds_url MethodPut UpdateCustomDenyRequest_Validate UpdateCustomDeny url_Parse
     (\<lambda>v.
          configs_versions (UpdateCustomDenyRequest.ConfigID v) (UpdateCustomDenyRequest.Version v) @
          ''/custom-deny/'' @ UpdateCustomDenyRequest.ID v)) \<and>
   (builds_url MethodPost CreateCustomDenyRequest_Validate CreateCustomDeny url_Parse
     (\<lambda>v.
          configs_versions (CreateCustomDenyRequest.ConfigID v) (CreateCustomDenyRequest.Version v) @
          ''/custom-deny'')) \<and>
   (builds_url MethodDelete RemoveCustomDenyRequest_Validate RemoveCustomDeny parsed_twice
     (\<lambda>v.
          configs_versions (RemoveCustomDenyRequest.ConfigID v) (RemoveCustomDenyRequest.Version v) @
          ''/custom-deny/'' @ RemoveCustomDenyRequest.ID v)) \<and>
   (builds_url MethodGet GetMatchTargetRequest_Validate GetMatchTarget url_Parse
     (\<lambda>v.
          configs_versions (GetMatchTargetRequest.ConfigID v) (GetMatchTargetRequest.ConfigVersion v) @
          ''/match-targets/'' @ Itoa (GetMatchTargetRequest.TargetID v) @
          ''?includeChildObjectName=true'')) \<and>
   (builds_url MethodGet GetMatchTargetsRequest_Validate GetMatchTargets url_Parse
     (\<lambda>v.
          configs_versions (GetMatchTargetsRequest.ConfigID v) (GetMatchTargetsRequest.ConfigVersion v) @
          ''/match-targets'')) \<and>
   (builds_url MethodPut UpdateMatchTargetRequest_Validate UpdateMatchTarget url_Parse
     (\<lambda>v.
          configs_versions (UpdateMatchTargetRequest.ConfigID v) (UpdateMatchTargetRequest.ConfigVersion v) @
          ''/match-targets/'' @ Itoa (UpdateMatchTargetRequest.TargetID v))) \<and>
   (builds_url MethodPost CreateMatchTargetRequest_Validate CreateMatchTarget url_Parse
     (\<lambda>v.
          configs_versions (CreateMatchTargetRequest.ConfigID v) (CreateMatchTargetRequest.ConfigVersion v) @
          ''/match-targets'')) \<and>
   (builds_url MethodDelete RemoveMatchTargetRequest_Validate RemoveMatchTarget url_Parse
     (\<lambda>v.
          configs_versions (RemoveMatchTargetRequest.ConfigID v) (RemoveMatchTargetRequest.ConfigVersion v) @
          ''/match-targets/'' @ Itoa (RemoveMatchTargetRequest.TargetID v))) \<and>
   (builds_url MethodGet GetReputationAnalysisRequest_Validate GetReputationAnalysis url_Parse
     (\<lambda>v.
          configs_versions (GetReputationAnalysisRequest.ConfigID v) (GetReputationAnalysisRequest.Version v) @
          ''/security-policies/'' @ GetReputationAnalysisRequest.PolicyID v @
          ''/reputation-analysis'')) \<and>
   (builds_url MethodPut UpdateReputationAnalysisRequest_Validate UpdateReputationAnalysis url_Parse
     (\<lambda>v.
          configs_versions (UpdateReputationAnalysisRequest.ConfigID v) (UpdateReputationAnalysisRequest.Version v) @
          ''/security-policies/'' @ UpdateReputationAnalysisRequest.PolicyID v @
          ''/reputation-analysis'')) \<and>
   (builds_url MethodPut (\<lambda>v. None) RemoveReputationAnalysis url_Parse
     (\<lambda>v.
          configs_versions (RemoveReputationAnalysisRequest.ConfigID v) (RemoveReputationAnalysisRequest.Version v) @
          ''/security-policies/'' @ RemoveReputationAnalysisRequest.PolicyID v @
          ''/reputation-analysis'')) \<and>
   (builds_url MethodGet GetReputationProfileRequest_Validate GetReputationProfile url_Parse
     (\<lambda>v.
          configs_versions (GetReputationProfileRequest.ConfigID v) (GetReputationProfileRequest.ConfigVersion v) @
          ''/reputation-profiles/'' @
          Itoa (GetReputationProfileRequest.ReputationProfileId v))) \<and>
   (builds_url MethodGet GetReputationProfilesRequest_Validate GetReputationProfiles url_Parse
     (\<lambda>v.
          configs_versions (GetReputationProfilesRequest.ConfigID v) (GetReputationProfilesRequest.ConfigVersion v) @
          ''/reputation-profiles'')) \<and>
   (builds_url MethodPut UpdateReputationProfileRequest_Validate UpdateReputationProfile url_Parse
     (\<lambda>v.
          configs_versions (UpdateReputationProfileRequest.ConfigID v) (UpdateReputationProfileRequest.ConfigVersion v) @
          ''/reputation-profiles/'' @
          Itoa (UpdateReputationProfileRequest.ReputationProfileId v))) \<and>
   (builds_url MethodPost CreateReputationProfileRequest_Validate CreateReputationProfile url_Parse
     (\<lambda>v.
          configs_versions (CreateReputationProfileRequest.ConfigID v) (CreateReputationProfileRequest.ConfigVersion v) @
          ''/reputation-profiles'')) \<and>
   (builds_url MethodDelete RemoveReputationProfileRequest_Validate RemoveReputationProfile parsed_twice
     (\<lambda>v.
          configs_versions (RemoveReputationProfileRequest.ConfigID v) (RemoveReputationProfileRequest.ConfigVersion v) @
          ''/reputation-profiles/'' @
          Itoa (RemoveReputationProfileRequest.ReputationProfileId v))) \<and>
   (builds_url MethodGet GetVersionNotesRequest_Validate GetVersionNotes url_Parse
     (\<lambda>v.
          configs_versions (GetVersionNotesRequest.ConfigID v) (GetVersionNotesRequest.Version v) @
          ''/version-notes'')) \<and>
   (builds_url MethodPut UpdateVersionNotesRequest_Validate UpdateVersionNotes url_Parse
     (\<lambda>v.
          configs_versions (UpdateVersionNotesRequest.ConfigID v) (UpdateVersionNotesRequest.Version v) @
          ''/version-notes''))"
  by (intro conjI)
     (rule GetApiHostnameCoverageOverlapping_url
       GetAttackGroup_url
       GetAttackGroups_url
       UpdateAttackGroup_url
       GetConfigurationClone_url
       CreateConfigurationClone_url
       GetCustomDeny_url
       GetCustomDenyList_url
       UpdateCustomDeny_url
       CreateCustomDeny_url
       RemoveCustomDeny_url
       GetMatchTarget_url
       GetMatchTargets_url
       UpdateMatchTarget_url
       CreateMatchTarget_url
       RemoveMatchTarget_url
       GetReputationAnalysis_url
       UpdateReputationAnalysis_url
       RemoveReputationAnalysis_url
       GetReputationProfile_url
       GetReputationProfiles_url
       UpdateReputationProfile_url
       CreateReputationProfile_url
       RemoveReputationProfile_url
       GetVersionNotes_url
       UpdateVersionNotes_url)+

theorem urls_of_operations_witness:
  "map (\<lambda>call. (Method (fst call), URL (fst call)))
     (fst (GetApiHostnameCoverageOverlapping (answering 200 () :: (unit, unit) appsec)
        \<lparr>GetApiHostnameCoverageOverlappingRequest.ConfigID = 1, Version = 2,
         Hostname = ''www.example.com''\<rparr>)) =
     [(''GET'', ''/appsec/v1/configs/1/versions/2/hostname-coverage/overlapping?hostname=www.example.com'')] \<and>
   map (\<lambda>call. (Method (fst call), URL (fst call)))
     (fst (GetApiHostnameCoverageOverlapping (answering 200 () :: (unit, unit) appsec)
        \<lparr>GetApiHostnameCoverageOverlappingRequest.ConfigID = 1, Version = 2, Hostname = []\<rparr>)) =
     [(''GET'', ''/appsec/v1/configs/1/versions/2/hostname-coverage/overlapping?hostname='')] \<and>
   map (\<lambda>call. (Method (fst call), URL (fst call)))
     (fst (RemoveCustomDeny (answering 204 () :: (unit, unit) appsec)
        \<lparr>RemoveCustomDenyRequest.ConfigID = 1, Version = 2, ID = ''deny_custom_1''\<rparr>)) =
     [(''DELETE'', ''/appsec/v1/configs/1/versions/2/custom-deny/deny_custom_1'')]"
proof -
  note hostname = builds_url_answering [where ?'b = unit and ?'r = unit and rval = "()",
      OF urls_of_operations [THEN conjunct1]]
  note remove = builds_url_answering [where ?'b = unit and ?'r = unit and rval = "()",
      OF urls_of_operations
        [THEN conjunct2, THEN conjunct2, THEN conjunct2, THEN conjunct2, THEN conjunct2,
         THEN conjunct2, THEN conjunct2, THEN conjunct2, THEN conjunct2, THEN conjunct2,
         THEN conjunct1]]
  have valid: "GetApiHostnameCoverageOverlappingRequest_Validate
      \<lparr>GetApiHostnameCoverageOverlappingRequest.ConfigID = 1, Version = 2, Hostname = h\<rparr> = None" for h
    by (simp add: GetApiHostnameCoverageOverlappingRequest_Validate_def Filter_def Required_int_def)
  have valid_remove: "RemoveCustomDenyRequest_Validate
      \<lparr>RemoveCustomDenyRequest.ConfigID = 1, Version = 2, ID = ''deny_custom_1''\<rparr> = None"
    by (simp add: RemoveCustomDenyRequest_Validate_def Filter_def Required_int_def Required_string_def)
  have named: "map (\<lambda>call. (Method (fst call), URL (fst call)))
     (fst (GetApiHostnameCoverageOverlapping (answering 200 () :: (unit, unit) appsec)
        \<lparr>GetApiHostnameCoverageOverlappingRequest.ConfigID = 1, Version = 2,
         Hostname = ''www.example.com''\<rparr>)) =
     [(MethodGet, ''/appsec/v1/configs/1/versions/2/hostname-coverage/overlapping?hostname=www.example.com'')]"
    by (rule hostname [OF valid]) (simp add: configs_versions_def eval_defs)
  have empty: "map (\<lambda>call. (Method (fst call), URL (fst call)))
     (fst (GetApiHostnameCoverageOverlapping (answering 200 () :: (unit, unit) appsec)
        \<lparr>GetApiHostnameCoverageOverlappingRequest.ConfigID = 1, Version = 2, Hostname = []\<rparr>)) =
     [(MethodGet, ''/appsec/v1/configs/1/versions/2/hostname-coverage/overlapping?hostname='')]"
    by (rule hostname [OF valid]) (simp add: configs_versions_def eval_defs)
  have removed: "map (\<lambda>call. (Method (fst call), URL (fst call)))
     (fst (RemoveCustomDeny (answering 204 () :: (unit, unit) appsec)
        \<lparr>RemoveCustomDenyRequest.ConfigID = 1, Version = 2, ID = ''deny_custom_1''\<rparr>)) =
     [(MethodDelete, ''/appsec/v1/configs/1/versions/2/custom-deny/deny_custom_1'')]"
    by (rule remove [OF valid_remove])
       (simp add: parsed_twice_def configs_versions_def eval_defs)
  from named empty removed show ?thesis
    by (simp add: MethodGet_def MethodDelete_def)
qed


subsection \<open>Zero values\<close>

text \<open>
  C10, as stated: for every request type, a request with \<open>ConfigID\<close> 0, \<open>Version\<close>
  (or \<open>ConfigVersion\<close>) 0 or an empty required string fails validation, so that no
  operation addresses a resource whose identifier is zero.
  \<open>CreateConfigurationCloneRequest.Validate\<close> requires \<open>CreateFrom.ConfigID\<close> only:
  a request to clone version 0 of configuration 5 passes validation and is sent.
\<close>

theorem CreateConfigurationClone_accepts_version_zero:
  "CreateConfigurationCloneRequest_Validate
     \<lparr>CreateConfigurationCloneRequest.Name = ''clone'', Description = [], ContractID = ''C-1'', GroupID = 10, Hostnames = [],
      CreateFrom = \<lparr>CreateFrom.ConfigID = 5, Version = 0\<rparr>\<rparr> = None \<and>
   CreateConfigurationClone (answering 201 ())
     \<lparr>CreateConfigurationCloneRequest.Name = ''clone'', Description = [], ContractID = ''C-1'', GroupID = 10, Hostnames = [],
      CreateFrom = \<lparr>CreateFrom.ConfigID = 5, Version = 0\<rparr>\<rparr> =
     ([(\<lparr>Method = ''POST'', URL = ''/appsec/v1/configs/'', Header = []\<rparr>,
        [\<lparr>CreateConfigurationCloneRequest.Name = ''clone'', Description = [], ContractID = ''C-1'', GroupID = 10, Hostnames = [],
          CreateFrom = \<lparr>CreateFrom.ConfigID = 5, Version = 0\<rparr>\<rparr>])],
      Some (), None)"
  by (simp add: CreateConfigurationClone_def CreateConfigurationCloneRequest_Validate_def eval_defs)

text \<open>
  C10, amended. Every \<open>Validate\<close> method treats the zero value of each field it
  requires as missing: it accepts a request exactly when none of them is zero. The
  required fields are \<open>ConfigID\<close>, \<open>Version\<close> (or \<open>ConfigVersion\<close>) and, where the
  request type has one, its policy or resource identifier; for
  \<open>CreateConfigurationCloneRequest\<close> the only one is \<open>CreateFrom.ConfigID\<close>. Every
  operation that calls \<open>Validate\<close> returns the validation error for a rejected
  request without calling \<open>Exec\<close>, so that through these operations no resource
  whose required identifier is zero is addressed.
\<close>

theorem zero_values_are_missing:
  "(requires GetApiHostnameCoverageOverlappingRequest_Validate
     [\<lambda>v. GetApiHostnameCoverageOverlappingRequest.ConfigID v = 0,
      \<lambda>v. GetApiHostnameCoverageOverlappingRequest.Version v = 0]) \<and>
   validates_first GetApiHostnameCoverageOverlappingRequest_Validate GetApiHostnameCoverageOverlapping \<and>
   (requires GetAttackGroupRequest_Validate
     [\<lambda>v. GetAttackGroupRequest.ConfigID v = 0,
      \<lambda>v. GetAttackGroupRequest.Version v = 0,
      \<lambda>v. GetAttackGroupRequest.PolicyID v = []]) \<and>
   validates_first GetAttackGroupRequest_Validate GetAttackGroup \<and>
   (requires GetAttackGroupsRequest_Validate
     [\<lambda>v. GetAttackGroupsRequest.ConfigID v = 0,
      \<lambda>v. GetAttackGroupsRequest.Version v = 0,
      \<lambda>v. GetAttackGroupsRequest.PolicyID v = []]) \<and>
   validates_first GetAttackGroupsRequest_Validate GetAttackGroups \<and>
   (requires UpdateAttackGroupRequest_Validate
     [\<lambda>v. UpdateAttackGroupRequest.ConfigID v = 0,
      \<lambda>v. UpdateAttackGroupRequest.Version v = 0,
      \<lambda>v. UpdateAttackGroupRequest.PolicyID v = []]) \<and>
   validates_first UpdateAttackGroupRequest_Validate UpdateAttackGroup \<and>
   (requires GetConfigurationCloneRequest_Validate
     [\<lambda>v. GetConfigurationCloneRequest.ConfigID v = 0,
      \<lambda>v. GetConfigurationCloneRequest.Version v = 0]) \<and>
   validates_first GetConfigurationCloneRequest_Validate GetConfigurationClone \<and>
   (requires CreateConfigurationCloneRequest_Validate
     [\<lambda>v. CreateFrom.ConfigID (CreateFrom v) = 0]) \<and>
   validates_first CreateConfigurationCloneRequest_Validate CreateConfigurationClone \<and>
   (requires GetCustomDenyRequest_Validate
     [\<lambda>v. GetCustomDenyRequest.ConfigID v = 0,
      \<lambda>v. GetCustomDenyRequest.Version v = 0,
      \<lambda>v. GetCustomDenyRequest.ID v = []]) \<and>
   validates_first GetCustomDenyRequest_Validate GetCustomDeny \<and>
   (requires GetCustomDenyListRequest_Validate
     [\<lambda>v. GetCustomDenyListRequest.ConfigID v = 0,
      \<lambda>v. GetCustomDenyListRequest.Version v = 0]) \<and>
   validates_first GetCustomDenyListRequest_Validate GetCustomDenyList \<and>
   (requires UpdateCustomDenyRequest_Validate
     [\<lambda>v. UpdateCustomDenyRequest.ConfigID v = 0,
      \<lambda>v. UpdateCustomDenyRequest.Version v = 0,
      \<lambda>v. UpdateCustomDenyRequest.ID v = []]) \<and>
   validates_first UpdateCustomDenyRequest_Validate UpdateCustomDeny \<and>
   (requires CreateCustomDenyRequest_Validate
     [\<lambda>v. CreateCustomDenyRequest.ConfigID v = 0,
      \<lambda>v. CreateCustomDenyRequest.Version v = 0]) \<and>
   validates_first CreateCustomDenyRequest_Validate CreateCustomDeny \<and>
   (requires RemoveCustomDenyRequest_Validate
     [\<lambda>v. RemoveCustomDenyRequest.ConfigID v = 0,
      \<lambda>v. RemoveCustomDenyRequest.Version v = 0,
      \<lambda>v. RemoveCustomDenyRequest.ID v = []]) \<and>
   validates_first RemoveCustomDenyRequest_Validate RemoveCustomDeny \<and>
   (requires GetMatchTargetRequest_Validate
     [\<lambda>v. GetMatchTargetRequest.ConfigID v = 0,
      \<lambda>v. GetMatchTargetRequest.ConfigVersion v = 0,
      \<lambda>v. GetMatchTargetRequest.TargetID v = 0]) \<and>
   validates_first GetMatchTargetRequest_Validate GetMatchTarget \<and>
   (requires GetMatchTargetsRequest_Validate
     [\<lambda>v. GetMatchTargetsRequest.ConfigID v = 0,
      \<lambda>v. GetMatchTargetsRequest.ConfigVersion v = 0]) \<and>
   validates_first GetMatchTargetsRequest_Validate GetMatchTargets \<and>
   (requires UpdateMatchTargetRequest_Validate
     [\<lambda>v. UpdateMatchTargetRequest.ConfigID v = 0,
      \<lambda>v. UpdateMatchTargetRequest.ConfigVersion v = 0,
      \<lambda>v. UpdateMatchTargetRequest.TargetID v = 0]) \<and>
   validates_first UpdateMatchTargetRequest_Validate UpdateMatchTarget \<and>
   (requires CreateMatchTargetRequest_Validate
     [\<lambda>v. CreateMatchTargetRequest.ConfigID v = 0,
      \<lambda>v. CreateMatchTargetRequest.ConfigVersion v = 0]) \<and>
   validates_first CreateMatchTargetRequest_Validate CreateMatchTarget \<and>
   (requires RemoveMatchTargetRequest_Validate
     [\<lambda>v. RemoveMatchTargetRequest.ConfigID v = 0,
      \<lambda>v. RemoveMatchTargetRequest.ConfigVersion v = 0,
      \<lambda>v. RemoveMatchTargetRequest.TargetID v = 0]) \<and>
   validates_first RemoveMatchTargetRequest_Validate RemoveMatchTarget \<and>
   (requires GetReputationAnalysisRequest_Validate
     [\<lambda>v. GetReputationAnalysisRequest.ConfigID v = 0,
      \<lambda>v. GetReputationAnalysisRequest.Version v = 0,
      \<lambda>v. GetReputationAnalysisRequest.PolicyID v = []]) \<and>
   validates_first GetReputationAnalysisRequest_Validate GetReputationAnalysis \<and>
   (requires UpdateReputationAnalysisRequest_Validate
     [\<lambda>v. UpdateReputationAnalysisRequest.ConfigID v = 0,
      \<lambda>v. UpdateReputationAnalysisRequest.Version v = 0,
      \<lambda>v. UpdateReputationAnalysisRequest.PolicyID v = []]) \<and>
   validates_first UpdateReputationAnalysisRequest_Validate UpdateReputationAnalysis \<and>
   (requires RemoveReputationAnalysisRequest_Validate
     [\<lambda>v. RemoveReputationAnalysisRequest.ConfigID v = 0,
      \<lambda>v. RemoveReputationAnalysisRequest.Version v = 0,
      \<lambda>v. RemoveReputationAnalysisRequest.PolicyID v = []]) \<and>
   (requires GetReputationProfileRequest_Validate
     [\<lambda>v. GetReputationProfileRequest.ConfigID v = 0,
      \<lambda>v. GetReputationProfileRequest.ConfigVersion v = 0,
      \<lambda>v. GetReputationProfileRequest.ReputationProfileId v = 0]) \<and>
   validates_first GetReputationProfileRequest_Validate GetReputationProfile \<and>
   (requires GetReputationProfilesRequest_Validate
     [\<lambda>v. GetReputationProfilesRequest.ConfigID v = 0,
      \<lambda>v. GetReputationProfilesRequest.ConfigVersion v = 0]) \<and>
   validates_first GetReputationProfilesRequest_Validate GetReputationProfiles \<and>
   (requires UpdateReputationProfileRequest_Validate
     [\<lambda>v. UpdateReputationProfileRequest.ConfigID v = 0,
      \<lambda>v. UpdateReputationProfileRequest.ConfigVersion v = 0,
      \<lambda>v. UpdateReputationProfileRequest.ReputationProfileId v = 0]) \<and>
   validates_first UpdateReputationProfileRequest_Validate UpdateReputationProfile \<and>
   (requires CreateReputationProfileRequest_Validate
     [\<lambda>v. CreateReputationProfileRequest.ConfigID v = 0,
      \<lambda>v. CreateReputationProfileRequest.ConfigVersion v = 0]) \<and>
   validates_first CreateReputationProfileRequest_Validate CreateReputationProfile \<and>
   (requires RemoveReputationProfileRequest_Validate
     [\<lambda>v. RemoveReputationProfileRequest.ConfigID v = 0,
      \<lambda>v. RemoveReputationProfileRequest.ConfigVersion v = 0,
      \<lambda>v. RemoveReputationProfileRequest.ReputationProfileId v = 0]) \<and>
   validates_first RemoveReputationProfileRequest_Validate RemoveReputationProfile \<and>
   (requires GetVersionNotesRequest_Validate
     [\<lambda>v. GetVersionNotesRequest.ConfigID v = 0,
      \<lambda>v. GetVersionNotesRequest.Version v = 0]) \<and>
   validates_first GetVersionNotesRequest_Validate GetVersionNotes \<and>
   (requires UpdateVersionNotesRequest_Validate
     [\<lambda>v. UpdateVersionNotesRequest.ConfigID v = 0,
      \<lambda>v. UpdateVersionNotesRequest.Version v = 0]) \<and>
   validates_first UpdateVersionNotesRequest_Validate UpdateVersionNotes"
  by (intro conjI)
     (rule GetApiHostnameCoverageOverlappingRequest_requires
       GetAttackGroupRequest_requires
       GetAttackGroupsRequest_requires
       UpdateAttackGroupRequest_requires
       GetConfigurationCloneRequest_requires
       CreateConfigurationCloneRequest_requires
       GetCustomDenyRequest_requires
       GetCustomDenyListRequest_requires
       UpdateCustomDenyRequest_requires
       CreateCustomDenyRequest_requires
       RemoveCustomDenyRequest_requires
       GetMatchTargetRequest_requires
       GetMatchTargetsRequest_requires
       UpdateMatchTargetRequest_requires
       CreateMatchTargetRequest_requires
       RemoveMatchTargetRequest_requires
       GetReputationAnalysisRequest_requires
       UpdateReputationAnalysisRequest_requires
       RemoveReputationAnalysisRequest_requires
       GetReputationProfileRequest_requires
       GetReputationProfilesRequest_requires
       UpdateReputationProfileRequest_requires
       CreateReputationProfileRequest_requires
       RemoveReputationProfileRequest_requires
       GetVersionNotesRequest_requires
       UpdateVersionNotesRequest_requires
       GetApiHostnameCoverageOverlapping_validates
       GetAttackGroup_validates
       GetAttackGroups_validates
       UpdateAttackGroup_validates
       GetConfigurationClone_validates
       CreateConfigurationClone_validates
       GetCustomDeny_validates
       GetCustomDenyList_validates
       UpdateCustomDeny_validates
       CreateCustomDeny_validates
       RemoveCustomDeny_validates
       GetMatchTarget_validates
       GetMatchTargets_validates
       UpdateMatchTarget_validates
       CreateMatchTarget_validates
       RemoveMatchTarget_validates
       GetReputationAnalysis_validates
       UpdateReputationAnalysis_validates
       GetReputationProfile_validates
       GetReputationProfiles_validates
       UpdateReputationProfile_validates
       CreateReputationProfile_validates
       RemoveReputationProfile_validates
       GetVersionNotes_validates
       UpdateVersionNotes_validates)+

theorem zero_values_are_missing_witness:
  "GetApiHostnameCoverageOverlappingRequest_Validate
     \<lparr>GetApiHostnameCoverageOverlappingRequest.ConfigID = 0, Version = 2,
      Hostname = ''www.example.com''\<rparr> =
     Some (validation_Errors [(''ConfigID'', ''cannot be blank'')]) \<and>
   GetApiHostnameCoverageOverlapping (answering 200 () :: (unit, unit) appsec)
     \<lparr>GetApiHostnameCoverageOverlappingRequest.ConfigID = 0, Version = 2,
      Hostname = ''www.example.com''\<rparr> =
     ([], None,
      Some (fmt_Errorf ''%w: %s'' (Some ErrStructValidation) [''ConfigID: cannot be blank.'']))"
proof -
  let ?p = "answering 200 () :: (unit, unit) appsec"
  let ?r = "\<lparr>GetApiHostnameCoverageOverlappingRequest.ConfigID = 0, Version = 2,
      Hostname = ''www.example.com''\<rparr>"
  note first = conjunct1 [OF zero_values_are_missing]
  have required: "requires GetApiHostnameCoverageOverlappingRequest_Validate
      [\<lambda>v. GetApiHostnameCoverageOverlappingRequest.ConfigID v = 0,
       \<lambda>v. GetApiHostnameCoverageOverlappingRequest.Version v = 0]"
    by (rule first)
  have validated: "validates_first GetApiHostnameCoverageOverlappingRequest_Validate
      (GetApiHostnameCoverageOverlapping :: (unit, unit) appsec \<Rightarrow> _)"
    by (rule conjunct1 [OF conjunct2 [OF zero_values_are_missing]])
  have "GetApiHostnameCoverageOverlappingRequest_Validate ?r \<noteq> None"
    using required [unfolded requires_def, rule_format, of ?r] by simp
  then obtain err where err: "GetApiHostnameCoverageOverlappingRequest_Validate ?r = Some err"
    by blast
  have rejected: "GetApiHostnameCoverageOverlapping ?p ?r =
      ([], None, Some (fmt_Errorf ''%w: %s'' (Some ErrStructValidation) [error_Error err]))"
    using validated [unfolded validates_first_def, rule_format, OF err] .
  have "GetApiHostnameCoverageOverlappingRequest_Validate ?r =
      Some (validation_Errors [(''ConfigID'', ''cannot be blank'')])"
    by (simp add: GetApiHostnameCoverageOverlappingRequest_Validate_def eval_defs)
  with err have err_def: "err = validation_Errors [(''ConfigID'', ''cannot be blank'')]"
    by simp
  have "error_Error err = ''ConfigID: cannot be blank.''"
    by (simp add: err_def Errors_Error_def)
  with err rejected show ?thesis
    by (simp add: err_def)
qed



end
